theory Spec2Isabelle
  imports Complex_Main
begin

section \<open>Cruise MLP evaluator: data model\<close>

text \<open>
  A shallow embedding of \<^verbatim>\<open>modules/prediction/evaluator/vehicle/cruise_mlp_evaluator.cc\<close>.
  A C++ \<^verbatim>\<open>double\<close> is a \<^typ>\<open>real\<close>: rounding, infinities and NaN are not modelled, and the
  conversion to \<^verbatim>\<open>float\<close> in \<^verbatim>\<open>VectorToMatrixXf\<close> is the identity. Container sizes and indices
  are \<^typ>\<open>nat\<close> (no \<^verbatim>\<open>size_t\<close> or \<^verbatim>\<open>int\<close> overflow: the sizes involved are a few hundred).

  The protobuf messages are records. An optional field that the code reads is a pair of
  fields: the \<^verbatim>\<open>has_...\<close> bit and the value the accessor returns (the value set, or the
  proto default when the bit is clear). An optional field that the code only writes
  (\<^verbatim>\<open>probability\<close>, \<^verbatim>\<open>time_to_lane_center\<close>) is an \<^typ>\<open>'a option\<close>. A point is the pair of its
  \<^verbatim>\<open>x()\<close> and \<^verbatim>\<open>y()\<close>.
\<close>

record LanePoint =
  lp_has_position :: bool
  lp_position :: "real \<times> real"
  lp_heading :: real
  lp_kappa :: real

record NearbyObstacle =
  has_id :: bool
  nearby_id :: int
  nearby_s :: real
  nearby_l :: real

text \<open>A lane segment is the list of its lane points (\<^verbatim>\<open>lane_point(j)\<close>, \<^verbatim>\<open>lane_point_size()\<close>).\<close>

type_synonym LaneSegment = "LanePoint list"

record LaneSequence =
  lane_segment :: "LaneSegment list"
  nearby_obstacle :: "NearbyObstacle list"
  vehicle_on_lane :: bool
  probability :: "real option"
  time_to_lane_center :: "real option"
  mlp_features :: "real list"

record LaneFeature =
  angle_diff :: real
  lane_l :: real
  dist_to_left_boundary :: real
  dist_to_right_boundary :: real
  lane_turn_type :: int

text \<open>A lane graph is the list of its lane sequences.\<close>

record Lane =
  has_lane_feature :: bool
  lane_feature :: LaneFeature
  has_lane_graph :: bool
  lane_graph :: "LaneSequence list"

record Feature =
  IsInitialized :: bool
  timestamp :: real
  has_position :: bool
  position :: "real \<times> real"
  has_velocity :: bool
  velocity :: "real \<times> real"
  has_acceleration :: bool
  acceleration :: "real \<times> real"
  has_velocity_heading :: bool
  velocity_heading :: real
  speed :: real
  feature_length :: real
  has_lane :: bool
  lane :: Lane

text \<open>
  Modelled from the spec: the class \<^verbatim>\<open>Obstacle\<close> (obstacle.h) is not part of this source.
  The spec gives it an identifier and an ordered history of observations, most recent
  first, whose entry 0 is the latest observation; the history cut-off is taken from the
  latest observation's timestamp. The latest observation is a field of its own, so a
  history is never empty.
\<close>

record Obstacle =
  obstacle_id :: int
  latest_feature :: Feature
  older_features :: "Feature list"

definition feature_history :: "Obstacle \<Rightarrow> Feature list" where
  "feature_history obs = latest_feature obs # older_features obs"

definition history_size :: "Obstacle \<Rightarrow> nat" where
  "history_size obs = length (feature_history obs)"

definition obstacle_timestamp :: "Obstacle \<Rightarrow> real" where
  "obstacle_timestamp obs = timestamp (latest_feature obs)"

text \<open>
  The constants of the class declaration (cruise_mlp_evaluator.h) and the gflags are not
  part of this source. Those the spec does not give a value are parameters, as are the two
  loaded models, the obstacles container and \<^verbatim>\<open>common::math::NormalizeAngle\<close>.

  Modelled from the spec: \<^verbatim>\<open>CruiseModel::Run\<close> returns a matrix of at least one row and two
  columns; a model is the function from its two input matrices (lane block, obstacle
  block) to the entries (0,0) and (0,1) of that output.
\<close>

type_synonym matrix = "real list list"

record env =
  OBSTACLE_FEATURE_SIZE :: nat
  LANE_POINTS_SIZE :: nat
  cruise_historical_frame_length :: nat
  prediction_trajectory_time_length :: real
  double_precision :: real
  default_s_if_no_obstacle_in_lane_sequence :: real
  default_l_if_no_obstacle_in_lane_sequence :: real
  prediction_offline_mode :: bool
  NormalizeAngle :: "real \<Rightarrow> real"
  GetObstacle :: "int \<Rightarrow> Obstacle option"
  go_model :: "matrix \<Rightarrow> matrix \<Rightarrow> real \<times> real"
  cutin_model :: "matrix \<Rightarrow> matrix \<Rightarrow> real \<times> real"

text \<open>
  Modelled from the spec: the feature vector is laid out as obstacle block, interaction
  block of 8 values, lane block of 4 values per lane point.
\<close>

definition INTERACTION_FEATURE_SIZE :: nat where
  "INTERACTION_FEATURE_SIZE = 8"

definition SINGLE_LANE_FEATURE_SIZE :: nat where
  "SINGLE_LANE_FEATURE_SIZE = 4"

text \<open>\<^verbatim>\<open>std::numeric_limits<double>::epsilon()\<close>\<close>

definition double_epsilon :: real where
  "double_epsilon = 1 / 2 ^ 52"

section \<open>Numeric helpers\<close>

text \<open>
  \<^verbatim>\<open>ComputeMean\<close>: the loop runs over the indices \<open>start \<le> i \<le> end\<close> that are below the
  size of the vector.
\<close>

definition ComputeMean :: "real list \<Rightarrow> nat \<Rightarrow> nat \<Rightarrow> real" where
  "ComputeMean nums start end =
     (let idx = [start ..< min (Suc end) (length nums)];
          count = length idx;
          sum = foldl (\<lambda>s i. s + nums ! i) 0 idx
      in if count = 0 then 0 else sum / real count)"

text \<open>
  \<^verbatim>\<open>std::atan2\<close> of the C library, over the reals: the angle in \<open>(-\<pi>, \<pi>]\<close> of the point
  \<open>(x, y)\<close>, and 0 at the origin.
\<close>

definition atan2 :: "real \<Rightarrow> real \<Rightarrow> real" where
  "atan2 y x =
     (if 0 < x then arctan (y / x)
      else if x < 0 then (if 0 \<le> y then arctan (y / x) + pi else arctan (y / x) - pi)
      else if 0 < y then pi / 2
      else if y < 0 then - (pi / 2)
      else 0)"

definition WorldCoordToObjCoord ::
  "real \<times> real \<Rightarrow> real \<times> real \<Rightarrow> real \<Rightarrow> real \<times> real" where
  "WorldCoordToObjCoord input_world_coord obj_world_coord obj_world_angle =
     (let x_diff = fst input_world_coord - fst obj_world_coord;
          y_diff = snd input_world_coord - snd obj_world_coord;
          rho = sqrt (x_diff * x_diff + y_diff * y_diff);
          theta = atan2 y_diff x_diff - obj_world_angle
      in (cos theta * rho, sin theta * rho))"

definition WorldAngleToObjAngle :: "env \<Rightarrow> real \<Rightarrow> real \<Rightarrow> real" where
  "WorldAngleToObjAngle cfg input_world_angle obj_world_angle =
     NormalizeAngle cfg (input_world_angle - obj_world_angle)"

text \<open>
  The inverse of the local-frame transform, in the words of the spec: rotate by the
  heading, then translate by the origin.
\<close>

definition ObjCoordToWorldCoord ::
  "real \<times> real \<Rightarrow> real \<times> real \<Rightarrow> real \<Rightarrow> real \<times> real" where
  "ObjCoordToWorldCoord q obj_world_coord obj_world_angle =
     (cos obj_world_angle * fst q - sin obj_world_angle * snd q + fst obj_world_coord,
      sin obj_world_angle * fst q + cos obj_world_angle * snd q + snd obj_world_coord)"

section \<open>The obstacle block: \<^verbatim>\<open>SetObstacleFeatureValues\<close>\<close>

text \<open>
  The local variables of \<^verbatim>\<open>SetObstacleFeatureValues\<close> that the history loop updates.
\<close>

record hist_state =
  thetas :: "real list"
  lane_ls :: "real list"
  dist_lbs :: "real list"
  dist_rbs :: "real list"
  lane_types :: "int list"
  speeds :: "real list"
  timestamps :: "real list"
  count :: int
  has_history :: "int list"
  pos_history :: "(real \<times> real) list"
  vel_history :: "(real \<times> real) list"
  acc_history :: "(real \<times> real) list"
  vel_heading_history :: "real list"
  vel_heading_changing_rate_history :: "real list"
  prev_timestamp :: real

definition init_hist_state :: "env \<Rightarrow> Obstacle \<Rightarrow> hist_state" where
  "init_hist_state cfg obs =
     \<lparr>thetas = [], lane_ls = [], dist_lbs = [], dist_rbs = [], lane_types = [],
      speeds = [], timestamps = [], count = 0,
      has_history = replicate (cruise_historical_frame_length cfg) 1,
      pos_history = replicate (cruise_historical_frame_length cfg) (0, 0),
      vel_history = replicate (cruise_historical_frame_length cfg) (0, 0),
      acc_history = replicate (cruise_historical_frame_length cfg) (0, 0),
      vel_heading_history = replicate (cruise_historical_frame_length cfg) 0,
      vel_heading_changing_rate_history = replicate (cruise_historical_frame_length cfg) 0,
      prev_timestamp = timestamp (latest_feature obs)\<rparr>"

text \<open>The part of the loop body "for the old 23 features".\<close>

definition collect_lane_feature :: "Feature \<Rightarrow> hist_state \<Rightarrow> hist_state" where
  "collect_lane_feature feature st =
     (if has_lane feature \<and> has_lane_feature (lane feature) then
        st\<lparr>thetas := thetas st @ [angle_diff (lane_feature (lane feature))],
           lane_ls := lane_ls st @ [lane_l (lane_feature (lane feature))],
           dist_lbs := dist_lbs st @ [dist_to_left_boundary (lane_feature (lane feature))],
           dist_rbs := dist_rbs st @ [dist_to_right_boundary (lane_feature (lane feature))],
           lane_types := lane_types st @ [lane_turn_type (lane_feature (lane feature))],
           timestamps := timestamps st @ [timestamp feature],
           speeds := speeds st @ [speed feature],
           count := count st + 1\<rparr>
      else st)"

text \<open>
  The part of the loop body "for the new features based on the relative coordinate
  system", for the frame of index \<open>i\<close>.
\<close>

definition free_vector :: "real \<times> real \<Rightarrow> real \<times> real \<Rightarrow> real \<Rightarrow> real \<times> real" where
  "free_vector v obs_curr_pos obs_curr_heading =
     (let v_end = WorldCoordToObjCoord v obs_curr_pos obs_curr_heading;
          v_begin = WorldCoordToObjCoord (0, 0) obs_curr_pos obs_curr_heading
      in (fst v_end - fst v_begin, snd v_end - snd v_begin))"

definition update_window ::
  "env \<Rightarrow> real \<times> real \<Rightarrow> real \<Rightarrow> nat \<Rightarrow> Feature \<Rightarrow> hist_state \<Rightarrow> hist_state" where
  "update_window cfg obs_curr_pos obs_curr_heading i feature st =
     (if cruise_historical_frame_length cfg \<le> i then st
      else if i \<noteq> 0 \<and> has_history st ! (i - 1) = 0 then
        st\<lparr>has_history := (has_history st)[i := 0]\<rparr>
      else
        let st1 = (if has_position feature then
                     st\<lparr>pos_history := (pos_history st)
                          [i := WorldCoordToObjCoord (position feature) obs_curr_pos obs_curr_heading]\<rparr>
                   else st\<lparr>has_history := (has_history st)[i := 0]\<rparr>);
            st2 = (if has_velocity feature then
                     st1\<lparr>vel_history := (vel_history st1)
                          [i := free_vector (velocity feature) obs_curr_pos obs_curr_heading]\<rparr>
                   else st1\<lparr>has_history := (has_history st1)[i := 0]\<rparr>);
            st3 = (if has_acceleration feature then
                     st2\<lparr>acc_history := (acc_history st2)
                          [i := free_vector (acceleration feature) obs_curr_pos obs_curr_heading]\<rparr>
                   else st2\<lparr>has_history := (has_history st2)[i := 0]\<rparr>)
        in if has_velocity_heading feature then
             let st4 = st3\<lparr>vel_heading_history := (vel_heading_history st3)
                          [i := WorldAngleToObjAngle cfg (velocity_heading feature) obs_curr_heading]\<rparr>
             in if i \<noteq> 0 then
                  st4\<lparr>vel_heading_changing_rate_history :=
                        (vel_heading_changing_rate_history st4)
                          [i := (vel_heading_history st4 ! (i - 1) - vel_heading_history st4 ! i) /
                                (double_precision cfg + timestamp feature - prev_timestamp st4)],
                      prev_timestamp := timestamp feature\<rparr>
                else st4
           else st3\<lparr>has_history := (has_history st3)[i := 0]\<rparr>)"

text \<open>
  The loop over the history, most recent frame first: \<open>i\<close> is the index of the head of
  the frames still to visit. A frame that is not initialised is skipped (\<^verbatim>\<open>continue\<close>), the
  first initialised frame older than the start time ends the loop (\<^verbatim>\<open>break\<close>).
\<close>

fun history_loop ::
  "env \<Rightarrow> real \<times> real \<Rightarrow> real \<Rightarrow> real \<Rightarrow> nat \<Rightarrow> Feature list \<Rightarrow> hist_state \<Rightarrow> hist_state" where
  "history_loop cfg obs_curr_pos obs_curr_heading start_time i [] st = st"
| "history_loop cfg obs_curr_pos obs_curr_heading start_time i (feature # rest) st =
     (if \<not> IsInitialized feature then
        history_loop cfg obs_curr_pos obs_curr_heading start_time (Suc i) rest st
      else if timestamp feature < start_time then st
      else history_loop cfg obs_curr_pos obs_curr_heading start_time (Suc i) rest
             (update_window cfg obs_curr_pos obs_curr_heading i feature
                (collect_lane_feature feature st)))"

text \<open>The state of the local variables when the history loop is left.\<close>

definition history_state :: "env \<Rightarrow> Obstacle \<Rightarrow> hist_state" where
  "history_state cfg obs =
     (let obs_curr_feature = latest_feature obs;
          obs_curr_heading = velocity_heading obs_curr_feature;
          obs_curr_pos = position obs_curr_feature;
          obs_feature_history_start_time =
            obstacle_timestamp obs - prediction_trajectory_time_length cfg
      in history_loop cfg obs_curr_pos obs_curr_heading obs_feature_history_start_time 0
           (feature_history obs) (init_hist_state cfg obs))"

text \<open>
  "The old 23 features". A quotient whose divisor is 0 is 0 in HOL and not a number or
  infinite in C++; the unguarded divisors are \<open>time_diff\<close> here and the divisor of the
  heading rate in the window.
\<close>

definition delta_t_of :: "hist_state \<Rightarrow> real" where
  "delta_t_of st =
     (if length (timestamps st) > 1 then
        (hd (timestamps st) - last (timestamps st)) / real (length (timestamps st) - 1)
      else 0)"

definition angle_diff_of :: "Obstacle \<Rightarrow> hist_state \<Rightarrow> real" where
  "angle_diff_of obs st =
     (let curr_size = 5; hist_size = history_size obs;
          angle_curr = ComputeMean (thetas st) 0 (curr_size - 1);
          angle_prev = ComputeMean (thetas st) curr_size (2 * curr_size - 1)
      in if hist_size \<ge> 2 * curr_size then angle_curr - angle_prev else 0)"

definition lane_l_diff_of :: "Obstacle \<Rightarrow> hist_state \<Rightarrow> real" where
  "lane_l_diff_of obs st =
     (let curr_size = 5; hist_size = history_size obs;
          lane_l_curr = ComputeMean (lane_ls st) 0 (curr_size - 1);
          lane_l_prev = ComputeMean (lane_ls st) curr_size (2 * curr_size - 1)
      in if hist_size \<ge> 2 * curr_size then lane_l_curr - lane_l_prev else 0)"

definition legacy_features :: "Obstacle \<Rightarrow> hist_state \<Rightarrow> real list" where
  "legacy_features obs st =
     (let curr_size = 5; hist_size = history_size obs;
          theta_mean = ComputeMean (thetas st) 0 (hist_size - 1);
          theta_filtered = ComputeMean (thetas st) 0 (curr_size - 1);
          lane_l_mean = ComputeMean (lane_ls st) 0 (hist_size - 1);
          lane_l_filtered = ComputeMean (lane_ls st) 0 (curr_size - 1);
          speed_mean = ComputeMean (speeds st) 0 (hist_size - 1);
          time_diff = hd (timestamps st) - last (timestamps st);
          dist_lb_rate = (if length (timestamps st) > 1
                          then (hd (dist_lbs st) - last (dist_lbs st)) / time_diff else 0);
          dist_rb_rate = (if length (timestamps st) > 1
                          then (hd (dist_rbs st) - last (dist_rbs st)) / time_diff else 0);
          delta_t = delta_t_of st;
          angle_diff = angle_diff_of obs st;
          lane_l_diff = lane_l_diff_of obs st;
          angle_diff_rate = (if delta_t > double_epsilon
                             then angle_diff / (delta_t * real curr_size) else 0);
          lane_l_diff_rate = (if delta_t > double_epsilon
                              then lane_l_diff / (delta_t * real curr_size) else 0);
          speed_1st_recent = ComputeMean (speeds st) 0 (curr_size - 1);
          speed_2nd_recent = ComputeMean (speeds st) curr_size (2 * curr_size - 1);
          speed_3rd_recent = ComputeMean (speeds st) (2 * curr_size) (3 * curr_size - 1);
          acc_jerk = (if length (speeds st) \<ge> 3 * curr_size \<and> delta_t > double_epsilon then
                        ((speed_1st_recent - speed_2nd_recent) / (real curr_size * delta_t),
                         (speed_1st_recent - 2 * speed_2nd_recent + speed_3rd_recent) /
                         (real curr_size * real curr_size * delta_t * delta_t))
                      else (0, 0));
          dist_lb_rate_curr =
            (if hist_size \<ge> 2 * curr_size \<and> delta_t > double_epsilon then
               (ComputeMean (dist_lbs st) 0 (curr_size - 1) -
                ComputeMean (dist_lbs st) curr_size (2 * curr_size - 1)) /
               (real curr_size * delta_t)
             else 0);
          dist_rb_rate_curr =
            (if hist_size \<ge> 2 * curr_size \<and> delta_t > double_epsilon then
               (ComputeMean (dist_rbs st) 0 (curr_size - 1) -
                ComputeMean (dist_rbs st) curr_size (2 * curr_size - 1)) /
               (real curr_size * delta_t)
             else 0)
      in [theta_filtered, theta_mean, theta_filtered - theta_mean, angle_diff, angle_diff_rate,
          lane_l_filtered, lane_l_mean, lane_l_filtered - lane_l_mean, lane_l_diff,
          lane_l_diff_rate,
          speed_mean, fst acc_jerk, snd acc_jerk,
          hd (dist_lbs st), dist_lb_rate, dist_lb_rate_curr,
          hd (dist_rbs st), dist_rb_rate, dist_rb_rate_curr,
          (if hd (lane_types st) = 0 then 1 else 0),
          (if hd (lane_types st) = 1 then 1 else 0),
          (if hd (lane_types st) = 2 then 1 else 0),
          (if hd (lane_types st) = 3 then 1 else 0)])"

text \<open>The nine values that the last loop pushes for the frame of index \<open>i\<close>.\<close>

definition window_frame :: "hist_state \<Rightarrow> nat \<Rightarrow> real list" where
  "window_frame st i =
     [real_of_int (has_history st ! i),
      fst (pos_history st ! i), snd (pos_history st ! i),
      fst (vel_history st ! i), snd (vel_history st ! i),
      fst (acc_history st ! i), snd (acc_history st ! i),
      vel_heading_history st ! i,
      vel_heading_changing_rate_history st ! i]"

definition window_features :: "env \<Rightarrow> hist_state \<Rightarrow> real list" where
  "window_features cfg st =
     concat (map (window_frame st) [0 ..< cruise_historical_frame_length cfg])"

definition SetObstacleFeatureValues :: "env \<Rightarrow> Obstacle \<Rightarrow> real list" where
  "SetObstacleFeatureValues cfg obs =
     (let st = history_state cfg obs
      in if count st \<le> 0 then []
         else legacy_features obs st @ window_features cfg st)"

text \<open>
  The frames that the history loop visits, in the words of the spec: walking from the most
  recent frame backward and stopping at the first (initialised) frame older than the
  start time, the initialised frames passed on the way.
\<close>

definition visited_frames :: "real \<Rightarrow> Feature list \<Rightarrow> Feature list" where
  "visited_frames start_time fs =
     filter IsInitialized
       (takeWhile (\<lambda>f. \<not> (IsInitialized f \<and> timestamp f < start_time)) fs)"

definition visited_history :: "env \<Rightarrow> Obstacle \<Rightarrow> Feature list" where
  "visited_history cfg obs =
     visited_frames (obstacle_timestamp obs - prediction_trajectory_time_length cfg)
       (feature_history obs)"

definition carries_lane_attributes :: "Feature \<Rightarrow> bool" where
  "carries_lane_attributes f \<longleftrightarrow> has_lane f \<and> has_lane_feature (lane f)"

text \<open>A frame with usable position, velocity, acceleration and velocity heading.\<close>

definition usable_frame :: "Feature \<Rightarrow> bool" where
  "usable_frame f \<longleftrightarrow>
     has_position f \<and> has_velocity f \<and> has_acceleration f \<and> has_velocity_heading f"

section \<open>The interaction block: \<^verbatim>\<open>SetInteractionFeatureValues\<close>\<close>

text \<open>
  What ends the process instead of returning: a failed \<^verbatim>\<open>CHECK\<close>, and the use of the null
  pointer that the obstacles container returns for an identifier it does not hold.
\<close>

datatype fatal = CheckFailed | NullObstacle

definition init_forward_obstacle :: "env \<Rightarrow> NearbyObstacle" where
  "init_forward_obstacle cfg =
     \<lparr>has_id = False, nearby_id = 0,
      nearby_s = default_s_if_no_obstacle_in_lane_sequence cfg,
      nearby_l = default_l_if_no_obstacle_in_lane_sequence cfg\<rparr>"

definition init_backward_obstacle :: "env \<Rightarrow> NearbyObstacle" where
  "init_backward_obstacle cfg =
     \<lparr>has_id = False, nearby_id = 0,
      nearby_s = - default_s_if_no_obstacle_in_lane_sequence cfg,
      nearby_l = default_l_if_no_obstacle_in_lane_sequence cfg\<rparr>"

text \<open>The body of the loop over \<^verbatim>\<open>nearby_obstacle()\<close>, on the pair (forward, backward).\<close>

definition nearby_step ::
  "NearbyObstacle \<times> NearbyObstacle \<Rightarrow> NearbyObstacle \<Rightarrow> NearbyObstacle \<times> NearbyObstacle" where
  "nearby_step fb nearby =
     (let forward_obstacle = fst fb; backward_obstacle = snd fb
      in if nearby_s nearby < 0 then
           (if nearby_s nearby > nearby_s backward_obstacle then
              (forward_obstacle,
               backward_obstacle\<lparr>has_id := True, nearby_id := nearby_id nearby,
                                 nearby_s := nearby_s nearby, nearby_l := nearby_l nearby\<rparr>)
            else fb)
         else
           (if nearby_s nearby < nearby_s forward_obstacle then
              (forward_obstacle\<lparr>has_id := True, nearby_id := nearby_id nearby,
                                nearby_s := nearby_s nearby, nearby_l := nearby_l nearby\<rparr>,
               backward_obstacle)
            else fb))"

definition nearest_obstacles :: "env \<Rightarrow> LaneSequence \<Rightarrow> NearbyObstacle \<times> NearbyObstacle" where
  "nearest_obstacles cfg seq =
     foldl nearby_step (init_forward_obstacle cfg, init_backward_obstacle cfg)
       (nearby_obstacle seq)"

text \<open>The length and speed pushed for the forward or the backward obstacle.\<close>

definition length_and_speed :: "env \<Rightarrow> NearbyObstacle \<Rightarrow> fatal + real list" where
  "length_and_speed cfg tracked =
     (if \<not> has_id tracked then Inr [0, 0]
      else case GetObstacle cfg (nearby_id tracked) of
             None \<Rightarrow> Inl NullObstacle
           | Some other \<Rightarrow>
               Inr [feature_length (latest_feature other), speed (latest_feature other)])"

definition SetInteractionFeatureValues ::
  "env \<Rightarrow> Obstacle \<Rightarrow> LaneSequence \<Rightarrow> fatal + real list" where
  "SetInteractionFeatureValues cfg obs seq =
     (let forward_obstacle = fst (nearest_obstacles cfg seq);
          backward_obstacle = snd (nearest_obstacles cfg seq)
      in case length_and_speed cfg forward_obstacle of
           Inl e \<Rightarrow> Inl e
         | Inr forward_values \<Rightarrow>
             (case length_and_speed cfg backward_obstacle of
                Inl e \<Rightarrow> Inl e
              | Inr backward_values \<Rightarrow>
                  Inr ([nearby_s forward_obstacle, nearby_l forward_obstacle] @ forward_values @
                       [nearby_s backward_obstacle, nearby_l backward_obstacle] @ backward_values)))"

section \<open>The lane block: \<^verbatim>\<open>SetLaneFeatureValues\<close>\<close>

definition lane_point_values :: "env \<Rightarrow> Feature \<Rightarrow> real \<Rightarrow> LanePoint \<Rightarrow> real list" where
  "lane_point_values cfg feature heading lane_point =
     (let relative_s_l = WorldCoordToObjCoord (lp_position lane_point) (position feature) heading;
          relative_ang = WorldAngleToObjAngle cfg (lp_heading lane_point) heading
      in [snd relative_s_l, fst relative_s_l, relative_ang, lp_kappa lane_point])"

text \<open>The inner loop, over the lane points of one segment.\<close>

fun lane_point_loop ::
  "env \<Rightarrow> Feature \<Rightarrow> real \<Rightarrow> LanePoint list \<Rightarrow> real list \<Rightarrow> real list" where
  "lane_point_loop cfg feature heading [] feature_values = feature_values"
| "lane_point_loop cfg feature heading (lane_point # rest) feature_values =
     (if length feature_values \<ge> SINGLE_LANE_FEATURE_SIZE * LANE_POINTS_SIZE cfg
      then feature_values
      else if \<not> lp_has_position lane_point
      then lane_point_loop cfg feature heading rest feature_values
      else lane_point_loop cfg feature heading rest
             (feature_values @ lane_point_values cfg feature heading lane_point))"

text \<open>The outer loop, over the lane segments.\<close>

fun lane_segment_loop ::
  "env \<Rightarrow> Feature \<Rightarrow> real \<Rightarrow> LaneSegment list \<Rightarrow> real list \<Rightarrow> real list" where
  "lane_segment_loop cfg feature heading [] feature_values = feature_values"
| "lane_segment_loop cfg feature heading (segment # rest) feature_values =
     (if length feature_values \<ge> SINGLE_LANE_FEATURE_SIZE * LANE_POINTS_SIZE cfg
      then feature_values
      else lane_segment_loop cfg feature heading rest
             (lane_point_loop cfg feature heading segment feature_values))"

text \<open>The linear extrapolation, while at least 10 values are there and the target is not reached.\<close>

function extrapolate_loop :: "nat \<Rightarrow> real list \<Rightarrow> real list" where
  "extrapolate_loop target feature_values =
     (if length feature_values \<ge> 10 \<and> length feature_values < target then
        extrapolate_loop target
          (feature_values @
             [2 * feature_values ! (length feature_values - 5)
                - feature_values ! (length feature_values - 10),
              2 * feature_values ! (length feature_values - 4)
                - feature_values ! (length feature_values - 9),
              feature_values ! (length feature_values - 3),
              0])
      else feature_values)"
  by pat_completeness auto
termination
  by (relation "measure (\<lambda>(target, feature_values). target - length feature_values)") auto

declare extrapolate_loop.simps [simp del]

definition SetLaneFeatureValues :: "env \<Rightarrow> Obstacle \<Rightarrow> LaneSequence \<Rightarrow> real list" where
  "SetLaneFeatureValues cfg obs seq =
     (let feature = latest_feature obs
      in if \<not> IsInitialized feature then []
         else if \<not> has_position feature then []
         else extrapolate_loop (SINGLE_LANE_FEATURE_SIZE * LANE_POINTS_SIZE cfg)
                (lane_segment_loop cfg feature (velocity_heading feature) (lane_segment seq) []))"

text \<open>
  The lane points of a sequence that have a position, in the order of the two loops, for
  stating how many raw points a sequence supplies.
\<close>

definition positioned_points :: "LaneSequence \<Rightarrow> LanePoint list" where
  "positioned_points seq = filter lp_has_position (concat (lane_segment seq))"

section \<open>Assembling the vector: \<^verbatim>\<open>ExtractFeatureValues\<close>\<close>

definition SaveOfflineFeatures :: "LaneSequence \<Rightarrow> real list \<Rightarrow> LaneSequence" where
  "SaveOfflineFeatures sequence feature_values =
     foldl (\<lambda>sq feature_value. sq\<lparr>mlp_features := mlp_features sq @ [feature_value]\<rparr>)
       sequence feature_values"

text \<open>
  The result is the lane sequence (which the offline mode changes) and the output vector;
  \<open>feature_values\<close> is the vector as the caller passes it.
\<close>

definition ExtractFeatureValues ::
  "env \<Rightarrow> Obstacle \<Rightarrow> LaneSequence \<Rightarrow> real list \<Rightarrow> fatal + (LaneSequence \<times> real list)" where
  "ExtractFeatureValues cfg obs seq feature_values =
     (let obstacle_feature_values = SetObstacleFeatureValues cfg obs
      in if length obstacle_feature_values \<noteq> OBSTACLE_FEATURE_SIZE cfg
         then Inr (seq, feature_values)
         else
           case SetInteractionFeatureValues cfg obs seq of
             Inl e \<Rightarrow> Inl e
           | Inr interaction_feature_values \<Rightarrow>
               if length interaction_feature_values \<noteq> INTERACTION_FEATURE_SIZE
               then Inr (seq, feature_values @ obstacle_feature_values)
               else
                 let lane_feature_values = SetLaneFeatureValues cfg obs seq
                 in if length lane_feature_values \<noteq>
                         SINGLE_LANE_FEATURE_SIZE * LANE_POINTS_SIZE cfg
                    then Inr (seq, feature_values @ obstacle_feature_values @
                                     interaction_feature_values)
                    else
                      let all_values = feature_values @ obstacle_feature_values @
                                         interaction_feature_values @ lane_feature_values
                      in if prediction_offline_mode cfg
                         then Inr (SaveOfflineFeatures seq all_values, all_values)
                         else Inr (seq, all_values))"

section \<open>The orchestrator: \<^verbatim>\<open>Evaluate\<close>\<close>

text \<open>
  \<^verbatim>\<open>VectorToMatrixXf\<close>, a matrix being the list of its rows. The indices are natural numbers,
  so \<^verbatim>\<open>CHECK_GE(start_index, 0)\<close> always passes; in the second function the running
  \<open>input_index\<close> is \<open>start_index + i * output_num_col + j\<close>, and the last check holds once
  the one on the shape has passed.
\<close>

definition VectorToMatrixXf :: "real list \<Rightarrow> nat \<Rightarrow> nat \<Rightarrow> fatal + matrix" where
  "VectorToMatrixXf nums start_index end_index =
     (if \<not> start_index < end_index then Inl CheckFailed
      else if \<not> end_index \<le> length nums then Inl CheckFailed
      else Inr [map (\<lambda>i. nums ! i) [start_index ..< end_index]])"

definition VectorToMatrixXf_shaped ::
  "real list \<Rightarrow> nat \<Rightarrow> nat \<Rightarrow> nat \<Rightarrow> nat \<Rightarrow> fatal + matrix" where
  "VectorToMatrixXf_shaped nums start_index end_index output_num_row output_num_col =
     (if \<not> start_index < end_index then Inl CheckFailed
      else if \<not> end_index \<le> length nums then Inl CheckFailed
      else if end_index - start_index \<noteq> output_num_row * output_num_col then Inl CheckFailed
      else Inr (map (\<lambda>i. map (\<lambda>j. nums ! (start_index + i * output_num_col + j))
                            [0 ..< output_num_col])
                  [0 ..< output_num_row]))"

text \<open>
  What \<^verbatim>\<open>Evaluate\<close> changes outside the obstacle: the runs of the two models, each with its
  two input matrices, and the feature-output sink.
\<close>

datatype model_kind = GoModel | CutinModel

type_synonym model_run = "model_kind \<times> matrix \<times> matrix"

record world =
  model_runs :: "model_run list"
  feature_output :: "Feature list"

definition feature_vector_size :: "env \<Rightarrow> nat" where
  "feature_vector_size cfg =
     OBSTACLE_FEATURE_SIZE cfg + INTERACTION_FEATURE_SIZE
       + SINGLE_LANE_FEATURE_SIZE * LANE_POINTS_SIZE cfg"

text \<open>
  The body of the loop over the lane sequences, for the sequence \<open>seq\<close> of the obstacle: the
  sequence as the body leaves it, and the model runs it makes.
\<close>

definition Evaluate_body ::
  "env \<Rightarrow> Obstacle \<Rightarrow> LaneSequence \<Rightarrow> fatal + (LaneSequence \<times> model_run list)" where
  "Evaluate_body cfg obs seq =
     (case ExtractFeatureValues cfg obs seq [] of
        Inl e \<Rightarrow> Inl e
      | Inr (seq1, feature_values) \<Rightarrow>
          if length feature_values \<noteq> feature_vector_size cfg
          then Inr (seq1\<lparr>probability := Some 0\<rparr>, [])
          else if \<not> prediction_offline_mode cfg then
            (case VectorToMatrixXf feature_values 0 (OBSTACLE_FEATURE_SIZE cfg) of
               Inl e \<Rightarrow> Inl e
             | Inr obs_feature_mat \<Rightarrow>
                 (case VectorToMatrixXf_shaped feature_values
                         (OBSTACLE_FEATURE_SIZE cfg + INTERACTION_FEATURE_SIZE)
                         (length feature_values) SINGLE_LANE_FEATURE_SIZE (LANE_POINTS_SIZE cfg) of
                    Inl e \<Rightarrow> Inl e
                  | Inr lane_feature_mat \<Rightarrow>
                      if vehicle_on_lane seq1 then
                        let model_output = go_model cfg lane_feature_mat obs_feature_mat
                        in Inr (seq1\<lparr>probability := Some (fst model_output),
                                     time_to_lane_center := Some (snd model_output)\<rparr>,
                                [(GoModel, lane_feature_mat, obs_feature_mat)])
                      else
                        let model_output = cutin_model cfg lane_feature_mat obs_feature_mat
                        in Inr (seq1\<lparr>probability := Some (fst model_output),
                                     time_to_lane_center := Some (snd model_output)\<rparr>,
                                [(CutinModel, lane_feature_mat, obs_feature_mat)])))
          else Inr (seq1, []))"

text \<open>
  The lane sequences live inside the obstacle's latest feature: the loop reads the sequence
  of index \<open>i\<close> there and writes it back, so that each pass sees the writes of the passes
  before it.
\<close>

definition lane_sequences :: "Obstacle \<Rightarrow> LaneSequence list" where
  "lane_sequences obs = lane_graph (lane (latest_feature obs))"

definition set_lane_sequence :: "Obstacle \<Rightarrow> nat \<Rightarrow> LaneSequence \<Rightarrow> Obstacle" where
  "set_lane_sequence obs i seq =
     obs\<lparr>latest_feature := (latest_feature obs)
           \<lparr>lane := (lane (latest_feature obs))
              \<lparr>lane_graph := (lane_graph (lane (latest_feature obs)))[i := seq]\<rparr>\<rparr>\<rparr>"

fun Evaluate_loop :: "env \<Rightarrow> nat list \<Rightarrow> Obstacle \<times> world \<Rightarrow> fatal + (Obstacle \<times> world)" where
  "Evaluate_loop cfg [] ow = Inr ow"
| "Evaluate_loop cfg (i # rest) ow =
     (case Evaluate_body cfg (fst ow) (lane_sequences (fst ow) ! i) of
        Inl e \<Rightarrow> Inl e
      | Inr (seq', runs) \<Rightarrow>
          Evaluate_loop cfg rest
            (set_lane_sequence (fst ow) i seq',
             (snd ow)\<lparr>model_runs := model_runs (snd ow) @ runs\<rparr>))"

definition Evaluate :: "env \<Rightarrow> world \<Rightarrow> Obstacle \<Rightarrow> fatal + (Obstacle \<times> world)" where
  "Evaluate cfg w obs =
     (if \<not> IsInitialized (latest_feature obs) then Inr (obs, w)
      else if \<not> has_lane (latest_feature obs) \<or> \<not> has_lane_graph (lane (latest_feature obs))
      then Inr (obs, w)
      else if length (lane_sequences obs) = 0 then Inr (obs, w)
      else
        case Evaluate_loop cfg [0 ..< length (lane_sequences obs)] (obs, w) of
          Inl e \<Rightarrow> Inl e
        | Inr (obs', w') \<Rightarrow>
            if prediction_offline_mode cfg
            then Inr (obs', w'\<lparr>feature_output := feature_output w' @ [latest_feature obs']\<rparr>)
            else Inr (obs', w'))"

section \<open>Notions for stating the properties of \<^verbatim>\<open>Evaluate\<close>\<close>

text \<open>
  The vector that \<^verbatim>\<open>Evaluate\<close> receives from \<^verbatim>\<open>ExtractFeatureValues\<close> for a lane sequence (the
  empty vector when the extraction does not return).
\<close>

definition feature_values_of :: "env \<Rightarrow> Obstacle \<Rightarrow> LaneSequence \<Rightarrow> real list" where
  "feature_values_of cfg obs seq =
     (case ExtractFeatureValues cfg obs seq [] of
        Inl e \<Rightarrow> []
      | Inr (seq1, feature_values) \<Rightarrow> feature_values)"

text \<open>
  The two inputs of a model run, read off a feature vector: the row of its first
  \<^verbatim>\<open>OBSTACLE_FEATURE_SIZE\<close> values, and the values after the interaction block, filled row by
  row into \<^verbatim>\<open>SINGLE_LANE_FEATURE_SIZE\<close> rows of \<^verbatim>\<open>LANE_POINTS_SIZE\<close> columns.
\<close>

definition obstacle_matrix :: "env \<Rightarrow> real list \<Rightarrow> matrix" where
  "obstacle_matrix cfg fv = [take (OBSTACLE_FEATURE_SIZE cfg) fv]"

definition lane_matrix :: "env \<Rightarrow> real list \<Rightarrow> matrix" where
  "lane_matrix cfg fv =
     map (\<lambda>i. take (LANE_POINTS_SIZE cfg)
                (drop (OBSTACLE_FEATURE_SIZE cfg + INTERACTION_FEATURE_SIZE
                         + i * LANE_POINTS_SIZE cfg) fv))
       [0 ..< SINGLE_LANE_FEATURE_SIZE]"

text \<open>The obstacle with the lane sequences of its latest feature replaced, all else kept.\<close>

definition with_lane_sequences :: "Obstacle \<Rightarrow> LaneSequence list \<Rightarrow> Obstacle" where
  "with_lane_sequences obs seqs =
     obs\<lparr>latest_feature := (latest_feature obs)
           \<lparr>lane := (lane (latest_feature obs))\<lparr>lane_graph := seqs\<rparr>\<rparr>\<rparr>"

text \<open>The model that the sequence is dispatched to, by its \<^verbatim>\<open>vehicle_on_lane\<close> flag.\<close>

definition model_kind_of :: "LaneSequence \<Rightarrow> model_kind" where
  "model_kind_of seq = (if vehicle_on_lane seq then GoModel else CutinModel)"

definition model_of :: "env \<Rightarrow> model_kind \<Rightarrow> matrix \<Rightarrow> matrix \<Rightarrow> real \<times> real" where
  "model_of cfg kind = (case kind of GoModel \<Rightarrow> go_model cfg | CutinModel \<Rightarrow> cutin_model cfg)"

section \<open>Concrete inputs\<close>

text \<open>
  An environment with the window length 2, no other obstacle in the container, and two
  constant models; an observation with every field set; an obstacle whose history is that
  one observation.
\<close>

definition example_env :: env where
  "example_env =
     \<lparr>OBSTACLE_FEATURE_SIZE = 41, LANE_POINTS_SIZE = 3,
      cruise_historical_frame_length = 2,
      prediction_trajectory_time_length = 8,
      double_precision = 1 / 1000000,
      default_s_if_no_obstacle_in_lane_sequence = 1000,
      default_l_if_no_obstacle_in_lane_sequence = 10,
      prediction_offline_mode = False,
      NormalizeAngle = (\<lambda>a. a),
      GetObstacle = (\<lambda>i. None),
      go_model = (\<lambda>lane_mat obs_mat. (3 / 4, 2)),
      cutin_model = (\<lambda>lane_mat obs_mat. (1 / 4, 5))\<rparr>"

definition example_sequence :: LaneSequence where
  "example_sequence =
     \<lparr>lane_segment = [], nearby_obstacle = [], vehicle_on_lane = True,
      probability = Some (1 / 2), time_to_lane_center = None, mlp_features = []\<rparr>"

definition example_lane :: Lane where
  "example_lane =
     \<lparr>has_lane_feature = True,
      lane_feature = \<lparr>angle_diff = 1, lane_l = 1, dist_to_left_boundary = 2,
                      dist_to_right_boundary = 2, lane_turn_type = 0\<rparr>,
      has_lane_graph = True,
      lane_graph = [example_sequence]\<rparr>"

definition example_feature :: Feature where
  "example_feature =
     \<lparr>IsInitialized = True, timestamp = 10,
      has_position = True, position = (0, 0),
      has_velocity = True, velocity = (0, 0),
      has_acceleration = True, acceleration = (0, 0),
      has_velocity_heading = True, velocity_heading = 0,
      speed = 3, feature_length = 4,
      has_lane = True, lane = example_lane\<rparr>"

definition example_obstacle :: Obstacle where
  "example_obstacle =
     \<lparr>obstacle_id = 1, latest_feature = example_feature, older_features = []\<rparr>"

text \<open>The same obstacle, its only observation without a position.\<close>

definition unpositioned_obstacle :: Obstacle where
  "unpositioned_obstacle =
     \<lparr>obstacle_id = 1, latest_feature = example_feature\<lparr>has_position := False\<rparr>,
      older_features = []\<rparr>"

text \<open>The same obstacle, its only observation without lane attributes.\<close>

definition laneless_obstacle :: Obstacle where
  "laneless_obstacle =
     \<lparr>obstacle_id = 1,
      latest_feature = example_feature\<lparr>lane := example_lane\<lparr>has_lane_feature := False\<rparr>\<rparr>,
      older_features = []\<rparr>"

text \<open>
  An obstacle with a history of ten observations, a tenth of a second apart, of which only
  the latest carries lane attributes.
\<close>

definition bare_feature :: "real \<Rightarrow> Feature" where
  "bare_feature t = example_feature\<lparr>timestamp := t, has_lane := False\<rparr>"

definition ten_frame_obstacle :: Obstacle where
  "ten_frame_obstacle =
     \<lparr>obstacle_id = 1, latest_feature = example_feature,
      older_features =
        [bare_feature (99 / 10), bare_feature (98 / 10), bare_feature (97 / 10),
         bare_feature (96 / 10), bare_feature (95 / 10), bare_feature (94 / 10),
         bare_feature (93 / 10), bare_feature (92 / 10), bare_feature (91 / 10)]\<rparr>"

text \<open>
  A lane sequence whose only nearby obstacle is ahead, farther than the default distance,
  and one whose nearby obstacles are unidentified, one ahead and one behind.
\<close>

definition far_sequence :: LaneSequence where
  "far_sequence =
     example_sequence\<lparr>nearby_obstacle :=
       [\<lparr>has_id = True, nearby_id = 7, nearby_s = 2000, nearby_l = 1\<rparr>]\<rparr>"

definition near_sequence :: LaneSequence where
  "near_sequence =
     example_sequence\<lparr>nearby_obstacle :=
       [\<lparr>has_id = True, nearby_id = 1, nearby_s = 30, nearby_l = 1\<rparr>,
        \<lparr>has_id = True, nearby_id = 1, nearby_s = - 20, nearby_l = 2\<rparr>]\<rparr>"

text \<open>The example environment with the example obstacle in the container.\<close>

definition container_env :: env where
  "container_env = example_env\<lparr>GetObstacle := (\<lambda>i. if i = 1 then Some example_obstacle else None)\<rparr>"

text \<open>
  A lane sequence of one segment with three positioned lane points, and an obstacle with
  two candidates: the sequence without lane points and the sequence with three.
\<close>

definition example_lane_point :: LanePoint where
  "example_lane_point =
     \<lparr>lp_has_position = True, lp_position = (0, 0), lp_heading = 0, lp_kappa = 0\<rparr>"

definition three_point_sequence :: LaneSequence where
  "three_point_sequence =
     example_sequence\<lparr>lane_segment :=
       [[example_lane_point, example_lane_point, example_lane_point]]\<rparr>"

definition two_candidate_obstacle :: Obstacle where
  "two_candidate_obstacle =
     \<lparr>obstacle_id = 1,
      latest_feature = example_feature
        \<lparr>lane := example_lane\<lparr>lane_graph := [example_sequence, three_point_sequence]\<rparr>\<rparr>,
      older_features = []\<rparr>"

definition offline_env :: env where
  "offline_env = example_env\<lparr>prediction_offline_mode := True\<rparr>"

definition empty_world :: world where
  "empty_world = \<lparr>model_runs = [], feature_output = []\<rparr>"

text \<open>
  The obstacle with two candidates after an offline evaluation: the first candidate scored
  0, the second with its feature vector saved.
\<close>

definition offline_result :: Obstacle where
  "offline_result =
     with_lane_sequences two_candidate_obstacle
       [example_sequence\<lparr>probability := Some 0\<rparr>,
        three_point_sequence\<lparr>mlp_features :=
          feature_values_of offline_env two_candidate_obstacle three_point_sequence\<rparr>]"

section \<open>Geometry: the local frame\<close>

lemma atan2_polar:
  "sqrt (x * x + y * y) * cos (atan2 y x) = x \<and> sqrt (x * x + y * y) * sin (atan2 y x) = y"
proof -
  have sq: "x * x + y * y = x\<^sup>2 * (1 + (y / x)\<^sup>2)" if "x \<noteq> 0"
    using that by (simp add: power2_eq_square field_simps)
  have pos: "0 < 1 + (y / x)\<^sup>2"
    by (simp add: add_pos_nonneg)
  have root: "sqrt (x * x + y * y) = \<bar>x\<bar> * sqrt (1 + (y / x)\<^sup>2)" if "x \<noteq> 0"
    using sq [OF that] by (simp add: real_sqrt_mult)
  have nz: "sqrt (1 + (y / x)\<^sup>2) \<noteq> 0"
    using pos by simp
  consider "0 < x" | "x < 0" "0 \<le> y" | "x < 0" "y < 0" | "x = 0" "0 < y" | "x = 0" "y < 0"
    | "x = 0" "y = 0"
    by linarith
  then show ?thesis
  proof cases
    case 1
    then show ?thesis
      using nz by (simp add: atan2_def root cos_arctan sin_arctan)
  next
    case 2
    then show ?thesis
      using nz by (simp add: atan2_def root cos_arctan sin_arctan)
  next
    case 3
    then show ?thesis
      using nz by (simp add: atan2_def root cos_arctan sin_arctan)
  next
    case 4
    then show ?thesis
      by (simp add: atan2_def)
  next
    case 5
    then show ?thesis
      by (simp add: atan2_def)
  next
    case 6
    then show ?thesis
      by (simp add: atan2_def)
  qed
qed

text \<open>
  C9. For every point \<open>p\<close>, origin \<open>o\<close> and heading \<open>a\<close>, rotating
  \<open>WorldCoordToObjCoord p o a\<close> by \<open>+a\<close> and translating it by \<open>+o\<close> gives \<open>p\<close> back, exactly
  over the reals.
\<close>

theorem WorldCoordToObjCoord_roundtrip:
  "ObjCoordToWorldCoord (WorldCoordToObjCoord p origin a) origin a = p"
proof -
  define dx where "dx = fst p - fst origin"
  define dy where "dy = snd p - snd origin"
  define rho where "rho = sqrt (dx * dx + dy * dy)"
  define t where "t = atan2 dy dx"
  have px: "rho * cos t = dx" and py: "rho * sin t = dy"
    using atan2_polar [of dx dy] by (simp_all add: rho_def t_def)
  have u: "cos (t - a) * rho = dx * cos a + dy * sin a"
  proof -
    have "cos (t - a) * rho = (rho * cos t) * cos a + (rho * sin t) * sin a"
      by (simp add: cos_diff algebra_simps)
    then show ?thesis by (simp only: px py)
  qed
  have v: "sin (t - a) * rho = dy * cos a - dx * sin a"
  proof -
    have "sin (t - a) * rho = (rho * sin t) * cos a - (rho * cos t) * sin a"
      by (simp add: sin_diff algebra_simps)
    then show ?thesis by (simp only: px py)
  qed
  have unit: "cos a * cos a + sin a * sin a = 1"
    using sin_cos_squared_add2 [of a] by (simp add: power2_eq_square)
  have scale: "z * (cos a * cos a) + z * (sin a * sin a) = z" for z :: real
    by (simp only: distrib_left [symmetric] unit mult_1_right)
  have x: "cos a * (dx * cos a + dy * sin a) - sin a * (dy * cos a - dx * sin a) = dx"
    using scale [of dx] by (simp add: algebra_simps)
  have y: "sin a * (dx * cos a + dy * sin a) + cos a * (dy * cos a - dx * sin a) = dy"
    using scale [of dy] by (simp add: algebra_simps)
  have "WorldCoordToObjCoord p origin a = (dx * cos a + dy * sin a, dy * cos a - dx * sin a)"
    using u v by (simp add: WorldCoordToObjCoord_def Let_def dx_def dy_def rho_def t_def)
  then show ?thesis
    using x y by (simp add: ObjCoordToWorldCoord_def dx_def dy_def prod_eq_iff)
qed

section \<open>Properties of the obstacle block\<close>

lemma update_window_lane_stats:
  "count (update_window cfg p h i f st) = count st"
  "thetas (update_window cfg p h i f st) = thetas st"
  "lane_ls (update_window cfg p h i f st) = lane_ls st"
  "timestamps (update_window cfg p h i f st) = timestamps st"
  by (simp_all add: update_window_def Let_def)

lemma update_window_lengths:
  "length (has_history (update_window cfg p h i f st)) = length (has_history st)"
  "length (pos_history (update_window cfg p h i f st)) = length (pos_history st)"
  "length (vel_history (update_window cfg p h i f st)) = length (vel_history st)"
  "length (acc_history (update_window cfg p h i f st)) = length (acc_history st)"
  "length (vel_heading_history (update_window cfg p h i f st)) = length (vel_heading_history st)"
  "length (vel_heading_changing_rate_history (update_window cfg p h i f st))
     = length (vel_heading_changing_rate_history st)"
  by (simp_all add: update_window_def Let_def)

lemma count_collect_lane_feature:
  "count (collect_lane_feature f st) = count st + (if carries_lane_attributes f then 1 else 0)"
  by (simp add: collect_lane_feature_def carries_lane_attributes_def)

lemma count_history_loop:
  "count (history_loop cfg p h s i fs st) =
     count st + int (length (filter carries_lane_attributes (visited_frames s fs)))"
proof (induction fs arbitrary: i st)
  case Nil
  then show ?case by (simp add: visited_frames_def)
next
  case (Cons f fs)
  then show ?case
    by (simp add: visited_frames_def update_window_lane_stats count_collect_lane_feature)
qed

lemma count_history_state:
  "count (history_state cfg obs) =
     int (length (filter carries_lane_attributes (visited_history cfg obs)))"
  by (simp add: history_state_def Let_def count_history_loop visited_history_def init_hist_state_def)

lemma length_legacy_features: "length (legacy_features obs st) = 23"
  by (simp add: legacy_features_def Let_def)

lemma length_window_features:
  "length (window_features cfg st) = 9 * cruise_historical_frame_length cfg"
  by (simp add: window_features_def length_concat window_frame_def comp_def sum_list_triv)

lemma length_concat_blocks:
  "(\<forall>j<n. length (g j) = k) \<Longrightarrow> length (concat (map g [0..<n])) = k * n"
  by (induction n) simp_all

lemma concat_blocks_nth:
  "(\<forall>j<n. length (g j) = k) \<Longrightarrow> i < n \<Longrightarrow>
     take k (drop (k * i) (concat (map g [0..<n]))) = g i"
proof (induction n)
  case 0
  then show ?case by simp
next
  case (Suc n)
  have len: "length (concat (map g [0..<n])) = k * n"
    using Suc.prems(1) by (simp add: length_concat_blocks)
  show ?case
  proof (cases "i < n")
    case True
    then have "Suc i \<le> n" by simp
    then have "k * Suc i \<le> k * n" by (rule mult_le_mono2)
    then have "k * i + k \<le> k * n" by simp
    then show ?thesis
      using Suc True len by simp
  next
    case False
    then have "i = n" using Suc.prems(2) by simp
    then show ?thesis
      using Suc.prems(1) len by simp
  qed
qed

lemma window_features_frame:
  "i < cruise_historical_frame_length cfg \<Longrightarrow>
     take 9 (drop (9 * i) (window_features cfg st)) = window_frame st i"
  unfolding window_features_def
  by (rule concat_blocks_nth) (simp_all add: window_frame_def)

text \<open>
  C7. Whenever a visited frame carried lane attributes (so that \<^verbatim>\<open>SetObstacleFeatureValues\<close>
  does not return early), the obstacle block has exactly \<open>23 + 9 * W\<close> values, \<open>W\<close> the
  historical frame length: the 23 summary statistics, then for each frame \<open>i < W\<close> the nine
  values has_data, pos.x, pos.y, vel.x, vel.y, acc.x, acc.y, heading, heading rate.
\<close>
theorem SetObstacleFeatureValues_layout:
  assumes "\<exists>f \<in> set (visited_history cfg obs). carries_lane_attributes f"
  shows "length (SetObstacleFeatureValues cfg obs) = 23 + 9 * cruise_historical_frame_length cfg
       \<and> take 23 (SetObstacleFeatureValues cfg obs) = legacy_features obs (history_state cfg obs)
       \<and> (\<forall>i < cruise_historical_frame_length cfg.
           take 9 (drop (23 + 9 * i) (SetObstacleFeatureValues cfg obs)) =
             [real_of_int (has_history (history_state cfg obs) ! i),
              fst (pos_history (history_state cfg obs) ! i),
              snd (pos_history (history_state cfg obs) ! i),
              fst (vel_history (history_state cfg obs) ! i),
              snd (vel_history (history_state cfg obs) ! i),
              fst (acc_history (history_state cfg obs) ! i),
              snd (acc_history (history_state cfg obs) ! i),
              vel_heading_history (history_state cfg obs) ! i,
              vel_heading_changing_rate_history (history_state cfg obs) ! i])"
proof -
  have "filter carries_lane_attributes (visited_history cfg obs) \<noteq> []"
    using assms by (simp add: filter_empty_conv)
  then have pos: "0 < count (history_state cfg obs)"
    by (simp add: count_history_state)
  then have eq: "SetObstacleFeatureValues cfg obs =
      legacy_features obs (history_state cfg obs) @ window_features cfg (history_state cfg obs)"
    by (simp add: SetObstacleFeatureValues_def Let_def)
  have len: "length (SetObstacleFeatureValues cfg obs) = 23 + 9 * cruise_historical_frame_length cfg"
    by (simp add: eq length_legacy_features length_window_features)
  have legacy: "take 23 (SetObstacleFeatureValues cfg obs) = legacy_features obs (history_state cfg obs)"
    by (simp add: eq length_legacy_features)
  have frames: "take 9 (drop (23 + 9 * i) (SetObstacleFeatureValues cfg obs)) =
                  window_frame (history_state cfg obs) i"
    if "i < cruise_historical_frame_length cfg" for i
    using window_features_frame [OF that, of "history_state cfg obs"]
    by (simp add: eq length_legacy_features)
  show ?thesis
    using len legacy frames by (simp add: window_frame_def)
qed

theorem SetObstacleFeatureValues_layout_witness:
  "visited_history example_env example_obstacle = [example_feature]
   \<and> carries_lane_attributes example_feature
   \<and> cruise_historical_frame_length example_env = 2
   \<and> length (SetObstacleFeatureValues example_env example_obstacle) = 41"
proof -
  have v: "visited_history example_env example_obstacle = [example_feature]"
    by (simp add: visited_history_def visited_frames_def feature_history_def
        example_obstacle_def example_feature_def example_env_def obstacle_timestamp_def)
  have c: "carries_lane_attributes example_feature"
    by (simp add: carries_lane_attributes_def example_feature_def example_lane_def)
  have h: "\<exists>f \<in> set (visited_history example_env example_obstacle). carries_lane_attributes f"
    by (simp add: v c)
  show ?thesis
    using v c SetObstacleFeatureValues_layout [OF h] by (simp add: example_env_def)
qed

lemma has_data_position:
  assumes "0 < count (history_state cfg obs)" "i < cruise_historical_frame_length cfg"
  shows "SetObstacleFeatureValues cfg obs ! (23 + 9 * i)
           = real_of_int (has_history (history_state cfg obs) ! i)"
proof -
  let ?st = "history_state cfg obs"
  have eq: "SetObstacleFeatureValues cfg obs = legacy_features obs ?st @ window_features cfg ?st"
    using assms(1) by (simp add: SetObstacleFeatureValues_def Let_def)
  have "9 * i < length (window_features cfg ?st)"
    using assms(2) by (simp add: length_window_features)
  then have "window_features cfg ?st ! (9 * i) = take 9 (drop (9 * i) (window_features cfg ?st)) ! 0"
    by simp
  also have "\<dots> = real_of_int (has_history ?st ! i)"
    by (simp only: window_features_frame [OF assms(2)]) (simp add: window_frame_def)
  finally show ?thesis
    by (simp add: eq nth_append length_legacy_features)
qed

lemma unpositioned_state:
  "has_history (history_state example_env unpositioned_obstacle) = [0, 1]"
  "count (history_state example_env unpositioned_obstacle) = 1"
  by (simp_all add: history_state_def Let_def feature_history_def unpositioned_obstacle_def
      init_hist_state_def example_env_def example_feature_def example_lane_def
      obstacle_timestamp_def collect_lane_feature_def update_window_def numeral_2_eq_2)

lemma example_state:
  "has_history (history_state example_env example_obstacle) = [1, 1]"
  "count (history_state example_env example_obstacle) = 1"
  by (simp_all add: history_state_def Let_def feature_history_def example_obstacle_def
      init_hist_state_def example_env_def example_feature_def example_lane_def
      obstacle_timestamp_def collect_lane_feature_def update_window_def numeral_2_eq_2)

text \<open>
  C3. With the window length 2 and a history of one observation: when the observation has
  all its fields, has_data is 1 for frame 1, which is not in the history; when it lacks its
  position, has_data is 0 for frame 0 and 1 for frame 1, so that a 1 follows a 0. A window
  index whose frame the loop never visits keeps the initial 1.
\<close>

theorem has_history_gap_example:
  "cruise_historical_frame_length example_env = 2
   \<and> history_size example_obstacle = 1
   \<and> SetObstacleFeatureValues example_env example_obstacle ! 32 = 1
   \<and> history_size unpositioned_obstacle = 1
   \<and> SetObstacleFeatureValues example_env unpositioned_obstacle ! 23 = 0
   \<and> SetObstacleFeatureValues example_env unpositioned_obstacle ! 32 = 1"
proof -
  have w: "cruise_historical_frame_length example_env = 2"
    by (simp add: example_env_def)
  have "SetObstacleFeatureValues example_env example_obstacle ! (23 + 9 * 1) = 1"
    by (subst has_data_position) (simp_all add: example_state w)
  moreover have "SetObstacleFeatureValues example_env unpositioned_obstacle ! (23 + 9 * 0) = 0"
    by (subst has_data_position) (simp_all add: unpositioned_state w)
  moreover have "SetObstacleFeatureValues example_env unpositioned_obstacle ! (23 + 9 * 1) = 1"
    by (subst has_data_position) (simp_all add: unpositioned_state w)
  ultimately show ?thesis
    by (simp add: w history_size_def feature_history_def unpositioned_obstacle_def
        example_obstacle_def)
qed

lemma ten_frame_state:
  "thetas (history_state example_env ten_frame_obstacle) = [1]"
  "lane_ls (history_state example_env ten_frame_obstacle) = [1]"
  "count (history_state example_env ten_frame_obstacle) = 1"
  by (simp_all add: history_state_def Let_def feature_history_def ten_frame_obstacle_def
      init_hist_state_def example_env_def example_feature_def example_lane_def bare_feature_def
      obstacle_timestamp_def collect_lane_feature_def update_window_def numeral_2_eq_2)

lemma ten_frame_visited:
  "length (filter carries_lane_attributes (visited_history example_env ten_frame_obstacle)) = 1"
  using count_history_state [of example_env ten_frame_obstacle]
  by (simp add: ten_frame_state)

lemma legacy_deltas:
  "legacy_features obs st ! 3 = angle_diff_of obs st"
  "legacy_features obs st ! 8 = lane_l_diff_of obs st"
  by (simp_all add: legacy_features_def Let_def)

lemma legacy_rates:
  "legacy_features obs st ! 4 =
     (if delta_t_of st > double_epsilon then angle_diff_of obs st / (delta_t_of st * 5) else 0)"
  "legacy_features obs st ! 9 =
     (if delta_t_of st > double_epsilon then lane_l_diff_of obs st / (delta_t_of st * 5) else 0)"
  by (simp_all add: legacy_features_def Let_def)

lemma legacy_position:
  "0 < count (history_state cfg obs) \<Longrightarrow> k < 23 \<Longrightarrow>
     SetObstacleFeatureValues cfg obs ! k = legacy_features obs (history_state cfg obs) ! k"
  by (simp add: SetObstacleFeatureValues_def Let_def nth_append length_legacy_features)

text \<open>
  C5. With a history of ten observations of which only the latest carries lane attributes
  (angle difference 1, lane offset 1), the angle-diff delta and the lane-offset delta are 1
  and not 0: the deltas are gated on the size of the history, not on the number of
  lane-attributed samples, and the mean of the absent "next 5 samples" is 0.
\<close>

theorem delta_gate_example:
  "history_size ten_frame_obstacle = 10
   \<and> length (filter carries_lane_attributes (visited_history example_env ten_frame_obstacle)) = 1
   \<and> SetObstacleFeatureValues example_env ten_frame_obstacle ! 3 = 1
   \<and> SetObstacleFeatureValues example_env ten_frame_obstacle ! 8 = 1"
proof -
  have size: "history_size ten_frame_obstacle = 10"
    by (simp add: history_size_def feature_history_def ten_frame_obstacle_def)
  have m1: "ComputeMean [1] 0 4 = 1" and m2: "ComputeMean [1] 5 9 = 0"
    by (simp_all add: ComputeMean_def)
  have "angle_diff_of ten_frame_obstacle (history_state example_env ten_frame_obstacle) = 1"
    by (simp add: angle_diff_of_def ten_frame_state size m1 m2)
  moreover have "lane_l_diff_of ten_frame_obstacle (history_state example_env ten_frame_obstacle) = 1"
    by (simp add: lane_l_diff_of_def ten_frame_state size m1 m2)
  ultimately show ?thesis
    by (simp add: size ten_frame_visited legacy_position legacy_deltas ten_frame_state)
qed

lemma SetObstacleFeatureValues_empty:
  "\<forall>f \<in> set (visited_history cfg obs). \<not> carries_lane_attributes f \<Longrightarrow>
     SetObstacleFeatureValues cfg obs = []"
proof -
  assume "\<forall>f \<in> set (visited_history cfg obs). \<not> carries_lane_attributes f"
  then have "filter carries_lane_attributes (visited_history cfg obs) = []"
    by (simp add: filter_empty_conv)
  then have "count (history_state cfg obs) = 0"
    by (simp add: count_history_state)
  then show ?thesis
    by (simp add: SetObstacleFeatureValues_def)
qed

lemma has_history_collect:
  "has_history (collect_lane_feature f st) = has_history st"
  by (simp add: collect_lane_feature_def)

lemma has_history_update_window:
  "has_history (update_window cfg p h i f st) =
     (if cruise_historical_frame_length cfg \<le> i then has_history st
      else if (i \<noteq> 0 \<and> has_history st ! (i - 1) = 0) \<or> \<not> usable_frame f
      then (has_history st)[i := 0] else has_history st)"
  by (simp add: update_window_def Let_def usable_frame_def)


lemma has_history_beyond_window:
  "cruise_historical_frame_length cfg \<le> k \<Longrightarrow>
     has_history (history_loop cfg p h s k fs st) = has_history st"
  by (induction fs arbitrary: k st)
     (simp_all add: has_history_update_window has_history_collect)

lemma all_le_Suc_shift:
  "(\<forall>j. j \<le> Suc n \<longrightarrow> P ((f # fs) ! j)) \<longleftrightarrow> P f \<and> (\<forall>j. j \<le> n \<longrightarrow> P (fs ! j))"
proof
  assume a: "\<forall>j. j \<le> Suc n \<longrightarrow> P ((f # fs) ! j)"
  have "P f" using a [rule_format, of 0] by simp
  moreover have "P (fs ! j)" if "j \<le> n" for j
    using a [rule_format, of "Suc j"] that by simp
  ultimately show "P f \<and> (\<forall>j. j \<le> n \<longrightarrow> P (fs ! j))" by blast
next
  assume b: "P f \<and> (\<forall>j. j \<le> n \<longrightarrow> P (fs ! j))"
  show "\<forall>j. j \<le> Suc n \<longrightarrow> P ((f # fs) ! j)"
  proof (intro allI impI)
    fix j assume "j \<le> Suc n"
    then show "P ((f # fs) ! j)" using b by (cases j) simp_all
  qed
qed

text \<open>
  The flags of the window after the loop has run over the frames \<open>fs\<close>, the first of which
  has the index \<open>k\<close>: the flags before \<open>k\<close> are kept, a frame of \<open>fs\<close> inside the window is
  flagged 1 when no flag before it is 0 and it is usable, and the flags of the indices
  past the last frame are still the initial 1.
\<close>

lemma has_history_loop:
  assumes "length (has_history st) = cruise_historical_frame_length cfg"
    and "\<forall>i. k \<le> i \<and> i < cruise_historical_frame_length cfg \<longrightarrow> has_history st ! i = 1"
    and "\<forall>j < length fs. k + j < cruise_historical_frame_length cfg \<longrightarrow>
           IsInitialized (fs ! j) \<and> \<not> timestamp (fs ! j) < s"
  shows "\<forall>i < cruise_historical_frame_length cfg.
           has_history (history_loop cfg p h s k fs st) ! i =
             (if i < k then has_history st ! i
              else if i < k + length fs
              then (if (k = 0 \<or> has_history st ! (k - 1) \<noteq> 0)
                       \<and> (\<forall>j. j \<le> i - k \<longrightarrow> usable_frame (fs ! j)) then 1 else 0)
              else 1)"
  using assms
proof (induction fs arbitrary: k st)
  case Nil
  then show ?case by simp
next
  case (Cons f fs)
  let ?W = "cruise_historical_frame_length cfg"
  let ?H = "has_history st"
  show ?case
  proof (cases "?W \<le> k")
    case True
    then have "has_history (history_loop cfg p h s k (f # fs) st) = ?H"
      by (rule has_history_beyond_window)
    then show ?thesis
      using True by (simp del: history_loop.simps)
  next
    case False
    then have k: "k < ?W" by simp
    have f: "IsInitialized f" "\<not> timestamp f < s"
      using Cons.prems(3) k by auto
    define good where "good \<longleftrightarrow> (k = 0 \<or> ?H ! (k - 1) \<noteq> 0) \<and> usable_frame f"
    define st' where "st' = update_window cfg p h k f (collect_lane_feature f st)"
    have H': "has_history st' = (if good then ?H else ?H[k := 0])"
      using k by (auto simp: st'_def good_def has_history_update_window has_history_collect)
    have step: "history_loop cfg p h s k (f # fs) st = history_loop cfg p h s (Suc k) fs st'"
      using f by (simp add: st'_def)
    have len': "length (has_history st') = ?W"
      using Cons.prems(1) by (simp add: H')
    have ones': "\<forall>i. Suc k \<le> i \<and> i < ?W \<longrightarrow> has_history st' ! i = 1"
      using Cons.prems(2) by (simp add: H')
    have vis': "\<forall>j < length fs. Suc k + j < ?W \<longrightarrow>
                  IsInitialized (fs ! j) \<and> \<not> timestamp (fs ! j) < s"
    proof (intro allI impI)
      fix j assume "j < length fs" "Suc k + j < ?W"
      then show "IsInitialized (fs ! j) \<and> \<not> timestamp (fs ! j) < s"
        using Cons.prems(3) [rule_format, of "Suc j"] by simp
    qed
    note IH = Cons.IH [OF len' ones' vis']
    have at_k: "has_history st' ! k = (if good then 1 else 0)"
      using k Cons.prems(1,2) by (simp add: H')
    show ?thesis
    proof (intro allI impI)
      fix i assume i: "i < ?W"
      from IH i have R: "has_history (history_loop cfg p h s (Suc k) fs st') ! i =
             (if i < Suc k then has_history st' ! i
              else if i < Suc k + length fs
              then (if (Suc k = 0 \<or> has_history st' ! (Suc k - 1) \<noteq> 0)
                       \<and> (\<forall>j. j \<le> i - Suc k \<longrightarrow> usable_frame (fs ! j)) then 1 else 0)
              else 1)"
        by blast
      consider "i < k" | "i = k" | "k < i"
        by linarith
      then show "has_history (history_loop cfg p h s k (f # fs) st) ! i =
             (if i < k then has_history st ! i
              else if i < k + length (f # fs)
              then (if (k = 0 \<or> has_history st ! (k - 1) \<noteq> 0)
                       \<and> (\<forall>j. j \<le> i - k \<longrightarrow> usable_frame ((f # fs) ! j)) then 1 else 0)
              else 1)"
      proof cases
        case 1
        then show ?thesis
          using R by (simp add: step H' del: history_loop.simps)
      next
        case 2
        then show ?thesis
          using R at_k by (simp add: step good_def del: history_loop.simps)
      next
        case 3
        then obtain n where n: "i - k = Suc n" "i - Suc k = n"
          by (cases "i - k") auto
        have "(\<forall>j. j \<le> i - k \<longrightarrow> usable_frame ((f # fs) ! j))
                \<longleftrightarrow> usable_frame f \<and> (\<forall>j. j \<le> i - Suc k \<longrightarrow> usable_frame (fs ! j))"
          unfolding n by (rule all_le_Suc_shift)
        then show ?thesis
          using R 3 at_k by (auto simp add: step good_def simp del: history_loop.simps)
      qed
    qed
  qed
qed

text \<open>
  When the first \<open>W\<close> frames of the history are all there, initialised and inside the
  time horizon, a frame is flagged 1 exactly when it and all the frames before it are usable.
  In every case the flag of an index past the end of the history is 1.
\<close>

lemma has_history_covered_window:
  assumes "cruise_historical_frame_length cfg \<le> history_size obs"
    and "\<forall>j < cruise_historical_frame_length cfg.
           IsInitialized (feature_history obs ! j)
           \<and> \<not> timestamp (feature_history obs ! j)
                 < obstacle_timestamp obs - prediction_trajectory_time_length cfg"
    and "i < cruise_historical_frame_length cfg"
  shows "has_history (history_state cfg obs) ! i =
           (if \<forall>j. j \<le> i \<longrightarrow> usable_frame (feature_history obs ! j) then 1 else 0)"
proof -
  have init: "length (has_history (init_hist_state cfg obs)) = cruise_historical_frame_length cfg"
    "\<forall>i. 0 \<le> i \<and> i < cruise_historical_frame_length cfg \<longrightarrow>
        has_history (init_hist_state cfg obs) ! i = 1"
    by (simp_all add: init_hist_state_def)
  have vis: "\<forall>j < length (feature_history obs). 0 + j < cruise_historical_frame_length cfg \<longrightarrow>
           IsInitialized (feature_history obs ! j)
           \<and> \<not> timestamp (feature_history obs ! j)
                 < obstacle_timestamp obs - prediction_trajectory_time_length cfg"
    using assms(2) by simp
  have "i < length (feature_history obs)"
    using assms(1,3) by (simp add: history_size_def)
  then show ?thesis
    using has_history_loop [OF init vis, rule_format, OF assms(3),
        of "position (latest_feature obs)" "velocity_heading (latest_feature obs)"]
    by (simp add: history_state_def Let_def)
qed

lemma has_history_untouched:
  "k + length fs \<le> i \<Longrightarrow>
     has_history (history_loop cfg p h s k fs st) ! i = has_history st ! i"
  by (induction fs arbitrary: k st)
     (simp_all add: has_history_update_window has_history_collect)

lemma has_history_past_history:
  assumes "history_size obs \<le> i" "i < cruise_historical_frame_length cfg"
  shows "has_history (history_state cfg obs) ! i = 1"
proof -
  have "0 + length (feature_history obs) \<le> i"
    using assms(1) by (simp add: history_size_def)
  then have "has_history (history_state cfg obs) ! i = has_history (init_hist_state cfg obs) ! i"
    unfolding history_state_def Let_def by (rule has_history_untouched)
  then show ?thesis
    using assms(2) by (simp add: init_hist_state_def)
qed

lemma thetas_collect:
  "length (thetas (collect_lane_feature f st)) \<le> Suc (length (thetas st))"
  "length (lane_ls (collect_lane_feature f st)) \<le> Suc (length (lane_ls st))"
  by (simp_all add: collect_lane_feature_def)

lemma thetas_history_loop:
  "length (thetas (history_loop cfg p h s k fs st)) \<le> length (thetas st) + length fs
   \<and> length (lane_ls (history_loop cfg p h s k fs st)) \<le> length (lane_ls st) + length fs"
proof (induction fs arbitrary: k st)
  case Nil
  then show ?case by simp
next
  case (Cons f fs)
  let ?st' = "update_window cfg p h k f (collect_lane_feature f st)"
  have a: "length (thetas ?st') \<le> Suc (length (thetas st))"
    "length (lane_ls ?st') \<le> Suc (length (lane_ls st))"
    using thetas_collect [of f st] by (simp_all add: update_window_lane_stats)
  have "length (thetas (history_loop cfg p h s (Suc k) fs ?st')) \<le> length (thetas ?st') + length fs"
    "length (lane_ls (history_loop cfg p h s (Suc k) fs ?st')) \<le> length (lane_ls ?st') + length fs"
    using Cons.IH [of "Suc k" ?st'] by simp_all
  then have "length (thetas (history_loop cfg p h s (Suc k) fs ?st')) \<le> length (thetas st) + Suc (length fs)"
    "length (lane_ls (history_loop cfg p h s (Suc k) fs ?st')) \<le> length (lane_ls st) + Suc (length fs)"
    using a by linarith+
  moreover have "length (thetas (history_loop cfg p h s (Suc k) fs st)) \<le> length (thetas st) + Suc (length fs)"
    "length (lane_ls (history_loop cfg p h s (Suc k) fs st)) \<le> length (lane_ls st) + Suc (length fs)"
    using Cons.IH [of "Suc k" st] by simp_all
  ultimately show ?case
    by simp
qed

text \<open>There are at most as many lane-attributed samples as frames in the history.\<close>

lemma samples_le_history_size:
  "length (thetas (history_state cfg obs)) \<le> history_size obs"
  "length (lane_ls (history_state cfg obs)) \<le> history_size obs"
  using thetas_history_loop [of cfg "position (latest_feature obs)"
      "velocity_heading (latest_feature obs)"
      "obstacle_timestamp obs - prediction_trajectory_time_length cfg" 0 "feature_history obs"
      "init_hist_state cfg obs"]
  by (simp_all add: history_state_def Let_def init_hist_state_def history_size_def)

text \<open>
  With at least 10 lane-attributed samples the two deltas are the mean of the 5 most recent
  samples minus the mean of the next 5.
\<close>

lemma ComputeMean_five:
  assumes "10 \<le> length xs"
  shows "ComputeMean xs 0 4 = (xs ! 0 + xs ! 1 + xs ! 2 + xs ! 3 + xs ! 4) / 5"
    and "ComputeMean xs 5 9 = (xs ! 5 + xs ! 6 + xs ! 7 + xs ! 8 + xs ! 9) / 5"
proof -
  have m: "min 5 (length xs) = 5" "min 10 (length xs) = 10"
    using assms by simp_all
  have u: "[0..<5] = [0, 1, 2, 3, 4]" "[5..<10] = [5, 6, 7, 8, 9]"
    by (simp_all add: upt_rec)
  show "ComputeMean xs 0 4 = (xs ! 0 + xs ! 1 + xs ! 2 + xs ! 3 + xs ! 4) / 5"
    by (simp add: ComputeMean_def Let_def m u)
  show "ComputeMean xs 5 9 = (xs ! 5 + xs ! 6 + xs ! 7 + xs ! 8 + xs ! 9) / 5"
    by (simp add: ComputeMean_def Let_def m u)
qed

lemma deltas_with_ten_samples:
  assumes "10 \<le> length (thetas (history_state cfg obs))"
  shows "angle_diff_of obs (history_state cfg obs) =
           ComputeMean (thetas (history_state cfg obs)) 0 4
             - ComputeMean (thetas (history_state cfg obs)) 5 9"
  using assms samples_le_history_size(1) [of cfg obs]
  by (simp add: angle_diff_of_def)

section \<open>Properties of the interaction block\<close>

lemma nearby_step_forward:
  "fst (nearby_step (f, b) n) =
     (if 0 \<le> nearby_s n \<and> nearby_s n < nearby_s f
      then f\<lparr>has_id := True, nearby_id := nearby_id n,
             nearby_s := nearby_s n, nearby_l := nearby_l n\<rparr> else f)"
  by (auto simp: nearby_step_def Let_def)

lemma nearby_step_backward:
  "snd (nearby_step (f, b) n) =
     (if nearby_s n < 0 \<and> nearby_s b < nearby_s n
      then b\<lparr>has_id := True, nearby_id := nearby_id n,
             nearby_s := nearby_s n, nearby_l := nearby_l n\<rparr> else b)"
  by (auto simp: nearby_step_def Let_def)

lemma forward_scan:
  "(\<not> (\<exists>n \<in> set ns. 0 \<le> nearby_s n \<and> nearby_s n < nearby_s f) \<longrightarrow>
        fst (foldl nearby_step (f, b) ns) = f)
   \<and> ((\<exists>n \<in> set ns. 0 \<le> nearby_s n \<and> nearby_s n < nearby_s f) \<longrightarrow>
        nearby_s (fst (foldl nearby_step (f, b) ns)) < nearby_s f
        \<and> has_id (fst (foldl nearby_step (f, b) ns))
        \<and> nearby_id (fst (foldl nearby_step (f, b) ns)) \<in> nearby_id ` set ns)"
proof (induction ns arbitrary: f b)
  case Nil
  then show ?case by simp
next
  case (Cons n ns)
  define f' where "f' = fst (nearby_step (f, b) n)"
  define b' where "b' = snd (nearby_step (f, b) n)"
  have step: "nearby_step (f, b) n = (f', b')"
    by (simp add: f'_def b'_def)
  note IH = Cons.IH [of f' b']
  show ?case
  proof (cases "0 \<le> nearby_s n \<and> nearby_s n < nearby_s f")
    case True
    then have s: "nearby_s f' = nearby_s n" "has_id f'" "nearby_id f' = nearby_id n"
      by (simp_all add: f'_def nearby_step_forward)
    show ?thesis
    proof (cases "\<exists>m \<in> set ns. 0 \<le> nearby_s m \<and> nearby_s m < nearby_s f'")
      case True
      with IH have "nearby_s (fst (foldl nearby_step (f', b') ns)) < nearby_s f'"
        "has_id (fst (foldl nearby_step (f', b') ns))"
        "nearby_id (fst (foldl nearby_step (f', b') ns)) \<in> nearby_id ` set ns"
        by blast+
      then show ?thesis
        using \<open>0 \<le> nearby_s n \<and> nearby_s n < nearby_s f\<close> s by (auto simp: step)
    next
      case False
      with IH have "fst (foldl nearby_step (f', b') ns) = f'"
        by blast
      then show ?thesis
        using \<open>0 \<le> nearby_s n \<and> nearby_s n < nearby_s f\<close> s by (auto simp: step)
    qed
  next
    case False
    then have "f' = f" by (auto simp: f'_def nearby_step_forward)
    then show ?thesis
      using IH False by (auto simp: step)
  qed
qed

lemma backward_scan:
  "(\<not> (\<exists>n \<in> set ns. nearby_s n < 0 \<and> nearby_s b < nearby_s n) \<longrightarrow>
        snd (foldl nearby_step (f, b) ns) = b)
   \<and> ((\<exists>n \<in> set ns. nearby_s n < 0 \<and> nearby_s b < nearby_s n) \<longrightarrow>
        nearby_s b < nearby_s (snd (foldl nearby_step (f, b) ns))
        \<and> has_id (snd (foldl nearby_step (f, b) ns))
        \<and> nearby_id (snd (foldl nearby_step (f, b) ns)) \<in> nearby_id ` set ns)"
proof (induction ns arbitrary: f b)
  case Nil
  then show ?case by simp
next
  case (Cons n ns)
  define f' where "f' = fst (nearby_step (f, b) n)"
  define b' where "b' = snd (nearby_step (f, b) n)"
  have step: "nearby_step (f, b) n = (f', b')"
    by (simp add: f'_def b'_def)
  note IH = Cons.IH [of b' f']
  show ?case
  proof (cases "nearby_s n < 0 \<and> nearby_s b < nearby_s n")
    case True
    then have s: "nearby_s b' = nearby_s n" "has_id b'" "nearby_id b' = nearby_id n"
      by (simp_all add: b'_def nearby_step_backward)
    show ?thesis
    proof (cases "\<exists>m \<in> set ns. nearby_s m < 0 \<and> nearby_s b' < nearby_s m")
      case True
      with IH have "nearby_s b' < nearby_s (snd (foldl nearby_step (f', b') ns))"
        "has_id (snd (foldl nearby_step (f', b') ns))"
        "nearby_id (snd (foldl nearby_step (f', b') ns)) \<in> nearby_id ` set ns"
        by blast+
      then show ?thesis
        using \<open>nearby_s n < 0 \<and> nearby_s b < nearby_s n\<close> s by (auto simp: step)
    next
      case False
      with IH have "snd (foldl nearby_step (f', b') ns) = b'"
        by blast
      then show ?thesis
        using \<open>nearby_s n < 0 \<and> nearby_s b < nearby_s n\<close> s by (auto simp: step)
    qed
  next
    case False
    then have "b' = b" by (auto simp: b'_def nearby_step_backward)
    then show ?thesis
      using IH False by (auto simp: step)
  qed
qed


lemma length_and_speed_cases:
  "length_and_speed cfg t = Inr vs \<Longrightarrow>
     (\<not> has_id t \<and> vs = [0, 0]) \<or>
     (\<exists>other. has_id t \<and> GetObstacle cfg (nearby_id t) = Some other
        \<and> vs = [feature_length (latest_feature other), speed (latest_feature other)])"
  by (auto simp: length_and_speed_def split: if_splits option.splits)

lemma length_and_speed_returns:
  "(has_id t \<longrightarrow> GetObstacle cfg (nearby_id t) \<noteq> None) \<Longrightarrow> \<exists>vs. length_and_speed cfg t = Inr vs"
  by (auto simp: length_and_speed_def split: option.splits)

lemma forward_obstacle_default:
  "(nearby_s (fst (nearest_obstacles cfg seq)) = default_s_if_no_obstacle_in_lane_sequence cfg
      \<and> nearby_l (fst (nearest_obstacles cfg seq)) = default_l_if_no_obstacle_in_lane_sequence cfg)
   \<longleftrightarrow> \<not> (\<exists>n \<in> set (nearby_obstacle seq).
            0 \<le> nearby_s n \<and> nearby_s n < default_s_if_no_obstacle_in_lane_sequence cfg)"
  using forward_scan [of "nearby_obstacle seq" "init_forward_obstacle cfg" "init_backward_obstacle cfg"]
  by (auto simp: nearest_obstacles_def init_forward_obstacle_def)

lemma backward_obstacle_default:
  "(nearby_s (snd (nearest_obstacles cfg seq)) = - default_s_if_no_obstacle_in_lane_sequence cfg
      \<and> nearby_l (snd (nearest_obstacles cfg seq)) = default_l_if_no_obstacle_in_lane_sequence cfg)
   \<longleftrightarrow> \<not> (\<exists>n \<in> set (nearby_obstacle seq).
            nearby_s n < 0 \<and> - default_s_if_no_obstacle_in_lane_sequence cfg < nearby_s n)"
  using backward_scan [of "nearby_obstacle seq" "init_backward_obstacle cfg" "init_forward_obstacle cfg"]
  by (auto simp: nearest_obstacles_def init_backward_obstacle_def)

lemma tracked_ids:
  "has_id (fst (nearest_obstacles cfg seq)) \<Longrightarrow>
     nearby_id (fst (nearest_obstacles cfg seq)) \<in> nearby_id ` set (nearby_obstacle seq)"
  "has_id (snd (nearest_obstacles cfg seq)) \<Longrightarrow>
     nearby_id (snd (nearest_obstacles cfg seq)) \<in> nearby_id ` set (nearby_obstacle seq)"
  using forward_scan [of "nearby_obstacle seq" "init_forward_obstacle cfg" "init_backward_obstacle cfg"]
        backward_scan [of "nearby_obstacle seq" "init_backward_obstacle cfg" "init_forward_obstacle cfg"]
  by (auto simp: nearest_obstacles_def init_backward_obstacle_def init_forward_obstacle_def)

lemma SetInteractionFeatureValues_returns:
  assumes "\<forall>n \<in> set (nearby_obstacle seq). GetObstacle cfg (nearby_id n) \<noteq> None"
  shows "\<exists>fv. SetInteractionFeatureValues cfg obs seq = Inr fv"
proof -
  have "has_id (fst (nearest_obstacles cfg seq)) \<longrightarrow>
          GetObstacle cfg (nearby_id (fst (nearest_obstacles cfg seq))) \<noteq> None"
    using assms tracked_ids(1) [of cfg seq] by auto
  then obtain fw where fw: "length_and_speed cfg (fst (nearest_obstacles cfg seq)) = Inr fw"
    using length_and_speed_returns by blast
  have "has_id (snd (nearest_obstacles cfg seq)) \<longrightarrow>
          GetObstacle cfg (nearby_id (snd (nearest_obstacles cfg seq))) \<noteq> None"
    using assms tracked_ids(2) [of cfg seq] by auto
  then obtain bw where bw: "length_and_speed cfg (snd (nearest_obstacles cfg seq)) = Inr bw"
    using length_and_speed_returns by blast
  show ?thesis
    by (simp add: SetInteractionFeatureValues_def Let_def fw bw)
qed

lemma SetInteractionFeatureValues_shape:
  assumes "SetInteractionFeatureValues cfg obs seq = Inr fv"
  shows "\<exists>fw bw. length_and_speed cfg (fst (nearest_obstacles cfg seq)) = Inr fw
           \<and> length_and_speed cfg (snd (nearest_obstacles cfg seq)) = Inr bw
           \<and> length fw = 2 \<and> length bw = 2
           \<and> fv = [nearby_s (fst (nearest_obstacles cfg seq)),
                   nearby_l (fst (nearest_obstacles cfg seq)), fw ! 0, fw ! 1,
                   nearby_s (snd (nearest_obstacles cfg seq)),
                   nearby_l (snd (nearest_obstacles cfg seq)), bw ! 0, bw ! 1]"
proof -
  obtain fw bw where fw: "length_and_speed cfg (fst (nearest_obstacles cfg seq)) = Inr fw"
    and bw: "length_and_speed cfg (snd (nearest_obstacles cfg seq)) = Inr bw"
    and fv: "fv = [nearby_s (fst (nearest_obstacles cfg seq)),
                   nearby_l (fst (nearest_obstacles cfg seq))] @ fw @
                  [nearby_s (snd (nearest_obstacles cfg seq)),
                   nearby_l (snd (nearest_obstacles cfg seq))] @ bw"
    using assms by (auto simp: SetInteractionFeatureValues_def Let_def split: sum.splits)
  have "length fw = 2 \<and> fw = [fw ! 0, fw ! 1]"
    using length_and_speed_cases [OF fw] by auto
  moreover have "length bw = 2 \<and> bw = [bw ! 0, bw ! 1]"
    using length_and_speed_cases [OF bw] by auto
  ultimately show ?thesis
    using fw bw fv by (metis append_Cons append_Nil)
qed

lemma length_SetInteractionFeatureValues:
  "SetInteractionFeatureValues cfg obs seq = Inr fv \<Longrightarrow> length fv = 8"
  using SetInteractionFeatureValues_shape by fastforce

text \<open>
  C4, in the form that holds of the code. \<^verbatim>\<open>SetInteractionFeatureValues\<close> returns when every
  identifier of the NearbyObstacle list is in the container. Whenever it returns it gives
  exactly 8 values, in the order forward s, forward l, forward length, forward speed,
  backward s, backward l, backward length, backward speed. The forward default pair
  (defaultS, defaultL) stands in the output if and only if the list has no entry with
  \<open>0 \<le> s < defaultS\<close>, and the backward default pair (-defaultS, defaultL) if and only if it has
  no entry with \<open>-defaultS < s < 0\<close>.
\<close>

theorem SetInteractionFeatureValues_defaults:
  "((\<forall>n \<in> set (nearby_obstacle seq). GetObstacle cfg (nearby_id n) \<noteq> None) \<longrightarrow>
      (\<exists>fv. SetInteractionFeatureValues cfg obs seq = Inr fv))
   \<and> (\<forall>fv. SetInteractionFeatureValues cfg obs seq = Inr fv \<longrightarrow>
        length fv = 8
        \<and> fv ! 0 = nearby_s (fst (nearest_obstacles cfg seq))
        \<and> fv ! 1 = nearby_l (fst (nearest_obstacles cfg seq))
        \<and> length_and_speed cfg (fst (nearest_obstacles cfg seq)) = Inr [fv ! 2, fv ! 3]
        \<and> fv ! 4 = nearby_s (snd (nearest_obstacles cfg seq))
        \<and> fv ! 5 = nearby_l (snd (nearest_obstacles cfg seq))
        \<and> length_and_speed cfg (snd (nearest_obstacles cfg seq)) = Inr [fv ! 6, fv ! 7]
        \<and> ((fv ! 0 = default_s_if_no_obstacle_in_lane_sequence cfg
             \<and> fv ! 1 = default_l_if_no_obstacle_in_lane_sequence cfg)
            \<longleftrightarrow> \<not> (\<exists>n \<in> set (nearby_obstacle seq).
                     0 \<le> nearby_s n \<and> nearby_s n < default_s_if_no_obstacle_in_lane_sequence cfg))
        \<and> ((fv ! 4 = - default_s_if_no_obstacle_in_lane_sequence cfg
             \<and> fv ! 5 = default_l_if_no_obstacle_in_lane_sequence cfg)
            \<longleftrightarrow> \<not> (\<exists>n \<in> set (nearby_obstacle seq).
                     nearby_s n < 0 \<and> - default_s_if_no_obstacle_in_lane_sequence cfg < nearby_s n)))"
proof (intro conjI allI impI)
  assume "\<forall>n \<in> set (nearby_obstacle seq). GetObstacle cfg (nearby_id n) \<noteq> None"
  then show "\<exists>fv. SetInteractionFeatureValues cfg obs seq = Inr fv"
    by (rule SetInteractionFeatureValues_returns)
next
  fix fv assume r: "SetInteractionFeatureValues cfg obs seq = Inr fv"
  obtain fw bw where fw: "length_and_speed cfg (fst (nearest_obstacles cfg seq)) = Inr fw"
    and bw: "length_and_speed cfg (snd (nearest_obstacles cfg seq)) = Inr bw"
    and len: "length fw = 2" "length bw = 2"
    and fv: "fv = [nearby_s (fst (nearest_obstacles cfg seq)),
                   nearby_l (fst (nearest_obstacles cfg seq)), fw ! 0, fw ! 1,
                   nearby_s (snd (nearest_obstacles cfg seq)),
                   nearby_l (snd (nearest_obstacles cfg seq)), bw ! 0, bw ! 1]"
    using SetInteractionFeatureValues_shape [OF r] by blast
  have fw2: "fw = [fw ! 0, fw ! 1]" and bw2: "bw = [bw ! 0, bw ! 1]"
    using len by (auto simp: length_Suc_conv numeral_2_eq_2)
  show "length fv = 8" by (simp add: fv)
  show "fv ! 0 = nearby_s (fst (nearest_obstacles cfg seq))" by (simp add: fv)
  show "fv ! 1 = nearby_l (fst (nearest_obstacles cfg seq))" by (simp add: fv)
  show "fv ! 4 = nearby_s (snd (nearest_obstacles cfg seq))" by (simp add: fv)
  show "fv ! 5 = nearby_l (snd (nearest_obstacles cfg seq))" by (simp add: fv)
  show "length_and_speed cfg (fst (nearest_obstacles cfg seq)) = Inr [fv ! 2, fv ! 3]"
    using fw fw2 by (simp add: fv)
  show "length_and_speed cfg (snd (nearest_obstacles cfg seq)) = Inr [fv ! 6, fv ! 7]"
    using bw bw2 by (simp add: fv)
  show "(fv ! 0 = default_s_if_no_obstacle_in_lane_sequence cfg
             \<and> fv ! 1 = default_l_if_no_obstacle_in_lane_sequence cfg)
            \<longleftrightarrow> \<not> (\<exists>n \<in> set (nearby_obstacle seq).
                     0 \<le> nearby_s n \<and> nearby_s n < default_s_if_no_obstacle_in_lane_sequence cfg)"
    using forward_obstacle_default [of cfg seq] by (simp add: fv)
  show "(fv ! 4 = - default_s_if_no_obstacle_in_lane_sequence cfg
             \<and> fv ! 5 = default_l_if_no_obstacle_in_lane_sequence cfg)
            \<longleftrightarrow> \<not> (\<exists>n \<in> set (nearby_obstacle seq).
                     nearby_s n < 0 \<and> - default_s_if_no_obstacle_in_lane_sequence cfg < nearby_s n)"
    using backward_obstacle_default [of cfg seq] by (simp add: fv)
qed

lemma far_sequence_value:
  "SetInteractionFeatureValues example_env example_obstacle far_sequence
     = Inr [1000, 10, 0, 0, - 1000, 10, 0, 0]"
  by (simp add: SetInteractionFeatureValues_def nearest_obstacles_def far_sequence_def
      example_sequence_def nearby_step_def init_forward_obstacle_def init_backward_obstacle_def
      example_env_def length_and_speed_def Let_def)

text \<open>
  A nearby obstacle ahead at \<open>s = 2000\<close>, beyond the default distance 1000: the list has an
  entry of non-negative \<open>s\<close>, and the forward pair of the output is the default pair.
\<close>

theorem forward_default_counterexample:
  "SetInteractionFeatureValues example_env example_obstacle far_sequence
     = Inr [1000, 10, 0, 0, - 1000, 10, 0, 0]
   \<and> default_s_if_no_obstacle_in_lane_sequence example_env = 1000
   \<and> default_l_if_no_obstacle_in_lane_sequence example_env = 10
   \<and> map nearby_s (nearby_obstacle far_sequence) = [2000]"
  by (simp add: far_sequence_value) (simp add: example_env_def far_sequence_def)

lemma near_sequence_value:
  "SetInteractionFeatureValues container_env example_obstacle near_sequence
     = Inr [30, 1, 4, 3, - 20, 2, 4, 3]"
  by (simp add: SetInteractionFeatureValues_def nearest_obstacles_def near_sequence_def
      example_sequence_def nearby_step_def init_forward_obstacle_def init_backward_obstacle_def
      example_env_def container_env_def length_and_speed_def Let_def example_obstacle_def
      example_feature_def)

theorem SetInteractionFeatureValues_defaults_witness:
  "map nearby_s (nearby_obstacle near_sequence) = [30, - 20]
   \<and> map (\<lambda>n. GetObstacle container_env (nearby_id n)) (nearby_obstacle near_sequence)
       = [Some example_obstacle, Some example_obstacle]
   \<and> default_s_if_no_obstacle_in_lane_sequence container_env = 1000
   \<and> (\<exists>fv. SetInteractionFeatureValues container_env example_obstacle near_sequence = Inr fv
         \<and> length fv = 8 \<and> fv ! 0 = 30 \<and> fv ! 4 = - 20)"
proof -
  have ss: "map nearby_s (nearby_obstacle near_sequence) = [30, - 20]"
    and ids: "map (\<lambda>n. GetObstacle container_env (nearby_id n)) (nearby_obstacle near_sequence)
       = [Some example_obstacle, Some example_obstacle]"
    by (simp_all add: near_sequence_def container_env_def)
  have resolved: "\<forall>n \<in> set (nearby_obstacle near_sequence).
                    GetObstacle container_env (nearby_id n) \<noteq> None"
    by (simp add: near_sequence_def container_env_def)
  have d: "default_s_if_no_obstacle_in_lane_sequence container_env = 1000"
    by (simp add: container_env_def example_env_def)
  note main = SetInteractionFeatureValues_defaults [of near_sequence container_env example_obstacle]
  from main resolved obtain fv where
    fv: "SetInteractionFeatureValues container_env example_obstacle near_sequence = Inr fv"
    by blast
  from main fv have len: "length fv = 8"
    by blast
  have "fv = [30, 1, 4, 3, - 20, 2, 4, 3]"
    using fv by (simp add: near_sequence_value)
  then have "fv ! 0 = 30 \<and> fv ! 4 = - 20"
    by simp
  then show ?thesis
    using ss ids d fv len by blast
qed

section \<open>Properties of the lane block\<close>

lemma length_lane_point_values: "length (lane_point_values cfg feature heading p) = 4"
  by (simp add: lane_point_values_def Let_def)

lemma length_concat_values:
  "length (concat (map (lane_point_values cfg feature heading) ps)) = 4 * length ps"
  by (induction ps) (simp_all add: length_lane_point_values)

lemma lane_point_loop_eq:
  "length fv = 4 * k \<Longrightarrow>
     lane_point_loop cfg feature heading ps fv =
       fv @ concat (map (lane_point_values cfg feature heading)
                      (take (LANE_POINTS_SIZE cfg - k) (filter lp_has_position ps)))"
proof (induction ps arbitrary: fv k)
  case Nil
  then show ?case by simp
next
  case (Cons p ps)
  show ?case
  proof (cases "LANE_POINTS_SIZE cfg \<le> k")
    case True
    then show ?thesis
      using Cons.prems by (simp add: SINGLE_LANE_FEATURE_SIZE_def)
  next
    case False
    then have open_: "\<not> length fv \<ge> SINGLE_LANE_FEATURE_SIZE * LANE_POINTS_SIZE cfg"
      using Cons.prems by (simp add: SINGLE_LANE_FEATURE_SIZE_def)
    show ?thesis
    proof (cases "lp_has_position p")
      case True
      have len: "length (fv @ lane_point_values cfg feature heading p) = 4 * Suc k"
        using Cons.prems by (simp add: length_lane_point_values)
      have tk: "take (LANE_POINTS_SIZE cfg - k) (p # filter lp_has_position ps)
                  = p # take (LANE_POINTS_SIZE cfg - Suc k) (filter lp_has_position ps)"
      proof -
        have "LANE_POINTS_SIZE cfg - k = Suc (LANE_POINTS_SIZE cfg - Suc k)"
          using False by simp
        then show ?thesis by simp
      qed
      show ?thesis
        using open_ True Cons.IH [OF len] by (simp add: tk)
    next
      case False
      then show ?thesis
        using open_ Cons.IH [OF Cons.prems] by simp
    qed
  qed
qed

lemma lane_segment_loop_eq:
  "length fv = 4 * k \<Longrightarrow>
     lane_segment_loop cfg feature heading segs fv =
       fv @ concat (map (lane_point_values cfg feature heading)
                      (take (LANE_POINTS_SIZE cfg - k) (filter lp_has_position (concat segs))))"
proof (induction segs arbitrary: fv k)
  case Nil
  then show ?case by simp
next
  case (Cons seg segs)
  show ?case
  proof (cases "LANE_POINTS_SIZE cfg \<le> k")
    case True
    then show ?thesis
      using Cons.prems by (simp add: SINGLE_LANE_FEATURE_SIZE_def)
  next
    case False
    then have open_: "\<not> length fv \<ge> SINGLE_LANE_FEATURE_SIZE * LANE_POINTS_SIZE cfg"
      using Cons.prems by (simp add: SINGLE_LANE_FEATURE_SIZE_def)
    define m where "m = length (take (LANE_POINTS_SIZE cfg - k) (filter lp_has_position seg))"
    define fv1 where "fv1 = lane_point_loop cfg feature heading seg fv"
    have fv1: "fv1 = fv @ concat (map (lane_point_values cfg feature heading)
                      (take (LANE_POINTS_SIZE cfg - k) (filter lp_has_position seg)))"
      unfolding fv1_def by (rule lane_point_loop_eq [OF Cons.prems])
    have len1: "length fv1 = 4 * (k + m)"
      using Cons.prems by (simp add: fv1 length_concat_values m_def)
    have rest: "take (LANE_POINTS_SIZE cfg - (k + m)) (filter lp_has_position (concat segs))
                = take (LANE_POINTS_SIZE cfg - k - length (filter lp_has_position seg))
                    (filter lp_has_position (concat segs))"
      by (cases "length (filter lp_has_position seg) \<le> LANE_POINTS_SIZE cfg - k")
         (simp_all add: m_def min_def)
    have "lane_segment_loop cfg feature heading (seg # segs) fv
            = lane_segment_loop cfg feature heading segs fv1"
      using open_ by (simp add: fv1_def)
    also have "\<dots> = fv1 @ concat (map (lane_point_values cfg feature heading)
        (take (LANE_POINTS_SIZE cfg - (k + m)) (filter lp_has_position (concat segs))))"
      by (rule Cons.IH [OF len1])
    finally show ?thesis
      by (simp add: fv1 rest)
  qed
qed

lemma extrapolate_loop_stop:
  "length fv < 10 \<or> target \<le> length fv \<Longrightarrow> extrapolate_loop target fv = fv"
  by (subst extrapolate_loop.simps) auto

lemma extrapolate_loop_prefix:
  "take (length fv) (extrapolate_loop target fv) = fv"
proof (induction target fv rule: extrapolate_loop.induct)
  case (1 target fv)
  show ?case
  proof (cases "length fv \<ge> 10 \<and> length fv < target")
    case True
    let ?fv' = "fv @ [2 * fv ! (length fv - 5) - fv ! (length fv - 10),
                      2 * fv ! (length fv - 4) - fv ! (length fv - 9),
                      fv ! (length fv - 3), 0]"
    have step: "extrapolate_loop target fv = extrapolate_loop target ?fv'"
      using True by (subst extrapolate_loop.simps) simp
    have "take (length ?fv') (extrapolate_loop target ?fv') = ?fv'"
      using "1.IH" True by simp
    then have "take (length fv) (take (length ?fv') (extrapolate_loop target ?fv')) = fv"
      by simp
    then show ?thesis
      by (simp add: step min_def)
  next
    case False
    then have "length fv < 10 \<or> target \<le> length fv" by auto
    then show ?thesis
      by (simp add: extrapolate_loop_stop)
  qed
qed

lemma extrapolate_loop_length:
  "length fv = 4 * k \<Longrightarrow>
     length (extrapolate_loop (4 * l) fv) = (if 3 \<le> k \<and> k < l then 4 * l else 4 * k)"
proof (induction "4 * l" fv arbitrary: k rule: extrapolate_loop.induct)
  case (1 fv)
  show ?case
  proof (cases "length fv \<ge> 10 \<and> length fv < 4 * l")
    case True
    let ?fv' = "fv @ [2 * fv ! (length fv - 5) - fv ! (length fv - 10),
                      2 * fv ! (length fv - 4) - fv ! (length fv - 9),
                      fv ! (length fv - 3), 0]"
    have step: "extrapolate_loop (4 * l) fv = extrapolate_loop (4 * l) ?fv'"
      using True by (subst extrapolate_loop.simps) simp
    have k: "3 \<le> k" "k < l" using True "1.prems" by auto
    have len': "length ?fv' = 4 * Suc k" using "1.prems" by simp
    have "length (extrapolate_loop (4 * l) ?fv') = (if 3 \<le> Suc k \<and> Suc k < l then 4 * l else 4 * Suc k)"
      using "1.hyps" [OF _ len'] True by simp
    then show ?thesis
      using k by (auto simp: step)
  next
    case False
    then have "length fv < 10 \<or> 4 * l \<le> length fv" by auto
    then have "extrapolate_loop (4 * l) fv = fv"
      by (rule extrapolate_loop_stop)
    then show ?thesis
      using False "1.prems" by auto
  qed
qed

lemma extrapolate_loop_kappa:
  "length fv = 4 * k \<Longrightarrow> length fv \<le> j \<Longrightarrow> j < length (extrapolate_loop target fv) \<Longrightarrow>
     j mod 4 = 3 \<Longrightarrow> extrapolate_loop target fv ! j = 0"
proof (induction target fv arbitrary: k rule: extrapolate_loop.induct)
  case (1 target fv)
  show ?case
  proof (cases "length fv \<ge> 10 \<and> length fv < target")
    case True
    let ?fv' = "fv @ [2 * fv ! (length fv - 5) - fv ! (length fv - 10),
                      2 * fv ! (length fv - 4) - fv ! (length fv - 9),
                      fv ! (length fv - 3), 0]"
    have step: "extrapolate_loop target fv = extrapolate_loop target ?fv'"
      using True by (subst extrapolate_loop.simps) simp
    have len': "length ?fv' = 4 * Suc k" using "1.prems" by simp
    show ?thesis
    proof (cases "length ?fv' \<le> j")
      case True
      then show ?thesis
        using "1.IH" [OF \<open>length fv \<ge> 10 \<and> length fv < target\<close> len' True] "1.prems"
        by (simp add: step)
    next
      case False
      then have j: "j = length fv + 3"
        using "1.prems" by (simp add: len') presburger
      have "j < length ?fv'" using False by simp
      then have "extrapolate_loop target ?fv' ! j = take (length ?fv') (extrapolate_loop target ?fv') ! j"
        by simp
      also have "\<dots> = ?fv' ! j"
        by (simp only: extrapolate_loop_prefix)
      also have "\<dots> = 0"
        by (simp add: j nth_append)
      finally show ?thesis by (simp add: step)
    qed
  next
    case False
    then have "length fv < 10 \<or> target \<le> length fv" by auto
    then have "extrapolate_loop target fv = fv"
      by (rule extrapolate_loop_stop)
    then show ?thesis
      using "1.prems" by simp
  qed
qed

lemma extrapolate_offsets:
  "extrapolate_loop 16 [l1, s1, a1, k1, l2, s2, a2, k2, l3, s3, a3, k3]
     = [l1, s1, a1, k1, l2, s2, a2, k2, l3, s3, a3, k3, 2 * k2 - a1, 2 * l3 - k1, s3, 0]"
  by (simp add: extrapolate_loop.simps [of 16 "[l1, s1, a1, k1, l2, s2, a2, k2, l3, s3, a3, k3]"]
      extrapolate_loop.simps [of 16 "[l1, s1, a1, k1, l2, s2, a2, k2, l3, s3, a3, k3, x1, x2, x3, x4]" for x1 x2 x3 x4])

lemma raw_lane_values:
  "lane_segment_loop cfg feature heading (lane_segment seq) [] =
     concat (map (lane_point_values cfg feature heading)
               (take (LANE_POINTS_SIZE cfg) (positioned_points seq)))"
  using lane_segment_loop_eq [of "[]" 0 cfg feature heading "lane_segment seq"]
  by (simp add: positioned_points_def)

lemma SetLaneFeatureValues_eq:
  "IsInitialized (latest_feature obs) \<Longrightarrow> has_position (latest_feature obs) \<Longrightarrow>
     SetLaneFeatureValues cfg obs seq =
       extrapolate_loop (4 * LANE_POINTS_SIZE cfg)
         (concat (map (lane_point_values cfg (latest_feature obs)
                         (velocity_heading (latest_feature obs)))
                    (take (LANE_POINTS_SIZE cfg) (positioned_points seq))))"
  by (simp add: SetLaneFeatureValues_def Let_def raw_lane_values SINGLE_LANE_FEATURE_SIZE_def)

lemma length_SetLaneFeatureValues:
  assumes "IsInitialized (latest_feature obs)" "has_position (latest_feature obs)"
  shows "length (SetLaneFeatureValues cfg obs seq) =
           (if 3 \<le> length (positioned_points seq)
               \<or> LANE_POINTS_SIZE cfg \<le> length (positioned_points seq)
            then 4 * LANE_POINTS_SIZE cfg else 4 * length (positioned_points seq))"
proof -
  let ?raw = "concat (map (lane_point_values cfg (latest_feature obs)
                         (velocity_heading (latest_feature obs)))
                    (take (LANE_POINTS_SIZE cfg) (positioned_points seq)))"
  let ?k = "min (length (positioned_points seq)) (LANE_POINTS_SIZE cfg)"
  have len: "length ?raw = 4 * ?k"
    by (simp add: length_concat_values)
  show ?thesis
    using extrapolate_loop_length [OF len, of "LANE_POINTS_SIZE cfg"]
    by (simp add: SetLaneFeatureValues_eq [OF assms] min_def split: if_splits)
qed

lemma SetLaneFeatureValues_no_points:
  "LANE_POINTS_SIZE cfg = 0 \<Longrightarrow> SetLaneFeatureValues cfg obs seq = []"
  by (simp add: SetLaneFeatureValues_def Let_def raw_lane_values extrapolate_loop_stop)

text \<open>
  C2, in the form that holds of the code. For every obstacle whose latest observation is
  initialised and positioned and every lane sequence with \<open>n\<close> positioned lane points,
  \<^verbatim>\<open>SetLaneFeatureValues\<close> produces exactly \<open>4 * LANE_POINTS_SIZE\<close> values when \<open>n \<ge> 3\<close> or
  \<open>n \<ge> LANE_POINTS_SIZE\<close>, and exactly \<open>4 * n\<close> values otherwise; the values of the first
  \<open>min n LANE_POINTS_SIZE\<close> positioned points come first, and the curvature of every padded
  point is 0.
\<close>

theorem SetLaneFeatureValues_padding:
  assumes "IsInitialized (latest_feature obs)" "has_position (latest_feature obs)"
  shows "length (SetLaneFeatureValues cfg obs seq) =
           (if 3 \<le> length (positioned_points seq)
               \<or> LANE_POINTS_SIZE cfg \<le> length (positioned_points seq)
            then 4 * LANE_POINTS_SIZE cfg else 4 * length (positioned_points seq))
       \<and> take (4 * min (length (positioned_points seq)) (LANE_POINTS_SIZE cfg))
              (SetLaneFeatureValues cfg obs seq) =
           concat (map (lane_point_values cfg (latest_feature obs)
                          (velocity_heading (latest_feature obs)))
                     (take (LANE_POINTS_SIZE cfg) (positioned_points seq)))
       \<and> (\<forall>j. 4 * min (length (positioned_points seq)) (LANE_POINTS_SIZE cfg) \<le> j
              \<and> j < length (SetLaneFeatureValues cfg obs seq) \<and> j mod 4 = 3
              \<longrightarrow> SetLaneFeatureValues cfg obs seq ! j = 0)"
proof -
  let ?raw = "concat (map (lane_point_values cfg (latest_feature obs)
                         (velocity_heading (latest_feature obs)))
                    (take (LANE_POINTS_SIZE cfg) (positioned_points seq)))"
  let ?k = "min (length (positioned_points seq)) (LANE_POINTS_SIZE cfg)"
  have len: "length ?raw = 4 * ?k"
    by (simp add: length_concat_values)
  have eq: "SetLaneFeatureValues cfg obs seq = extrapolate_loop (4 * LANE_POINTS_SIZE cfg) ?raw"
    by (rule SetLaneFeatureValues_eq [OF assms])
  have prefix: "take (4 * ?k) (SetLaneFeatureValues cfg obs seq) = ?raw"
    using extrapolate_loop_prefix [of ?raw "4 * LANE_POINTS_SIZE cfg"]
    by (simp only: eq len)
  have kappa: "SetLaneFeatureValues cfg obs seq ! j = 0"
    if "4 * ?k \<le> j" "j < length (SetLaneFeatureValues cfg obs seq)" "j mod 4 = 3" for j
    using extrapolate_loop_kappa [OF len, of j "4 * LANE_POINTS_SIZE cfg"] that
    by (simp only: eq len)
  show ?thesis
    using length_SetLaneFeatureValues [OF assms, of cfg seq] prefix kappa by blast
qed

text \<open>
  A lane sequence without lane points, for a positioned obstacle: the lane block is empty,
  where \<open>4 * LANE_POINTS_SIZE\<close> is 12.
\<close>

theorem SetLaneFeatureValues_underfill_counterexample:
  "IsInitialized (latest_feature example_obstacle)
   \<and> has_position (latest_feature example_obstacle)
   \<and> SetLaneFeatureValues example_env example_obstacle example_sequence = []
   \<and> 4 * LANE_POINTS_SIZE example_env = 12"
  by (simp add: SetLaneFeatureValues_def Let_def example_obstacle_def example_feature_def
      example_sequence_def example_env_def extrapolate_loop_stop)

theorem SetLaneFeatureValues_padding_witness:
  "IsInitialized (latest_feature example_obstacle)
   \<and> has_position (latest_feature example_obstacle)
   \<and> length (positioned_points three_point_sequence) = 3
   \<and> length (SetLaneFeatureValues (example_env\<lparr>LANE_POINTS_SIZE := 4\<rparr>) example_obstacle
               three_point_sequence) = 16
   \<and> SetLaneFeatureValues (example_env\<lparr>LANE_POINTS_SIZE := 4\<rparr>) example_obstacle
        three_point_sequence ! 15 = 0"
proof -
  have i: "IsInitialized (latest_feature example_obstacle)"
    and p: "has_position (latest_feature example_obstacle)"
    by (simp_all add: example_obstacle_def example_feature_def)
  have n: "length (positioned_points three_point_sequence) = 3"
    by (simp add: positioned_points_def three_point_sequence_def example_sequence_def
        example_lane_point_def)
  have l: "LANE_POINTS_SIZE (example_env\<lparr>LANE_POINTS_SIZE := 4\<rparr>) = 4"
    by simp
  note main = SetLaneFeatureValues_padding [OF i p, of "example_env\<lparr>LANE_POINTS_SIZE := 4\<rparr>"
      three_point_sequence]
  have len: "length (SetLaneFeatureValues (example_env\<lparr>LANE_POINTS_SIZE := 4\<rparr>) example_obstacle
               three_point_sequence) = 16"
    using main by (simp only: n l) simp
  have "SetLaneFeatureValues (example_env\<lparr>LANE_POINTS_SIZE := 4\<rparr>) example_obstacle
        three_point_sequence ! 15 = 0"
    using main len by (simp only: n l) simp
  then show ?thesis
    using i p n len by simp
qed

section \<open>Properties of \<^verbatim>\<open>ExtractFeatureValues\<close>\<close>

lemma SaveOfflineFeatures_eq:
  "SaveOfflineFeatures seq fv = seq\<lparr>mlp_features := mlp_features seq @ fv\<rparr>"
proof -
  have "foldl (\<lambda>sq v. sq\<lparr>mlp_features := mlp_features sq @ [v]\<rparr>) seq fv
          = seq\<lparr>mlp_features := mlp_features seq @ fv\<rparr>" for seq :: LaneSequence
    by (induction fv arbitrary: seq) simp_all
  then show ?thesis
    by (simp add: SaveOfflineFeatures_def)
qed

lemma length_SetLaneFeatureValues_target:
  "length (SetLaneFeatureValues cfg obs seq) \<noteq> SINGLE_LANE_FEATURE_SIZE * LANE_POINTS_SIZE cfg
     \<Longrightarrow> 0 < LANE_POINTS_SIZE cfg"
  using SetLaneFeatureValues_no_points [of cfg obs seq]
  by (cases "LANE_POINTS_SIZE cfg = 0") simp_all

text \<open>The four ways in which \<^verbatim>\<open>ExtractFeatureValues\<close> returns.\<close>

lemma ExtractFeatureValues_cases:
  assumes "ExtractFeatureValues cfg obs seq fv0 = Inr (seq', fv)"
  shows "(length (SetObstacleFeatureValues cfg obs) \<noteq> OBSTACLE_FEATURE_SIZE cfg
            \<and> seq' = seq \<and> fv = fv0)
       \<or> (\<exists>iv. length (SetObstacleFeatureValues cfg obs) = OBSTACLE_FEATURE_SIZE cfg
            \<and> SetInteractionFeatureValues cfg obs seq = Inr iv
            \<and> length (SetLaneFeatureValues cfg obs seq)
                 \<noteq> SINGLE_LANE_FEATURE_SIZE * LANE_POINTS_SIZE cfg
            \<and> seq' = seq \<and> fv = fv0 @ SetObstacleFeatureValues cfg obs @ iv)
       \<or> (\<exists>iv. length (SetObstacleFeatureValues cfg obs) = OBSTACLE_FEATURE_SIZE cfg
            \<and> SetInteractionFeatureValues cfg obs seq = Inr iv
            \<and> length (SetLaneFeatureValues cfg obs seq)
                 = SINGLE_LANE_FEATURE_SIZE * LANE_POINTS_SIZE cfg
            \<and> fv = fv0 @ SetObstacleFeatureValues cfg obs @ iv @ SetLaneFeatureValues cfg obs seq
            \<and> seq' = (if prediction_offline_mode cfg
                       then seq\<lparr>mlp_features := mlp_features seq @ fv\<rparr> else seq))"
proof (cases "length (SetObstacleFeatureValues cfg obs) = OBSTACLE_FEATURE_SIZE cfg")
  case False
  then show ?thesis
    using assms by (simp add: ExtractFeatureValues_def Let_def)
next
  case True
  then obtain iv where iv: "SetInteractionFeatureValues cfg obs seq = Inr iv"
    using assms by (cases "SetInteractionFeatureValues cfg obs seq")
      (simp_all add: ExtractFeatureValues_def Let_def)
  have len: "length iv = INTERACTION_FEATURE_SIZE"
    using length_SetInteractionFeatureValues [OF iv] by (simp add: INTERACTION_FEATURE_SIZE_def)
  show ?thesis
    using assms True iv len
    by (auto simp: ExtractFeatureValues_def Let_def SaveOfflineFeatures_eq split: if_splits)
qed

lemma ExtractFeatureValues_returns:
  "(\<exists>r. ExtractFeatureValues cfg obs seq fv0 = Inr r) \<longleftrightarrow>
     (length (SetObstacleFeatureValues cfg obs) = OBSTACLE_FEATURE_SIZE cfg \<longrightarrow>
        (\<exists>iv. SetInteractionFeatureValues cfg obs seq = Inr iv))"
  by (cases "SetInteractionFeatureValues cfg obs seq")
     (auto simp: ExtractFeatureValues_def Let_def)

text \<open>
  C10. \<^verbatim>\<open>ExtractFeatureValues\<close> returns when the container holds every nearby obstacle of the
  sequence. Whenever it returns, called on an empty vector, the length of the vector is 0,
  \<^verbatim>\<open>OBSTACLE_FEATURE_SIZE\<close>, \<^verbatim>\<open>OBSTACLE_FEATURE_SIZE + INTERACTION_FEATURE_SIZE\<close> or the full
  declared sum; it is the full sum, which is what \<^verbatim>\<open>Evaluate\<close> checks, if and only if each of
  the three blocks passed its own size check; and the vector is empty when the obstacle
  block fails its check, the obstacle block followed by the interaction block when only
  the lane block fails its check, and the three blocks in order when all pass.
\<close>

theorem ExtractFeatureValues_lengths:
  "((\<forall>n \<in> set (nearby_obstacle seq). GetObstacle cfg (nearby_id n) \<noteq> None) \<longrightarrow>
      (\<exists>r. ExtractFeatureValues cfg obs seq [] = Inr r))
   \<and> (\<forall>seq' fv. ExtractFeatureValues cfg obs seq [] = Inr (seq', fv) \<longrightarrow>
         length fv \<in> {0, OBSTACLE_FEATURE_SIZE cfg,
                       OBSTACLE_FEATURE_SIZE cfg + INTERACTION_FEATURE_SIZE,
                       OBSTACLE_FEATURE_SIZE cfg + INTERACTION_FEATURE_SIZE
                         + SINGLE_LANE_FEATURE_SIZE * LANE_POINTS_SIZE cfg}
       \<and> (length fv = OBSTACLE_FEATURE_SIZE cfg + INTERACTION_FEATURE_SIZE
                         + SINGLE_LANE_FEATURE_SIZE * LANE_POINTS_SIZE cfg
          \<longleftrightarrow> (length (SetObstacleFeatureValues cfg obs) = OBSTACLE_FEATURE_SIZE cfg
               \<and> (\<exists>iv. SetInteractionFeatureValues cfg obs seq = Inr iv
                      \<and> length iv = INTERACTION_FEATURE_SIZE)
               \<and> length (SetLaneFeatureValues cfg obs seq)
                    = SINGLE_LANE_FEATURE_SIZE * LANE_POINTS_SIZE cfg))
       \<and> (length (SetObstacleFeatureValues cfg obs) \<noteq> OBSTACLE_FEATURE_SIZE cfg
            \<longrightarrow> fv = [])
       \<and> (length (SetObstacleFeatureValues cfg obs) = OBSTACLE_FEATURE_SIZE cfg
            \<longrightarrow> (\<exists>iv. SetInteractionFeatureValues cfg obs seq = Inr iv
                   \<and> length iv = INTERACTION_FEATURE_SIZE
                   \<and> fv = (if length (SetLaneFeatureValues cfg obs seq)
                                  = SINGLE_LANE_FEATURE_SIZE * LANE_POINTS_SIZE cfg
                            then SetObstacleFeatureValues cfg obs @ iv
                                   @ SetLaneFeatureValues cfg obs seq
                            else SetObstacleFeatureValues cfg obs @ iv))))"
proof -
  have returns: "\<exists>r. ExtractFeatureValues cfg obs seq [] = Inr r"
    if ids: "\<forall>n \<in> set (nearby_obstacle seq). GetObstacle cfg (nearby_id n) \<noteq> None"
  proof -
    have "\<exists>iv. SetInteractionFeatureValues cfg obs seq = Inr iv"
      using ids by (rule SetInteractionFeatureValues_returns)
    then show ?thesis
      using ExtractFeatureValues_returns [of cfg obs seq "[]"] by blast
  qed
  have lengths: "length fv \<in> {0, OBSTACLE_FEATURE_SIZE cfg,
                       OBSTACLE_FEATURE_SIZE cfg + INTERACTION_FEATURE_SIZE,
                       OBSTACLE_FEATURE_SIZE cfg + INTERACTION_FEATURE_SIZE
                         + SINGLE_LANE_FEATURE_SIZE * LANE_POINTS_SIZE cfg}
       \<and> (length fv = OBSTACLE_FEATURE_SIZE cfg + INTERACTION_FEATURE_SIZE
                         + SINGLE_LANE_FEATURE_SIZE * LANE_POINTS_SIZE cfg
          \<longleftrightarrow> (length (SetObstacleFeatureValues cfg obs) = OBSTACLE_FEATURE_SIZE cfg
               \<and> (\<exists>iv. SetInteractionFeatureValues cfg obs seq = Inr iv
                      \<and> length iv = INTERACTION_FEATURE_SIZE)
               \<and> length (SetLaneFeatureValues cfg obs seq)
                    = SINGLE_LANE_FEATURE_SIZE * LANE_POINTS_SIZE cfg))
       \<and> (length (SetObstacleFeatureValues cfg obs) \<noteq> OBSTACLE_FEATURE_SIZE cfg
            \<longrightarrow> fv = [])
       \<and> (length (SetObstacleFeatureValues cfg obs) = OBSTACLE_FEATURE_SIZE cfg
            \<longrightarrow> (\<exists>iv. SetInteractionFeatureValues cfg obs seq = Inr iv
                   \<and> length iv = INTERACTION_FEATURE_SIZE
                   \<and> fv = (if length (SetLaneFeatureValues cfg obs seq)
                                  = SINGLE_LANE_FEATURE_SIZE * LANE_POINTS_SIZE cfg
                            then SetObstacleFeatureValues cfg obs @ iv
                                   @ SetLaneFeatureValues cfg obs seq
                            else SetObstacleFeatureValues cfg obs @ iv)))"
    if ret: "ExtractFeatureValues cfg obs seq [] = Inr (seq', fv)" for seq' fv
  proof -
  consider
    (a) "length (SetObstacleFeatureValues cfg obs) \<noteq> OBSTACLE_FEATURE_SIZE cfg" "fv = []"
  | (b) iv where "length (SetObstacleFeatureValues cfg obs) = OBSTACLE_FEATURE_SIZE cfg"
      "SetInteractionFeatureValues cfg obs seq = Inr iv"
      "length (SetLaneFeatureValues cfg obs seq) \<noteq> SINGLE_LANE_FEATURE_SIZE * LANE_POINTS_SIZE cfg"
      "fv = SetObstacleFeatureValues cfg obs @ iv"
  | (c) iv where "length (SetObstacleFeatureValues cfg obs) = OBSTACLE_FEATURE_SIZE cfg"
      "SetInteractionFeatureValues cfg obs seq = Inr iv"
      "length (SetLaneFeatureValues cfg obs seq) = SINGLE_LANE_FEATURE_SIZE * LANE_POINTS_SIZE cfg"
      "fv = SetObstacleFeatureValues cfg obs @ iv @ SetLaneFeatureValues cfg obs seq"
    using ExtractFeatureValues_cases [OF ret] by auto
  then show ?thesis
  proof cases
    case a
    then show ?thesis
      by (simp add: INTERACTION_FEATURE_SIZE_def)
  next
    case b
    have len: "length iv = INTERACTION_FEATURE_SIZE"
      using length_SetInteractionFeatureValues [OF b(2)] by (simp add: INTERACTION_FEATURE_SIZE_def)
    have "0 < LANE_POINTS_SIZE cfg"
      using b(3) by (rule length_SetLaneFeatureValues_target)
    then show ?thesis
      using b len by (simp add: SINGLE_LANE_FEATURE_SIZE_def)
  next
    case c
    have len: "length iv = INTERACTION_FEATURE_SIZE"
      using length_SetInteractionFeatureValues [OF c(2)] by (simp add: INTERACTION_FEATURE_SIZE_def)
    then show ?thesis
      using c by simp
  qed
qed
  show ?thesis
    using returns lengths by blast
qed

section \<open>Writes to a lane sequence do not change what the extractors read\<close>

lemma set_lane_sequence_fields:
  "IsInitialized (latest_feature (set_lane_sequence obs i s)) = IsInitialized (latest_feature obs)"
  "has_position (latest_feature (set_lane_sequence obs i s)) = has_position (latest_feature obs)"
  "position (latest_feature (set_lane_sequence obs i s)) = position (latest_feature obs)"
  "velocity_heading (latest_feature (set_lane_sequence obs i s)) = velocity_heading (latest_feature obs)"
  "timestamp (latest_feature (set_lane_sequence obs i s)) = timestamp (latest_feature obs)"
  "has_lane (latest_feature (set_lane_sequence obs i s)) = has_lane (latest_feature obs)"
  "has_lane_graph (lane (latest_feature (set_lane_sequence obs i s)))
     = has_lane_graph (lane (latest_feature obs))"
  "older_features (set_lane_sequence obs i s) = older_features obs"
  "history_size (set_lane_sequence obs i s) = history_size obs"
  "lane_sequences (set_lane_sequence obs i s) = (lane_sequences obs)[i := s]"
  by (simp_all add: set_lane_sequence_def history_size_def feature_history_def lane_sequences_def)

lemma history_state_set_lane_sequence:
  "history_state cfg (set_lane_sequence obs i s) = history_state cfg obs"
proof -
  have c: "collect_lane_feature (latest_feature (set_lane_sequence obs i s)) st
             = collect_lane_feature (latest_feature obs) st" for st
    by (simp add: collect_lane_feature_def set_lane_sequence_def)
  have u: "update_window cfg p h k (latest_feature (set_lane_sequence obs i s)) st
             = update_window cfg p h k (latest_feature obs) st" for p h k st
    by (simp add: update_window_def set_lane_sequence_def split del: if_split cong: if_cong)
  have init: "init_hist_state cfg (set_lane_sequence obs i s) = init_hist_state cfg obs"
    by (simp add: init_hist_state_def set_lane_sequence_fields)
  show ?thesis
    by (simp add: history_state_def Let_def feature_history_def obstacle_timestamp_def
        set_lane_sequence_fields c u init)
qed

lemma legacy_features_set_lane_sequence:
  "legacy_features (set_lane_sequence obs i s) st = legacy_features obs st"
  by (simp only: legacy_features_def angle_diff_of_def lane_l_diff_of_def
      set_lane_sequence_fields)

lemma SetObstacleFeatureValues_set_lane_sequence:
  "SetObstacleFeatureValues cfg (set_lane_sequence obs i s) = SetObstacleFeatureValues cfg obs"
  by (simp add: SetObstacleFeatureValues_def Let_def history_state_set_lane_sequence
      legacy_features_set_lane_sequence)

lemma SetInteractionFeatureValues_set_lane_sequence:
  "SetInteractionFeatureValues cfg (set_lane_sequence obs i s) seq
     = SetInteractionFeatureValues cfg obs seq"
  by (simp add: SetInteractionFeatureValues_def)

lemma SetLaneFeatureValues_set_lane_sequence:
  "SetLaneFeatureValues cfg (set_lane_sequence obs i s) seq = SetLaneFeatureValues cfg obs seq"
proof -
  have "lane_point_values cfg (latest_feature (set_lane_sequence obs i s))
          = lane_point_values cfg (latest_feature obs)"
    by (simp add: lane_point_values_def fun_eq_iff set_lane_sequence_fields)
  then show ?thesis
    by (simp add: SetLaneFeatureValues_def Let_def raw_lane_values set_lane_sequence_fields)
qed

lemma ExtractFeatureValues_set_lane_sequence:
  "ExtractFeatureValues cfg (set_lane_sequence obs i s) seq fv
     = ExtractFeatureValues cfg obs seq fv"
  by (simp add: ExtractFeatureValues_def Let_def SetObstacleFeatureValues_set_lane_sequence
      SetInteractionFeatureValues_set_lane_sequence SetLaneFeatureValues_set_lane_sequence
      cong: sum.case_cong if_cong)

lemma Evaluate_body_set_lane_sequence:
  "Evaluate_body cfg (set_lane_sequence obs i s) seq = Evaluate_body cfg obs seq"
  by (simp add: Evaluate_body_def ExtractFeatureValues_set_lane_sequence)

lemma feature_values_of_set_lane_sequence:
  "feature_values_of cfg (set_lane_sequence obs i s) seq = feature_values_of cfg obs seq"
  by (simp add: feature_values_of_def ExtractFeatureValues_set_lane_sequence)

section \<open>The loop over the lane sequences\<close>

lemma Evaluate_loop_result:
  assumes "Evaluate_loop cfg idx (obs, w) = Inr (obs', w')" "distinct idx"
    "\<forall>i \<in> set idx. i < length (lane_sequences obs)"
  shows "length (lane_sequences obs') = length (lane_sequences obs)
       \<and> (\<forall>i. i \<notin> set idx \<longrightarrow> lane_sequences obs' ! i = lane_sequences obs ! i)
       \<and> (\<forall>i \<in> set idx. \<exists>runs. Evaluate_body cfg obs (lane_sequences obs ! i)
                                   = Inr (lane_sequences obs' ! i, runs))
       \<and> model_runs w' = model_runs w @
           concat (map (\<lambda>i. case Evaluate_body cfg obs (lane_sequences obs ! i) of
                              Inl e \<Rightarrow> [] | Inr r \<Rightarrow> snd r) idx)
       \<and> feature_output w' = feature_output w
       \<and> obs' = with_lane_sequences obs (lane_sequences obs')"
  using assms
proof (induction idx arbitrary: obs w)
  case Nil
  then show ?case by (simp add: with_lane_sequences_def lane_sequences_def)
next
  case (Cons i idx)
  obtain s runs where body: "Evaluate_body cfg obs (lane_sequences obs ! i) = Inr (s, runs)"
    using Cons.prems(1) by (cases "Evaluate_body cfg obs (lane_sequences obs ! i)") auto
  define obs1 where "obs1 = set_lane_sequence obs i s"
  define w1 where "w1 = w\<lparr>model_runs := model_runs w @ runs\<rparr>"
  have rest: "Evaluate_loop cfg idx (obs1, w1) = Inr (obs', w')"
    using Cons.prems(1) body by (simp add: obs1_def w1_def)
  have i: "i < length (lane_sequences obs)" "i \<notin> set idx" "distinct idx"
    using Cons.prems(2,3) by simp_all
  have seqs1: "lane_sequences obs1 = (lane_sequences obs)[i := s]"
    by (simp add: obs1_def set_lane_sequence_fields)
  have bounds: "\<forall>j \<in> set idx. j < length (lane_sequences obs1)"
    using Cons.prems(3) by (simp add: seqs1)
  note IH = Cons.IH [OF rest i(3) bounds]
  have body1: "Evaluate_body cfg obs1 = Evaluate_body cfg obs"
    by (simp add: obs1_def fun_eq_iff Evaluate_body_set_lane_sequence)
  have same: "lane_sequences obs1 ! j = lane_sequences obs ! j" if "j \<noteq> i" for j
    using that by (simp add: seqs1)
  have at_i: "lane_sequences obs' ! i = s"
    using IH i by (simp add: seqs1)
  have "length (lane_sequences obs') = length (lane_sequences obs)"
    using IH by (simp add: seqs1)
  moreover have "\<forall>j. j \<notin> set (i # idx) \<longrightarrow> lane_sequences obs' ! j = lane_sequences obs ! j"
    using IH same by simp
  moreover have "\<forall>j \<in> set (i # idx). \<exists>runs. Evaluate_body cfg obs (lane_sequences obs ! j)
                                   = Inr (lane_sequences obs' ! j, runs)"
  proof
    fix j assume "j \<in> set (i # idx)"
    then consider "j = i" | "j \<in> set idx" "j \<noteq> i" using i(2) by auto
    then show "\<exists>runs. Evaluate_body cfg obs (lane_sequences obs ! j)
                                   = Inr (lane_sequences obs' ! j, runs)"
    proof cases
      case 1
      then show ?thesis using body at_i by simp
    next
      case 2
      from IH 2(1) obtain r where
        "Evaluate_body cfg obs1 (lane_sequences obs1 ! j) = Inr (lane_sequences obs' ! j, r)"
        by blast
      then show ?thesis
        by (simp add: body1 same [OF 2(2)])
    qed
  qed
  moreover have "model_runs w' = model_runs w @
           concat (map (\<lambda>i. case Evaluate_body cfg obs (lane_sequences obs ! i) of
                              Inl e \<Rightarrow> [] | Inr r \<Rightarrow> snd r) (i # idx))"
  proof -
    have "map (\<lambda>j. case Evaluate_body cfg obs1 (lane_sequences obs1 ! j) of
                              Inl e \<Rightarrow> [] | Inr r \<Rightarrow> snd r) idx
        = map (\<lambda>j. case Evaluate_body cfg obs (lane_sequences obs ! j) of
                              Inl e \<Rightarrow> [] | Inr r \<Rightarrow> snd r) idx"
    proof (intro map_cong refl)
      fix j assume "j \<in> set idx"
      then have "j \<noteq> i" using i(2) by auto
      then show "(case Evaluate_body cfg obs1 (lane_sequences obs1 ! j) of
                              Inl e \<Rightarrow> [] | Inr r \<Rightarrow> snd r)
        = (case Evaluate_body cfg obs (lane_sequences obs ! j) of
                              Inl e \<Rightarrow> [] | Inr r \<Rightarrow> snd r)"
        by (simp add: body1 same)
    qed
    moreover have "model_runs w' = model_runs w1 @
           concat (map (\<lambda>j. case Evaluate_body cfg obs1 (lane_sequences obs1 ! j) of
                              Inl e \<Rightarrow> [] | Inr r \<Rightarrow> snd r) idx)"
      using IH by blast
    ultimately have "model_runs w' = model_runs w1 @
           concat (map (\<lambda>j. case Evaluate_body cfg obs (lane_sequences obs ! j) of
                              Inl e \<Rightarrow> [] | Inr r \<Rightarrow> snd r) idx)"
      by (simp only:)
    then show ?thesis
      using body by (simp add: w1_def)
  qed
  moreover have "feature_output w' = feature_output w"
    using IH by (simp add: w1_def)
  moreover have "obs' = with_lane_sequences obs (lane_sequences obs')"
  proof -
    have "with_lane_sequences obs1 xs = with_lane_sequences obs xs" for xs
      by (simp add: obs1_def with_lane_sequences_def set_lane_sequence_def)
    then show ?thesis using IH by simp
  qed
  ultimately show ?case by blast
qed

lemma Evaluate_loop_returns:
  assumes "\<forall>i \<in> set idx. \<exists>r. Evaluate_body cfg obs (lane_sequences obs ! i) = Inr r"
    "distinct idx"
  shows "\<exists>r. Evaluate_loop cfg idx (obs, w) = Inr r"
  using assms
proof (induction idx arbitrary: obs w)
  case Nil
  then show ?case by simp
next
  case (Cons i idx)
  obtain s runs where body: "Evaluate_body cfg obs (lane_sequences obs ! i) = Inr (s, runs)"
    using Cons.prems(1) by fastforce
  define obs1 where "obs1 = set_lane_sequence obs i s"
  have body1: "Evaluate_body cfg obs1 = Evaluate_body cfg obs"
    by (simp add: obs1_def fun_eq_iff Evaluate_body_set_lane_sequence)
  have "\<forall>j \<in> set idx. \<exists>r. Evaluate_body cfg obs1 (lane_sequences obs1 ! j) = Inr r"
  proof
    fix j assume j: "j \<in> set idx"
    then have "j \<noteq> i" using Cons.prems(2) by auto
    then have "lane_sequences obs1 ! j = lane_sequences obs ! j"
      by (simp add: obs1_def set_lane_sequence_fields)
    then show "\<exists>r. Evaluate_body cfg obs1 (lane_sequences obs1 ! j) = Inr r"
      using Cons.prems(1) j by (simp add: body1)
  qed
  then have "\<exists>r. Evaluate_loop cfg idx (obs1, w\<lparr>model_runs := model_runs w @ runs\<rparr>) = Inr r"
    using Cons.IH Cons.prems(2) by simp
  then show ?case
    using body by (simp add: obs1_def)
qed

section \<open>The body of the loop\<close>

lemma map_nth_offset:
  "a + n \<le> length xs \<Longrightarrow> map (\<lambda>j. xs ! (a + j)) [0..<n] = take n (drop a xs)"
  by (rule nth_equalityI) simp_all

lemma VectorToMatrixXf_obstacle:
  assumes "0 < OBSTACLE_FEATURE_SIZE cfg" "OBSTACLE_FEATURE_SIZE cfg \<le> length fv"
  shows "VectorToMatrixXf fv 0 (OBSTACLE_FEATURE_SIZE cfg) = Inr (obstacle_matrix cfg fv)"
  using assms map_nth_offset [of 0 "OBSTACLE_FEATURE_SIZE cfg" fv]
  by (simp add: VectorToMatrixXf_def obstacle_matrix_def)

lemma VectorToMatrixXf_shaped_lane:
  assumes "length fv = feature_vector_size cfg" "0 < LANE_POINTS_SIZE cfg"
  shows "VectorToMatrixXf_shaped fv (OBSTACLE_FEATURE_SIZE cfg + INTERACTION_FEATURE_SIZE)
           (length fv) SINGLE_LANE_FEATURE_SIZE (LANE_POINTS_SIZE cfg)
         = Inr (lane_matrix cfg fv)"
proof -
  let ?start = "OBSTACLE_FEATURE_SIZE cfg + INTERACTION_FEATURE_SIZE"
  let ?L = "LANE_POINTS_SIZE cfg"
  have len: "length fv = ?start + SINGLE_LANE_FEATURE_SIZE * ?L"
    using assms(1) by (simp add: feature_vector_size_def)
  have row: "map (\<lambda>j. fv ! (?start + i * ?L + j)) [0 ..< ?L] = take ?L (drop (?start + i * ?L) fv)"
    if "i < SINGLE_LANE_FEATURE_SIZE" for i
  proof (rule map_nth_offset)
    have "Suc i \<le> SINGLE_LANE_FEATURE_SIZE" using that by simp
    then have "Suc i * ?L \<le> SINGLE_LANE_FEATURE_SIZE * ?L" by (rule mult_le_mono1)
    then show "?start + i * ?L + ?L \<le> length fv" by (simp add: len)
  qed
  have rows: "map (\<lambda>i. map (\<lambda>j. fv ! (?start + i * ?L + j)) [0 ..< ?L]) [0 ..< SINGLE_LANE_FEATURE_SIZE]
              = lane_matrix cfg fv"
    unfolding lane_matrix_def by (rule map_cong) (simp_all add: row)
  have "?start < length fv"
    using assms(2) by (simp add: len SINGLE_LANE_FEATURE_SIZE_def)
  then show ?thesis
    by (simp add: VectorToMatrixXf_shaped_def len rows)
qed

lemma ExtractFeatureValues_sequence:
  assumes "ExtractFeatureValues cfg obs seq [] = Inr (seq1, fv)"
  shows "seq1 = (if length fv = feature_vector_size cfg \<and> prediction_offline_mode cfg
                 then seq\<lparr>mlp_features := mlp_features seq @ fv\<rparr> else seq)"
proof -
  consider
    (a) "length (SetObstacleFeatureValues cfg obs) \<noteq> OBSTACLE_FEATURE_SIZE cfg" "fv = []" "seq1 = seq"
  | (b) iv where "length (SetObstacleFeatureValues cfg obs) = OBSTACLE_FEATURE_SIZE cfg"
      "SetInteractionFeatureValues cfg obs seq = Inr iv"
      "length (SetLaneFeatureValues cfg obs seq) \<noteq> SINGLE_LANE_FEATURE_SIZE * LANE_POINTS_SIZE cfg"
      "fv = SetObstacleFeatureValues cfg obs @ iv" "seq1 = seq"
  | (c) iv where "length (SetObstacleFeatureValues cfg obs) = OBSTACLE_FEATURE_SIZE cfg"
      "SetInteractionFeatureValues cfg obs seq = Inr iv"
      "length (SetLaneFeatureValues cfg obs seq) = SINGLE_LANE_FEATURE_SIZE * LANE_POINTS_SIZE cfg"
      "fv = SetObstacleFeatureValues cfg obs @ iv @ SetLaneFeatureValues cfg obs seq"
      "seq1 = (if prediction_offline_mode cfg
                       then seq\<lparr>mlp_features := mlp_features seq @ fv\<rparr> else seq)"
    using ExtractFeatureValues_cases [OF assms] by auto
  then show ?thesis
  proof cases
    case a
    then show ?thesis
      by (simp add: feature_vector_size_def INTERACTION_FEATURE_SIZE_def)
  next
    case b
    have "length iv = 8"
      using length_SetInteractionFeatureValues [OF b(2)] .
    moreover have "0 < LANE_POINTS_SIZE cfg"
      using b(3) by (rule length_SetLaneFeatureValues_target)
    ultimately show ?thesis
      using b by (simp add: feature_vector_size_def INTERACTION_FEATURE_SIZE_def
          SINGLE_LANE_FEATURE_SIZE_def)
  next
    case c
    have "length iv = 8"
      using length_SetInteractionFeatureValues [OF c(2)] .
    then show ?thesis
      using c by (simp add: feature_vector_size_def INTERACTION_FEATURE_SIZE_def)
  qed
qed

lemma Evaluate_body_eq:
  assumes "ExtractFeatureValues cfg obs seq [] = Inr (seq1, fv)"
  shows "Evaluate_body cfg obs seq =
     (if length fv \<noteq> feature_vector_size cfg then Inr (seq\<lparr>probability := Some 0\<rparr>, [])
      else if prediction_offline_mode cfg
      then Inr (seq\<lparr>mlp_features := mlp_features seq @ fv\<rparr>, [])
      else if OBSTACLE_FEATURE_SIZE cfg = 0 \<or> LANE_POINTS_SIZE cfg = 0 then Inl CheckFailed
      else Inr (seq\<lparr>probability :=
                      Some (fst (model_of cfg (model_kind_of seq) (lane_matrix cfg fv)
                                   (obstacle_matrix cfg fv))),
                    time_to_lane_center :=
                      Some (snd (model_of cfg (model_kind_of seq) (lane_matrix cfg fv)
                                   (obstacle_matrix cfg fv)))\<rparr>,
                [(model_kind_of seq, lane_matrix cfg fv, obstacle_matrix cfg fv)]))"
proof -
  note seq1 = ExtractFeatureValues_sequence [OF assms]
  show ?thesis
  proof (cases "length fv = feature_vector_size cfg")
    case False
    then show ?thesis
      using seq1 by (simp add: Evaluate_body_def assms)
  next
    case full: True
    show ?thesis
    proof (cases "prediction_offline_mode cfg")
      case True
      then show ?thesis
        using seq1 full by (simp add: Evaluate_body_def assms)
    next
      case online: False
      then have s: "seq1 = seq" using seq1 by simp
      show ?thesis
      proof (cases "OBSTACLE_FEATURE_SIZE cfg = 0")
        case True
        then show ?thesis
          using online full by (simp add: Evaluate_body_def assms VectorToMatrixXf_def)
      next
        case O: False
        have le: "OBSTACLE_FEATURE_SIZE cfg \<le> length fv"
          using full by (simp add: feature_vector_size_def)
        have om: "VectorToMatrixXf fv 0 (OBSTACLE_FEATURE_SIZE cfg) = Inr (obstacle_matrix cfg fv)"
          using O le by (simp add: VectorToMatrixXf_obstacle)
        show ?thesis
        proof (cases "LANE_POINTS_SIZE cfg = 0")
          case True
          then have "length fv = OBSTACLE_FEATURE_SIZE cfg + INTERACTION_FEATURE_SIZE"
            using full by (simp add: feature_vector_size_def)
          then show ?thesis
            using online full O True
            by (simp add: Evaluate_body_def assms om VectorToMatrixXf_shaped_def)
        next
          case L: False
          have lm: "VectorToMatrixXf_shaped fv (OBSTACLE_FEATURE_SIZE cfg + INTERACTION_FEATURE_SIZE)
                      (feature_vector_size cfg) SINGLE_LANE_FEATURE_SIZE (LANE_POINTS_SIZE cfg)
                    = Inr (lane_matrix cfg fv)"
            using VectorToMatrixXf_shaped_lane [OF full] L by (simp add: full)
          show ?thesis
            using online full O L
            by (simp add: Evaluate_body_def assms om lm s model_kind_of_def model_of_def Let_def)
        qed
      qed
    qed
  qed
qed

lemma Evaluate_body_Inr:
  assumes "Evaluate_body cfg obs seq = Inr r"
  shows "\<exists>seq1. ExtractFeatureValues cfg obs seq [] = Inr (seq1, feature_values_of cfg obs seq)"
  using assms
  by (cases "ExtractFeatureValues cfg obs seq []")
     (auto simp: Evaluate_body_def feature_values_of_def)

section \<open>Properties of \<^verbatim>\<open>Evaluate\<close>\<close>

lemma Evaluate_body_result:
  assumes "Evaluate_body cfg obs seq = Inr (seq', runs)"
  shows "(length (feature_values_of cfg obs seq) \<noteq> feature_vector_size cfg \<longrightarrow>
            seq' = seq\<lparr>probability := Some 0\<rparr> \<and> runs = [])
       \<and> (length (feature_values_of cfg obs seq) = feature_vector_size cfg
            \<and> prediction_offline_mode cfg \<longrightarrow>
            seq' = seq\<lparr>mlp_features := mlp_features seq @ feature_values_of cfg obs seq\<rparr>
            \<and> runs = [])
       \<and> (length (feature_values_of cfg obs seq) = feature_vector_size cfg
            \<and> \<not> prediction_offline_mode cfg \<longrightarrow>
            seq' = seq\<lparr>probability :=
                      Some (fst (model_of cfg (model_kind_of seq)
                                   (lane_matrix cfg (feature_values_of cfg obs seq))
                                   (obstacle_matrix cfg (feature_values_of cfg obs seq)))),
                    time_to_lane_center :=
                      Some (snd (model_of cfg (model_kind_of seq)
                                   (lane_matrix cfg (feature_values_of cfg obs seq))
                                   (obstacle_matrix cfg (feature_values_of cfg obs seq))))\<rparr>
            \<and> runs = [(model_kind_of seq, lane_matrix cfg (feature_values_of cfg obs seq),
                        obstacle_matrix cfg (feature_values_of cfg obs seq))])"
proof -
  obtain seq1 where ex: "ExtractFeatureValues cfg obs seq [] = Inr (seq1, feature_values_of cfg obs seq)"
    using Evaluate_body_Inr [OF assms] by blast
  show ?thesis
    using assms unfolding Evaluate_body_eq [OF ex]
    by (auto split: if_splits)
qed

lemma map_nth_fun: "map (\<lambda>i. f (xs ! i)) [0..<length xs] = map f xs"
  by (rule nth_equalityI) simp_all

lemma Evaluate_sequences:
  assumes "IsInitialized (latest_feature obs)" "has_lane (latest_feature obs)"
    "has_lane_graph (lane (latest_feature obs))"
    "Evaluate cfg w obs = Inr (obs', w')"
  shows "length (lane_sequences obs') = length (lane_sequences obs)
       \<and> (\<forall>i < length (lane_sequences obs).
             \<exists>runs. Evaluate_body cfg obs (lane_sequences obs ! i)
                       = Inr (lane_sequences obs' ! i, runs))
       \<and> model_runs w' = model_runs w @
           concat (map (\<lambda>seq. case Evaluate_body cfg obs seq of Inl e \<Rightarrow> [] | Inr r \<Rightarrow> snd r)
                     (lane_sequences obs))
       \<and> feature_output w' = feature_output w @
           (if prediction_offline_mode cfg \<and> lane_sequences obs \<noteq> []
            then [latest_feature obs'] else [])
       \<and> obs' = with_lane_sequences obs (lane_sequences obs')"
proof (cases "lane_sequences obs = []")
  case True
  then have "obs' = obs" "w' = w"
    using assms by (simp_all add: Evaluate_def)
  then show ?thesis
    using True by (simp add: with_lane_sequences_def lane_sequences_def)
next
  case False
  obtain w1 where loop: "Evaluate_loop cfg [0 ..< length (lane_sequences obs)] (obs, w) = Inr (obs', w1)"
    and w': "w' = (if prediction_offline_mode cfg
                   then w1\<lparr>feature_output := feature_output w1 @ [latest_feature obs']\<rparr> else w1)"
    using assms False
    by (cases "Evaluate_loop cfg [0 ..< length (lane_sequences obs)] (obs, w)")
       (auto simp: Evaluate_def split: if_splits)
  have res: "length (lane_sequences obs') = length (lane_sequences obs)
       \<and> (\<forall>i. i \<notin> set [0 ..< length (lane_sequences obs)] \<longrightarrow>
              lane_sequences obs' ! i = lane_sequences obs ! i)
       \<and> (\<forall>i \<in> set [0 ..< length (lane_sequences obs)].
             \<exists>runs. Evaluate_body cfg obs (lane_sequences obs ! i)
                                   = Inr (lane_sequences obs' ! i, runs))
       \<and> model_runs w1 = model_runs w @
           concat (map (\<lambda>i. case Evaluate_body cfg obs (lane_sequences obs ! i) of
                              Inl e \<Rightarrow> [] | Inr r \<Rightarrow> snd r) [0 ..< length (lane_sequences obs)])
       \<and> feature_output w1 = feature_output w
       \<and> obs' = with_lane_sequences obs (lane_sequences obs')"
    by (rule Evaluate_loop_result [OF loop]) simp_all
  have runs: "model_runs w1 = model_runs w @
           concat (map (\<lambda>seq. case Evaluate_body cfg obs seq of Inl e \<Rightarrow> [] | Inr r \<Rightarrow> snd r)
                     (lane_sequences obs))"
    using res
      map_nth_fun [of "\<lambda>seq. case Evaluate_body cfg obs seq of Inl e \<Rightarrow> [] | Inr r \<Rightarrow> snd r"
        "lane_sequences obs"]
    by (simp only:)
  have "model_runs w' = model_runs w1" "feature_output w' = feature_output w1 @
           (if prediction_offline_mode cfg then [latest_feature obs'] else [])"
    by (simp_all add: w')
  then show ?thesis
    using res runs False by simp
qed

lemma Evaluate_returns:
  assumes "\<forall>seq \<in> set (lane_sequences obs). \<exists>r. Evaluate_body cfg obs seq = Inr r"
  shows "\<exists>obs' w'. Evaluate cfg w obs = Inr (obs', w')"
proof -
  have "\<forall>i \<in> set [0 ..< length (lane_sequences obs)].
          \<exists>r. Evaluate_body cfg obs (lane_sequences obs ! i) = Inr r"
    using assms by simp
  then obtain r where "Evaluate_loop cfg [0 ..< length (lane_sequences obs)] (obs, w) = Inr r"
    using Evaluate_loop_returns [of "[0 ..< length (lane_sequences obs)]" cfg obs w] by auto
  then show ?thesis
    by (cases r) (simp add: Evaluate_def)
qed

lemma Evaluate_body_returns:
  assumes "ExtractFeatureValues cfg obs seq [] = Inr x"
    and "prediction_offline_mode cfg \<or> (0 < OBSTACLE_FEATURE_SIZE cfg \<and> 0 < LANE_POINTS_SIZE cfg)"
  shows "\<exists>r. Evaluate_body cfg obs seq = Inr r"
proof -
  obtain seq1 fv where "ExtractFeatureValues cfg obs seq [] = Inr (seq1, fv)"
    using assms(1) by (cases x) simp
  from Evaluate_body_eq [OF this] show ?thesis
    using assms(2) by auto
qed

text \<open>
  \<^verbatim>\<open>Evaluate\<close> returns when the container holds every obstacle that a candidate names as
  nearby and, outside the offline mode, the two matrices are not empty.
\<close>

lemma Evaluate_total:
  assumes "\<forall>seq \<in> set (lane_sequences obs). \<forall>n \<in> set (nearby_obstacle seq).
             GetObstacle cfg (nearby_id n) \<noteq> None"
    and "prediction_offline_mode cfg \<or> (0 < OBSTACLE_FEATURE_SIZE cfg \<and> 0 < LANE_POINTS_SIZE cfg)"
  shows "\<exists>obs' w'. Evaluate cfg w obs = Inr (obs', w')"
proof (rule Evaluate_returns, rule ballI)
  fix seq assume "seq \<in> set (lane_sequences obs)"
  then have "\<forall>n \<in> set (nearby_obstacle seq). GetObstacle cfg (nearby_id n) \<noteq> None"
    using assms(1) by blast
  then have "\<exists>iv. SetInteractionFeatureValues cfg obs seq = Inr iv"
    by (rule SetInteractionFeatureValues_returns)
  then obtain x where "ExtractFeatureValues cfg obs seq [] = Inr x"
    using ExtractFeatureValues_returns [of cfg obs seq "[]"] by blast
  then show "\<exists>r. Evaluate_body cfg obs seq = Inr r"
    using assms(2) by (rule Evaluate_body_returns)
qed

lemma positive_feature_vector_size: "0 < feature_vector_size cfg"
  by (simp add: feature_vector_size_def INTERACTION_FEATURE_SIZE_def)

lemma Evaluate_body_empty_block:
  assumes "SetObstacleFeatureValues cfg obs = []" "0 < OBSTACLE_FEATURE_SIZE cfg"
  shows "Evaluate_body cfg obs seq = Inr (seq\<lparr>probability := Some 0\<rparr>, [])"
proof -
  have "ExtractFeatureValues cfg obs seq [] = Inr (seq, [])"
    using assms by (simp add: ExtractFeatureValues_def)
  then show ?thesis
    using positive_feature_vector_size [of cfg] by (simp add: Evaluate_body_eq)
qed

text \<open>
  C1, in the form that holds of the code. For every obstacle whose visited history has no
  observation carrying lane attributes, \<^verbatim>\<open>SetObstacleFeatureValues\<close> returns the empty block;
  and, \<^verbatim>\<open>OBSTACLE_FEATURE_SIZE\<close> being positive, \<^verbatim>\<open>Evaluate\<close> returns and runs no model. When the
  latest observation is initialised and has a lane graph, it sets the probability of every
  candidate lane sequence to 0 and changes nothing else of the obstacle, and it leaves the
  sink as it was, except that in the offline mode, when there is at least one candidate,
  it adds the latest observation, as the evaluation leaves it, once at the end of the sink.
  When the latest observation is not initialised or has no lane graph, it changes neither
  the obstacle nor the sink.
\<close>

theorem Evaluate_without_lane_attributes:
  assumes "\<forall>f \<in> set (visited_history cfg obs). \<not> carries_lane_attributes f"
    and "0 < OBSTACLE_FEATURE_SIZE cfg"
  shows "SetObstacleFeatureValues cfg obs = []
       \<and> (\<exists>obs' w'. Evaluate cfg w obs = Inr (obs', w')
             \<and> model_runs w' = model_runs w
             \<and> (if IsInitialized (latest_feature obs) \<and> has_lane (latest_feature obs)
                    \<and> has_lane_graph (lane (latest_feature obs))
                 then obs' = with_lane_sequences obs
                               (map (\<lambda>seq. seq\<lparr>probability := Some 0\<rparr>) (lane_sequences obs))
                      \<and> feature_output w' = feature_output w @
                            (if prediction_offline_mode cfg \<and> lane_sequences obs \<noteq> []
                             then [latest_feature obs'] else [])
                 else obs' = obs \<and> feature_output w' = feature_output w))"
proof -
  have empty: "SetObstacleFeatureValues cfg obs = []"
    using assms(1) by (rule SetObstacleFeatureValues_empty)
  have body: "Evaluate_body cfg obs seq = Inr (seq\<lparr>probability := Some 0\<rparr>, [])" for seq
    using empty assms(2) by (rule Evaluate_body_empty_block)
  obtain obs' w' where ret: "Evaluate cfg w obs = Inr (obs', w')"
    using Evaluate_returns [of obs cfg w] body by blast
  show ?thesis
  proof (cases "IsInitialized (latest_feature obs) \<and> has_lane (latest_feature obs)
                    \<and> has_lane_graph (lane (latest_feature obs))")
    case True
    then have reach: "IsInitialized (latest_feature obs)" "has_lane (latest_feature obs)"
      "has_lane_graph (lane (latest_feature obs))"
      by simp_all
    note seqs = Evaluate_sequences [OF reach ret]
    have len: "length (lane_sequences obs') = length (lane_sequences obs)"
      using seqs by blast
    have each: "lane_sequences obs' ! i = (lane_sequences obs ! i)\<lparr>probability := Some 0\<rparr>"
      if i: "i < length (lane_sequences obs)" for i
    proof -
      obtain runs where "Evaluate_body cfg obs (lane_sequences obs ! i)
                       = Inr (lane_sequences obs' ! i, runs)"
        using seqs i by blast
      then show ?thesis by (simp add: body)
    qed
    have list: "lane_sequences obs' = map (\<lambda>seq. seq\<lparr>probability := Some 0\<rparr>) (lane_sequences obs)"
      by (rule nth_equalityI) (simp_all add: len each)
    have "model_runs w' = model_runs w @
           concat (map (\<lambda>seq. case Evaluate_body cfg obs seq of Inl e \<Rightarrow> [] | Inr r \<Rightarrow> snd r)
                     (lane_sequences obs))"
      using seqs by blast
    then have runs: "model_runs w' = model_runs w"
      by (simp add: body)
    have out: "feature_output w' = feature_output w @
                 (if prediction_offline_mode cfg \<and> lane_sequences obs \<noteq> []
                  then [latest_feature obs'] else [])"
      using seqs by blast
    have "obs' = with_lane_sequences obs (lane_sequences obs')"
      using seqs by blast
    then have frame: "obs' = with_lane_sequences obs
                        (map (\<lambda>seq. seq\<lparr>probability := Some 0\<rparr>) (lane_sequences obs))"
      by (simp add: list)
    show ?thesis
      using empty ret runs True frame out by auto
  next
    case False
    then have "Evaluate cfg w obs = Inr (obs, w)"
      by (auto simp: Evaluate_def)
    then show ?thesis
      using empty False by auto
  qed
qed

lemma lane_sequences_with: "lane_sequences (with_lane_sequences obs xs) = xs"
  by (simp add: with_lane_sequences_def lane_sequences_def)

lemma example_env_fields:
  "OBSTACLE_FEATURE_SIZE example_env = 41"
  "LANE_POINTS_SIZE example_env = 3"
  "cruise_historical_frame_length example_env = 2"
  "prediction_offline_mode example_env = False"
  "feature_vector_size example_env = 61"
  by (simp_all add: example_env_def feature_vector_size_def INTERACTION_FEATURE_SIZE_def
      SINGLE_LANE_FEATURE_SIZE_def)

lemma laneless_visited:
  "visited_history example_env laneless_obstacle = [latest_feature laneless_obstacle]"
  "carries_lane_attributes (latest_feature laneless_obstacle) = False"
  "lane_sequences laneless_obstacle = [example_sequence]"
  "IsInitialized (latest_feature laneless_obstacle)"
  "has_lane (latest_feature laneless_obstacle)"
  "has_lane_graph (lane (latest_feature laneless_obstacle))"
  by (simp_all add: visited_history_def visited_frames_def feature_history_def
      laneless_obstacle_def example_feature_def example_lane_def example_env_def
      obstacle_timestamp_def carries_lane_attributes_def lane_sequences_def)

text \<open>
  An obstacle whose only observation has a lane graph with one candidate of probability
  1/2 and no lane attributes: \<^verbatim>\<open>Evaluate\<close> sets the probability of the candidate to 0.
\<close>

theorem probability_overwritten_counterexample:
  "visited_history example_env laneless_obstacle = [latest_feature laneless_obstacle]
   \<and> \<not> carries_lane_attributes (latest_feature laneless_obstacle)
   \<and> lane_sequences laneless_obstacle = [example_sequence]
   \<and> probability example_sequence = Some (1 / 2)
   \<and> Evaluate example_env empty_world laneless_obstacle
       = Inr (with_lane_sequences laneless_obstacle [example_sequence\<lparr>probability := Some 0\<rparr>],
              empty_world)"
proof -
  have "SetObstacleFeatureValues example_env laneless_obstacle = []"
    by (rule SetObstacleFeatureValues_empty) (simp add: laneless_visited)
  moreover have "0 < OBSTACLE_FEATURE_SIZE example_env"
    by (simp add: example_env_fields)
  ultimately have body: "Evaluate_body example_env laneless_obstacle example_sequence
                  = Inr (example_sequence\<lparr>probability := Some 0\<rparr>, [])"
    by (rule Evaluate_body_empty_block)
  have upd: "set_lane_sequence laneless_obstacle 0 (example_sequence\<lparr>probability := Some 0\<rparr>)
           = with_lane_sequences laneless_obstacle [example_sequence\<lparr>probability := Some 0\<rparr>]"
    using laneless_visited(3)
    by (simp add: set_lane_sequence_def with_lane_sequences_def lane_sequences_def)
  have "Evaluate example_env empty_world laneless_obstacle
       = Inr (with_lane_sequences laneless_obstacle [example_sequence\<lparr>probability := Some 0\<rparr>],
              empty_world)"
    by (simp add: Evaluate_def laneless_visited body upd empty_world_def example_env_fields)
  then show ?thesis
    by (simp add: laneless_visited example_sequence_def)
qed

lemma laneless_visited_offline:
  "visited_history offline_env laneless_obstacle = [latest_feature laneless_obstacle]"
  "OBSTACLE_FEATURE_SIZE offline_env = 41"
  "prediction_offline_mode offline_env"
  by (simp_all add: visited_history_def visited_frames_def feature_history_def
      laneless_obstacle_def example_feature_def example_lane_def example_env_def offline_env_def
      obstacle_timestamp_def)

theorem Evaluate_without_lane_attributes_witness:
  "visited_history example_env laneless_obstacle = [latest_feature laneless_obstacle]
   \<and> visited_history offline_env laneless_obstacle = [latest_feature laneless_obstacle]
   \<and> \<not> carries_lane_attributes (latest_feature laneless_obstacle)
   \<and> OBSTACLE_FEATURE_SIZE example_env = 41
   \<and> OBSTACLE_FEATURE_SIZE offline_env = 41
   \<and> SetObstacleFeatureValues example_env laneless_obstacle = []
   \<and> (\<exists>obs' w'. Evaluate example_env empty_world laneless_obstacle = Inr (obs', w')
         \<and> model_runs w' = []
         \<and> feature_output w' = []
         \<and> map probability (lane_sequences obs') = [Some 0])
   \<and> (\<exists>obs' w'. Evaluate offline_env empty_world laneless_obstacle = Inr (obs', w')
         \<and> model_runs w' = []
         \<and> feature_output w' = [latest_feature obs']
         \<and> map probability (lane_sequences obs') = [Some 0])"
proof -
  have h1: "\<forall>f \<in> set (visited_history example_env laneless_obstacle). \<not> carries_lane_attributes f"
    by (simp add: laneless_visited)
  have h2: "0 < OBSTACLE_FEATURE_SIZE example_env"
    by (simp add: example_env_fields)
  note main = Evaluate_without_lane_attributes [OF h1 h2, of empty_world]
  then obtain obs' w' where
    ret: "Evaluate example_env empty_world laneless_obstacle = Inr (obs', w')"
    and runs: "model_runs w' = model_runs empty_world"
    and obs': "obs' = with_lane_sequences laneless_obstacle
                 (map (\<lambda>seq. seq\<lparr>probability := Some 0\<rparr>) (lane_sequences laneless_obstacle))"
    and out: "feature_output w' = feature_output empty_world @
                (if prediction_offline_mode example_env \<and> lane_sequences laneless_obstacle \<noteq> []
                 then [latest_feature obs'] else [])"
    using laneless_visited(4-6) by auto
  have p: "map probability (lane_sequences obs') = [Some 0]"
    by (simp add: obs' laneless_visited lane_sequences_with)
  have online: "\<exists>obs' w'. Evaluate example_env empty_world laneless_obstacle = Inr (obs', w')
         \<and> model_runs w' = []
         \<and> feature_output w' = []
         \<and> map probability (lane_sequences obs') = [Some 0]"
    using ret runs out p by (auto simp: empty_world_def example_env_fields)
  have g1: "\<forall>f \<in> set (visited_history offline_env laneless_obstacle). \<not> carries_lane_attributes f"
    by (simp add: laneless_visited_offline laneless_visited)
  have g2: "0 < OBSTACLE_FEATURE_SIZE offline_env"
    by (simp add: laneless_visited_offline)
  note off = Evaluate_without_lane_attributes [OF g1 g2, of empty_world]
  then obtain obs2 w2 where
    ret2: "Evaluate offline_env empty_world laneless_obstacle = Inr (obs2, w2)"
    and runs2: "model_runs w2 = model_runs empty_world"
    and obs2: "obs2 = with_lane_sequences laneless_obstacle
                 (map (\<lambda>seq. seq\<lparr>probability := Some 0\<rparr>) (lane_sequences laneless_obstacle))"
    and out2: "feature_output w2 = feature_output empty_world @
                (if prediction_offline_mode offline_env \<and> lane_sequences laneless_obstacle \<noteq> []
                 then [latest_feature obs2] else [])"
    using laneless_visited(4-6) by auto
  have p2: "map probability (lane_sequences obs2) = [Some 0]"
    by (simp add: obs2 laneless_visited lane_sequences_with)
  have out2': "feature_output w2 = [latest_feature obs2]"
    using out2 by (simp add: laneless_visited laneless_visited_offline empty_world_def)
  have offline: "\<exists>obs' w'. Evaluate offline_env empty_world laneless_obstacle = Inr (obs', w')
         \<and> model_runs w' = []
         \<and> feature_output w' = [latest_feature obs']
         \<and> map probability (lane_sequences obs') = [Some 0]"
    using ret2 runs2 out2' p2 by (auto simp: empty_world_def)
  show ?thesis
    using main online offline
    by (simp add: laneless_visited laneless_visited_offline example_env_fields)
qed

text \<open>
  C6, in the form that holds of the code. Outside the offline mode, with a latest
  observation that is initialised and has a lane graph: \<^verbatim>\<open>Evaluate\<close> returns when the container
  holds every nearby obstacle of the candidates and the two matrices are not empty; and
  whenever it returns, every candidate whose feature vector has not the declared length
  gets the probability 0 and no model run, its other fields unchanged; every other
  candidate gets the two outputs of one run of the go model (vehicle on lane) or of the
  cut-in model on the lane matrix and the obstacle matrix of its feature vector; the model
  runs are those, in the order of the candidates; the sink and the rest of the obstacle are
  unchanged.
\<close>

theorem Evaluate_online_dispatch:
  assumes "\<not> prediction_offline_mode cfg"
    and "IsInitialized (latest_feature obs)" "has_lane (latest_feature obs)"
    and "has_lane_graph (lane (latest_feature obs))"
  shows "((\<forall>seq \<in> set (lane_sequences obs). \<forall>n \<in> set (nearby_obstacle seq).
              GetObstacle cfg (nearby_id n) \<noteq> None)
           \<and> 0 < OBSTACLE_FEATURE_SIZE cfg \<and> 0 < LANE_POINTS_SIZE cfg \<longrightarrow>
           (\<exists>obs' w'. Evaluate cfg w obs = Inr (obs', w')))
       \<and> (\<forall>obs' w'. Evaluate cfg w obs = Inr (obs', w') \<longrightarrow>
           length (lane_sequences obs') = length (lane_sequences obs)
              \<and> (\<forall>i < length (lane_sequences obs).
                    lane_sequences obs' ! i =
                      (if length (feature_values_of cfg obs (lane_sequences obs ! i))
                            \<noteq> feature_vector_size cfg
                       then (lane_sequences obs ! i)\<lparr>probability := Some 0\<rparr>
                       else (lane_sequences obs ! i)
                         \<lparr>probability :=
                            Some (fst (model_of cfg (model_kind_of (lane_sequences obs ! i))
                              (lane_matrix cfg (feature_values_of cfg obs (lane_sequences obs ! i)))
                              (obstacle_matrix cfg (feature_values_of cfg obs (lane_sequences obs ! i))))),
                          time_to_lane_center :=
                            Some (snd (model_of cfg (model_kind_of (lane_sequences obs ! i))
                              (lane_matrix cfg (feature_values_of cfg obs (lane_sequences obs ! i)))
                              (obstacle_matrix cfg (feature_values_of cfg obs (lane_sequences obs ! i)))))\<rparr>))
              \<and> model_runs w' = model_runs w @
                  concat (map (\<lambda>seq. if length (feature_values_of cfg obs seq) \<noteq> feature_vector_size cfg
                                     then []
                                     else [(model_kind_of seq,
                                            lane_matrix cfg (feature_values_of cfg obs seq),
                                            obstacle_matrix cfg (feature_values_of cfg obs seq))])
                            (lane_sequences obs))
              \<and> feature_output w' = feature_output w
              \<and> obs' = with_lane_sequences obs (lane_sequences obs'))"
proof -
  have returns: "\<exists>obs' w'. Evaluate cfg w obs = Inr (obs', w')"
    if "(\<forall>seq \<in> set (lane_sequences obs). \<forall>n \<in> set (nearby_obstacle seq).
              GetObstacle cfg (nearby_id n) \<noteq> None)
           \<and> 0 < OBSTACLE_FEATURE_SIZE cfg \<and> 0 < LANE_POINTS_SIZE cfg"
    using that assms(1) by (intro Evaluate_total) auto
  have result: "length (lane_sequences obs') = length (lane_sequences obs)
           \<and> (\<forall>i < length (lane_sequences obs).
                 lane_sequences obs' ! i =
                   (if length (feature_values_of cfg obs (lane_sequences obs ! i))
                         \<noteq> feature_vector_size cfg
                    then (lane_sequences obs ! i)\<lparr>probability := Some 0\<rparr>
                    else (lane_sequences obs ! i)
                      \<lparr>probability :=
                         Some (fst (model_of cfg (model_kind_of (lane_sequences obs ! i))
                           (lane_matrix cfg (feature_values_of cfg obs (lane_sequences obs ! i)))
                           (obstacle_matrix cfg (feature_values_of cfg obs (lane_sequences obs ! i))))),
                       time_to_lane_center :=
                         Some (snd (model_of cfg (model_kind_of (lane_sequences obs ! i))
                           (lane_matrix cfg (feature_values_of cfg obs (lane_sequences obs ! i)))
                           (obstacle_matrix cfg (feature_values_of cfg obs (lane_sequences obs ! i)))))\<rparr>))
           \<and> model_runs w' = model_runs w @
               concat (map (\<lambda>seq. if length (feature_values_of cfg obs seq) \<noteq> feature_vector_size cfg
                                  then []
                                  else [(model_kind_of seq,
                                         lane_matrix cfg (feature_values_of cfg obs seq),
                                         obstacle_matrix cfg (feature_values_of cfg obs seq))])
                         (lane_sequences obs))
           \<and> feature_output w' = feature_output w
           \<and> obs' = with_lane_sequences obs (lane_sequences obs')"
    if ret: "Evaluate cfg w obs = Inr (obs', w')" for obs' w'
  proof -
    note seqs = Evaluate_sequences [OF assms(2-4) ret]
    have len: "length (lane_sequences obs') = length (lane_sequences obs)"
      using seqs by blast
    have body: "\<exists>runs. Evaluate_body cfg obs (lane_sequences obs ! i)
                         = Inr (lane_sequences obs' ! i, runs)"
      if "i < length (lane_sequences obs)" for i
      using seqs that by blast
    have each: "lane_sequences obs' ! i =
                 (if length (feature_values_of cfg obs (lane_sequences obs ! i))
                       \<noteq> feature_vector_size cfg
                  then (lane_sequences obs ! i)\<lparr>probability := Some 0\<rparr>
                  else (lane_sequences obs ! i)
                    \<lparr>probability :=
                       Some (fst (model_of cfg (model_kind_of (lane_sequences obs ! i))
                         (lane_matrix cfg (feature_values_of cfg obs (lane_sequences obs ! i)))
                         (obstacle_matrix cfg (feature_values_of cfg obs (lane_sequences obs ! i))))),
                     time_to_lane_center :=
                       Some (snd (model_of cfg (model_kind_of (lane_sequences obs ! i))
                         (lane_matrix cfg (feature_values_of cfg obs (lane_sequences obs ! i)))
                         (obstacle_matrix cfg (feature_values_of cfg obs (lane_sequences obs ! i)))))\<rparr>)"
      if i: "i < length (lane_sequences obs)" for i
    proof -
      obtain runs where "Evaluate_body cfg obs (lane_sequences obs ! i)
                         = Inr (lane_sequences obs' ! i, runs)"
        using body [OF i] by blast
      from Evaluate_body_result [OF this] show ?thesis
        using assms(1) by auto
    qed
    have run: "(case Evaluate_body cfg obs seq of Inl e \<Rightarrow> [] | Inr r \<Rightarrow> snd r) =
                 (if length (feature_values_of cfg obs seq) \<noteq> feature_vector_size cfg
                  then []
                  else [(model_kind_of seq,
                         lane_matrix cfg (feature_values_of cfg obs seq),
                         obstacle_matrix cfg (feature_values_of cfg obs seq))])"
      if mem: "seq \<in> set (lane_sequences obs)" for seq
    proof -
      obtain i where i: "i < length (lane_sequences obs)" "seq = lane_sequences obs ! i"
        using mem by (auto simp: in_set_conv_nth)
      obtain runs where b: "Evaluate_body cfg obs seq = Inr (lane_sequences obs' ! i, runs)"
        using body [OF i(1)] i(2) by blast
      from Evaluate_body_result [OF this] show ?thesis
        using assms(1) by (auto simp: b)
    qed
    have "model_runs w' = model_runs w @
             concat (map (\<lambda>seq. case Evaluate_body cfg obs seq of Inl e \<Rightarrow> [] | Inr r \<Rightarrow> snd r)
                       (lane_sequences obs))"
      using seqs by blast
    also have "map (\<lambda>seq. case Evaluate_body cfg obs seq of Inl e \<Rightarrow> [] | Inr r \<Rightarrow> snd r)
                       (lane_sequences obs)
        = map (\<lambda>seq. if length (feature_values_of cfg obs seq) \<noteq> feature_vector_size cfg
                                then []
                                else [(model_kind_of seq,
                                       lane_matrix cfg (feature_values_of cfg obs seq),
                                       obstacle_matrix cfg (feature_values_of cfg obs seq))])
                       (lane_sequences obs)"
      by (rule map_cong) (simp_all add: run)
    finally have runs: "model_runs w' = model_runs w @
             concat (map (\<lambda>seq. if length (feature_values_of cfg obs seq) \<noteq> feature_vector_size cfg
                                then []
                                else [(model_kind_of seq,
                                       lane_matrix cfg (feature_values_of cfg obs seq),
                                       obstacle_matrix cfg (feature_values_of cfg obs seq))])
                       (lane_sequences obs))" .
    have out: "feature_output w' = feature_output w"
      using seqs assms(1) by simp
    have frame: "obs' = with_lane_sequences obs (lane_sequences obs')"
      using seqs by blast
    show ?thesis
      using len each runs out frame by blast
  qed
  show ?thesis
    using returns result by blast
qed

text \<open>
  C8. In the offline mode, with a latest observation that is initialised and has a lane
  graph with at least one candidate: \<^verbatim>\<open>Evaluate\<close> returns when the container holds every nearby
  obstacle of the candidates; and whenever it returns, no model is run; every candidate
  whose feature vector has the declared length has that vector appended to its saved
  features and nothing else changed (so its probability and time are as before); and the
  latest observation, as the evaluation leaves it, is added once at the end of the sink.
\<close>

theorem Evaluate_offline_capture:
  assumes "prediction_offline_mode cfg"
    and "IsInitialized (latest_feature obs)" "has_lane (latest_feature obs)"
    and "has_lane_graph (lane (latest_feature obs))"
    and "lane_sequences obs \<noteq> []"
  shows "((\<forall>seq \<in> set (lane_sequences obs). \<forall>n \<in> set (nearby_obstacle seq).
              GetObstacle cfg (nearby_id n) \<noteq> None) \<longrightarrow>
           (\<exists>obs' w'. Evaluate cfg w obs = Inr (obs', w')))
       \<and> (\<forall>obs' w'. Evaluate cfg w obs = Inr (obs', w') \<longrightarrow>
           model_runs w' = model_runs w
              \<and> length (lane_sequences obs') = length (lane_sequences obs)
              \<and> (\<forall>i < length (lane_sequences obs).
                    length (feature_values_of cfg obs (lane_sequences obs ! i)) = feature_vector_size cfg
                    \<longrightarrow> lane_sequences obs' ! i =
                          (lane_sequences obs ! i)
                            \<lparr>mlp_features := mlp_features (lane_sequences obs ! i)
                               @ feature_values_of cfg obs (lane_sequences obs ! i)\<rparr>)
              \<and> feature_output w' = feature_output w @ [latest_feature obs']
              \<and> obs' = with_lane_sequences obs (lane_sequences obs'))"
proof -
  have returns: "\<exists>obs' w'. Evaluate cfg w obs = Inr (obs', w')"
    if "(\<forall>seq \<in> set (lane_sequences obs). \<forall>n \<in> set (nearby_obstacle seq).
              GetObstacle cfg (nearby_id n) \<noteq> None)"
    using that assms(1) by (intro Evaluate_total) auto
  have result: "model_runs w' = model_runs w
           \<and> length (lane_sequences obs') = length (lane_sequences obs)
           \<and> (\<forall>i < length (lane_sequences obs).
                 length (feature_values_of cfg obs (lane_sequences obs ! i)) = feature_vector_size cfg
                 \<longrightarrow> lane_sequences obs' ! i =
                       (lane_sequences obs ! i)
                         \<lparr>mlp_features := mlp_features (lane_sequences obs ! i)
                            @ feature_values_of cfg obs (lane_sequences obs ! i)\<rparr>)
           \<and> feature_output w' = feature_output w @ [latest_feature obs']
           \<and> obs' = with_lane_sequences obs (lane_sequences obs')"
    if ret: "Evaluate cfg w obs = Inr (obs', w')" for obs' w'
  proof -
    note seqs = Evaluate_sequences [OF assms(2-4) ret]
    have len: "length (lane_sequences obs') = length (lane_sequences obs)"
      using seqs by blast
    have body: "\<exists>runs. Evaluate_body cfg obs (lane_sequences obs ! i)
                         = Inr (lane_sequences obs' ! i, runs)"
      if "i < length (lane_sequences obs)" for i
      using seqs that by blast
    have each: "lane_sequences obs' ! i =
                     (lane_sequences obs ! i)
                       \<lparr>mlp_features := mlp_features (lane_sequences obs ! i)
                          @ feature_values_of cfg obs (lane_sequences obs ! i)\<rparr>"
      if i: "i < length (lane_sequences obs)"
        and full: "length (feature_values_of cfg obs (lane_sequences obs ! i)) = feature_vector_size cfg"
      for i
    proof -
      obtain runs where "Evaluate_body cfg obs (lane_sequences obs ! i)
                         = Inr (lane_sequences obs' ! i, runs)"
        using body [OF i] by blast
      from Evaluate_body_result [OF this] show ?thesis
        using assms(1) full by auto
    qed
    have run: "(case Evaluate_body cfg obs seq of Inl e \<Rightarrow> [] | Inr r \<Rightarrow> snd r) = []"
      if mem: "seq \<in> set (lane_sequences obs)" for seq
    proof -
      obtain i where i: "i < length (lane_sequences obs)" "seq = lane_sequences obs ! i"
        using mem by (auto simp: in_set_conv_nth)
      obtain runs where b: "Evaluate_body cfg obs seq = Inr (lane_sequences obs' ! i, runs)"
        using body [OF i(1)] i(2) by blast
      from Evaluate_body_result [OF this] show ?thesis
        using assms(1) by (auto simp: b)
    qed
    have "model_runs w' = model_runs w @
             concat (map (\<lambda>seq. case Evaluate_body cfg obs seq of Inl e \<Rightarrow> [] | Inr r \<Rightarrow> snd r)
                       (lane_sequences obs))"
      using seqs by blast
    also have "map (\<lambda>seq. case Evaluate_body cfg obs seq of Inl e \<Rightarrow> [] | Inr r \<Rightarrow> snd r)
                       (lane_sequences obs)
        = map (\<lambda>seq. []) (lane_sequences obs)"
      by (rule map_cong) (simp_all add: run)
    finally have runs: "model_runs w' = model_runs w"
      by simp
    have out: "feature_output w' = feature_output w @ [latest_feature obs']"
      using seqs assms(1,5) by simp
    have frame: "obs' = with_lane_sequences obs (lane_sequences obs')"
      using seqs by blast
    show ?thesis
      using len each runs out frame by blast
  qed
  show ?thesis
    using returns result by blast
qed

section \<open>A run with two candidates\<close>

lemma length_SetObstacleFeatureValues_pos:
  "0 < count (history_state cfg obs) \<Longrightarrow>
     length (SetObstacleFeatureValues cfg obs) = 23 + 9 * cruise_historical_frame_length cfg"
  by (simp add: SetObstacleFeatureValues_def Let_def length_legacy_features length_window_features)

lemma SetInteractionFeatureValues_no_nearby:
  "nearby_obstacle seq = [] \<Longrightarrow>
     SetInteractionFeatureValues cfg obs seq =
       Inr [default_s_if_no_obstacle_in_lane_sequence cfg,
            default_l_if_no_obstacle_in_lane_sequence cfg, 0, 0,
            - default_s_if_no_obstacle_in_lane_sequence cfg,
            default_l_if_no_obstacle_in_lane_sequence cfg, 0, 0]"
  by (simp add: SetInteractionFeatureValues_def nearest_obstacles_def length_and_speed_def
      init_forward_obstacle_def init_backward_obstacle_def)

lemma feature_values_of_length:
  assumes "length (SetObstacleFeatureValues cfg obs) = OBSTACLE_FEATURE_SIZE cfg"
    and "SetInteractionFeatureValues cfg obs seq = Inr iv"
  shows "\<exists>seq1. ExtractFeatureValues cfg obs seq [] = Inr (seq1, feature_values_of cfg obs seq)"
    and "length (feature_values_of cfg obs seq) =
           OBSTACLE_FEATURE_SIZE cfg + 8 +
             (if length (SetLaneFeatureValues cfg obs seq) = 4 * LANE_POINTS_SIZE cfg
              then 4 * LANE_POINTS_SIZE cfg else 0)"
proof -
  have len: "length iv = 8"
    using length_SetInteractionFeatureValues [OF assms(2)] .
  show "\<exists>seq1. ExtractFeatureValues cfg obs seq [] = Inr (seq1, feature_values_of cfg obs seq)"
    using assms len
    by (simp add: feature_values_of_def ExtractFeatureValues_def Let_def
        INTERACTION_FEATURE_SIZE_def)
  show "length (feature_values_of cfg obs seq) =
           OBSTACLE_FEATURE_SIZE cfg + 8 +
             (if length (SetLaneFeatureValues cfg obs seq) = 4 * LANE_POINTS_SIZE cfg
              then 4 * LANE_POINTS_SIZE cfg else 0)"
    using assms len
    by (simp add: feature_values_of_def ExtractFeatureValues_def Let_def
        INTERACTION_FEATURE_SIZE_def SINGLE_LANE_FEATURE_SIZE_def)
qed

lemma offline_env_fields:
  "OBSTACLE_FEATURE_SIZE offline_env = 41"
  "LANE_POINTS_SIZE offline_env = 3"
  "cruise_historical_frame_length offline_env = 2"
  "prediction_offline_mode offline_env"
  "feature_vector_size offline_env = 61"
  by (simp_all add: offline_env_def example_env_def feature_vector_size_def
      INTERACTION_FEATURE_SIZE_def SINGLE_LANE_FEATURE_SIZE_def)

lemma two_candidate_fields:
  "IsInitialized (latest_feature two_candidate_obstacle)"
  "has_position (latest_feature two_candidate_obstacle)"
  "has_lane (latest_feature two_candidate_obstacle)"
  "has_lane_graph (lane (latest_feature two_candidate_obstacle))"
  "lane_sequences two_candidate_obstacle = [example_sequence, three_point_sequence]"
  by (simp_all add: two_candidate_obstacle_def example_feature_def example_lane_def
      lane_sequences_def)

lemma two_candidate_count:
  "count (history_state example_env two_candidate_obstacle) = 1"
  "count (history_state offline_env two_candidate_obstacle) = 1"
  by (simp_all add: history_state_def Let_def feature_history_def two_candidate_obstacle_def
      init_hist_state_def example_env_def offline_env_def example_feature_def example_lane_def
      obstacle_timestamp_def collect_lane_feature_def update_window_def numeral_2_eq_2)

lemma example_sequence_fields:
  "nearby_obstacle example_sequence = []" "nearby_obstacle three_point_sequence = []"
  "length (positioned_points example_sequence) = 0"
  "length (positioned_points three_point_sequence) = 3"
  "vehicle_on_lane three_point_sequence"
  "probability example_sequence = Some (1 / 2)" "probability three_point_sequence = Some (1 / 2)"
  "time_to_lane_center example_sequence = None" "time_to_lane_center three_point_sequence = None"
  "mlp_features three_point_sequence = []"
  by (simp_all add: example_sequence_def three_point_sequence_def positioned_points_def
      example_lane_point_def)

lemma two_candidate_lengths:
  assumes "cfg = example_env \<or> cfg = offline_env"
  shows "length (feature_values_of cfg two_candidate_obstacle example_sequence) = 49"
    and "length (feature_values_of cfg two_candidate_obstacle three_point_sequence) = 61"
    and "\<exists>x. ExtractFeatureValues cfg two_candidate_obstacle example_sequence [] = Inr x"
    and "\<exists>x. ExtractFeatureValues cfg two_candidate_obstacle three_point_sequence [] = Inr x"
proof -
  have c: "0 < count (history_state cfg two_candidate_obstacle)"
    using assms two_candidate_count by auto
  have f: "OBSTACLE_FEATURE_SIZE cfg = 41" "LANE_POINTS_SIZE cfg = 3"
    "cruise_historical_frame_length cfg = 2"
    using assms example_env_fields offline_env_fields by auto
  have ob: "length (SetObstacleFeatureValues cfg two_candidate_obstacle) = OBSTACLE_FEATURE_SIZE cfg"
    using length_SetObstacleFeatureValues_pos [OF c] by (simp add: f)
  have l1: "length (SetLaneFeatureValues cfg two_candidate_obstacle example_sequence) = 0"
    using length_SetLaneFeatureValues [OF two_candidate_fields(1,2), of cfg example_sequence]
    by (simp add: example_sequence_fields f)
  have l2: "length (SetLaneFeatureValues cfg two_candidate_obstacle three_point_sequence) = 12"
    using length_SetLaneFeatureValues [OF two_candidate_fields(1,2), of cfg three_point_sequence]
    by (simp add: example_sequence_fields f)
  note i1 = SetInteractionFeatureValues_no_nearby [OF example_sequence_fields(1), of cfg two_candidate_obstacle]
  note i2 = SetInteractionFeatureValues_no_nearby [OF example_sequence_fields(2), of cfg two_candidate_obstacle]
  show "length (feature_values_of cfg two_candidate_obstacle example_sequence) = 49"
    using feature_values_of_length(2) [OF ob i1] by (simp add: l1 f)
  show "length (feature_values_of cfg two_candidate_obstacle three_point_sequence) = 61"
    using feature_values_of_length(2) [OF ob i2] by (simp add: l2 f)
  show "\<exists>x. ExtractFeatureValues cfg two_candidate_obstacle example_sequence [] = Inr x"
    using feature_values_of_length(1) [OF ob i1] by blast
  show "\<exists>x. ExtractFeatureValues cfg two_candidate_obstacle three_point_sequence [] = Inr x"
    using feature_values_of_length(1) [OF ob i2] by blast
qed

lemma two_candidate_returns:
  assumes "cfg = example_env \<or> cfg = offline_env"
  shows "\<exists>obs' w'. Evaluate cfg empty_world two_candidate_obstacle = Inr (obs', w')"
proof (rule Evaluate_returns)
  have mode: "prediction_offline_mode cfg
                \<or> (0 < OBSTACLE_FEATURE_SIZE cfg \<and> 0 < LANE_POINTS_SIZE cfg)"
    using assms example_env_fields offline_env_fields by auto
  show "\<forall>seq \<in> set (lane_sequences two_candidate_obstacle).
          \<exists>r. Evaluate_body cfg two_candidate_obstacle seq = Inr r"
    using two_candidate_lengths(3,4) [OF assms] Evaluate_body_returns mode
    by (auto simp: two_candidate_fields)
qed

theorem ExtractFeatureValues_lengths_witness:
  "nearby_obstacle three_point_sequence = []
   \<and> nearby_obstacle example_sequence = []
   \<and> length (SetObstacleFeatureValues example_env two_candidate_obstacle)
       = OBSTACLE_FEATURE_SIZE example_env
   \<and> length (SetLaneFeatureValues example_env two_candidate_obstacle three_point_sequence)
       = SINGLE_LANE_FEATURE_SIZE * LANE_POINTS_SIZE example_env
   \<and> SetLaneFeatureValues example_env two_candidate_obstacle example_sequence = []
   \<and> (\<exists>seq' fv. ExtractFeatureValues example_env two_candidate_obstacle three_point_sequence []
                 = Inr (seq', fv)
             \<and> length fv = 61
             \<and> length fv = feature_vector_size example_env)
   \<and> (\<exists>seq' fv. ExtractFeatureValues example_env two_candidate_obstacle example_sequence []
                 = Inr (seq', fv)
             \<and> length fv = 49
             \<and> take 41 fv = SetObstacleFeatureValues example_env two_candidate_obstacle)"
proof -
  note full = ExtractFeatureValues_lengths [of three_point_sequence example_env two_candidate_obstacle]
  note short = ExtractFeatureValues_lengths [of example_sequence example_env two_candidate_obstacle]
  have ob: "length (SetObstacleFeatureValues example_env two_candidate_obstacle)
              = OBSTACLE_FEATURE_SIZE example_env"
    using length_SetObstacleFeatureValues_pos [of example_env two_candidate_obstacle]
    by (simp add: two_candidate_count example_env_fields)
  have l3: "length (SetLaneFeatureValues example_env two_candidate_obstacle three_point_sequence)
              = SINGLE_LANE_FEATURE_SIZE * LANE_POINTS_SIZE example_env"
    using length_SetLaneFeatureValues [OF two_candidate_fields(1,2), of example_env
        three_point_sequence]
    by (simp add: example_sequence_fields example_env_fields SINGLE_LANE_FEATURE_SIZE_def)
  have l0: "SetLaneFeatureValues example_env two_candidate_obstacle example_sequence = []"
    using length_SetLaneFeatureValues [OF two_candidate_fields(1,2), of example_env
        example_sequence]
    by (simp add: example_sequence_fields example_env_fields)
  have i3: "\<exists>iv. SetInteractionFeatureValues example_env two_candidate_obstacle
                   three_point_sequence = Inr iv \<and> length iv = INTERACTION_FEATURE_SIZE"
    by (simp add: SetInteractionFeatureValues_no_nearby example_sequence_fields
        INTERACTION_FEATURE_SIZE_def)
  have "\<forall>n \<in> set (nearby_obstacle three_point_sequence).
          GetObstacle example_env (nearby_id n) \<noteq> None"
    by (simp add: example_sequence_fields)
  with full obtain s3 fv3 where
    ex3: "ExtractFeatureValues example_env two_candidate_obstacle three_point_sequence []
           = Inr (s3, fv3)"
    by fastforce
  from full [THEN conjunct2, rule_format, OF ex3] ob l3 i3
  have "length fv3 = OBSTACLE_FEATURE_SIZE example_env + INTERACTION_FEATURE_SIZE
                         + SINGLE_LANE_FEATURE_SIZE * LANE_POINTS_SIZE example_env"
    by blast
  then have len3: "length fv3 = 61" "length fv3 = feature_vector_size example_env"
    by (simp_all add: example_env_fields INTERACTION_FEATURE_SIZE_def SINGLE_LANE_FEATURE_SIZE_def)
  have "\<forall>n \<in> set (nearby_obstacle example_sequence).
          GetObstacle example_env (nearby_id n) \<noteq> None"
    by (simp add: example_sequence_fields)
  with short obtain s0 fv0 where
    ex0: "ExtractFeatureValues example_env two_candidate_obstacle example_sequence []
           = Inr (s0, fv0)"
    by fastforce
  from short [THEN conjunct2, rule_format, OF ex0] ob
  obtain iv where iv: "length iv = INTERACTION_FEATURE_SIZE"
    and fv0: "fv0 = (if length (SetLaneFeatureValues example_env two_candidate_obstacle
                                  example_sequence)
                          = SINGLE_LANE_FEATURE_SIZE * LANE_POINTS_SIZE example_env
                     then SetObstacleFeatureValues example_env two_candidate_obstacle @ iv
                            @ SetLaneFeatureValues example_env two_candidate_obstacle
                                example_sequence
                     else SetObstacleFeatureValues example_env two_candidate_obstacle @ iv)"
    by blast
  have fv0': "fv0 = SetObstacleFeatureValues example_env two_candidate_obstacle @ iv"
    using fv0 by (simp add: l0)
  have len0: "length fv0 = 49"
    using ob iv by (simp add: fv0' example_env_fields INTERACTION_FEATURE_SIZE_def)
  have pre0: "take 41 fv0 = SetObstacleFeatureValues example_env two_candidate_obstacle"
    using ob by (simp add: fv0' example_env_fields)
  show ?thesis
    using ob l3 l0 ex3 len3 ex0 len0 pre0 by (auto simp: example_sequence_fields)
qed

lemma two_candidate_ids:
  "\<forall>seq \<in> set (lane_sequences two_candidate_obstacle). \<forall>n \<in> set (nearby_obstacle seq).
     GetObstacle cfg (nearby_id n) \<noteq> None"
  by (simp add: two_candidate_fields example_sequence_fields)

lemma example_models:
  "model_of example_env GoModel lm om = (3 / 4, 2)"
  "model_kind_of three_point_sequence = GoModel"
  by (simp_all add: model_of_def example_env_def model_kind_of_def example_sequence_fields)

theorem Evaluate_online_dispatch_witness:
  "\<not> prediction_offline_mode example_env
   \<and> IsInitialized (latest_feature two_candidate_obstacle)
   \<and> has_lane (latest_feature two_candidate_obstacle)
   \<and> has_lane_graph (lane (latest_feature two_candidate_obstacle))
   \<and> lane_sequences two_candidate_obstacle = [example_sequence, three_point_sequence]
   \<and> (\<exists>obs' w'. Evaluate example_env empty_world two_candidate_obstacle = Inr (obs', w')
         \<and> map probability (lane_sequences obs') = [Some 0, Some (3 / 4)]
         \<and> map time_to_lane_center (lane_sequences obs') = [None, Some 2]
         \<and> map fst (model_runs w') = [GoModel])"
proof -
  have online: "\<not> prediction_offline_mode example_env"
    by (simp add: example_env_fields)
  note both = Evaluate_online_dispatch [OF online two_candidate_fields(1,3,4), of empty_world]
  have "0 < OBSTACLE_FEATURE_SIZE example_env \<and> 0 < LANE_POINTS_SIZE example_env"
    by (simp add: example_env_fields)
  with both two_candidate_ids [of example_env] obtain obs' w' where
    ret: "Evaluate example_env empty_world two_candidate_obstacle = Inr (obs', w')"
    by blast
  note main = both [THEN conjunct2, rule_format, OF ret]
  have len: "length (lane_sequences obs') = 2"
    using main by (simp add: two_candidate_fields)
  have l: "length (feature_values_of example_env two_candidate_obstacle example_sequence) = 49"
    "length (feature_values_of example_env two_candidate_obstacle three_point_sequence) = 61"
    using two_candidate_lengths(1,2) [of example_env] by simp_all
  from main have "\<forall>i < 2. lane_sequences obs' ! i =
               (if length (feature_values_of example_env two_candidate_obstacle
                             ([example_sequence, three_point_sequence] ! i))
                     \<noteq> feature_vector_size example_env
                then ([example_sequence, three_point_sequence] ! i)\<lparr>probability := Some 0\<rparr>
                else ([example_sequence, three_point_sequence] ! i)
                  \<lparr>probability :=
                     Some (fst (model_of example_env
                       (model_kind_of ([example_sequence, three_point_sequence] ! i))
                       (lane_matrix example_env (feature_values_of example_env
                          two_candidate_obstacle ([example_sequence, three_point_sequence] ! i)))
                       (obstacle_matrix example_env (feature_values_of example_env
                          two_candidate_obstacle ([example_sequence, three_point_sequence] ! i))))),
                   time_to_lane_center :=
                     Some (snd (model_of example_env
                       (model_kind_of ([example_sequence, three_point_sequence] ! i))
                       (lane_matrix example_env (feature_values_of example_env
                          two_candidate_obstacle ([example_sequence, three_point_sequence] ! i)))
                       (obstacle_matrix example_env (feature_values_of example_env
                          two_candidate_obstacle ([example_sequence, three_point_sequence] ! i)))))\<rparr>)"
    by (simp only: two_candidate_fields(5)) simp
  then have s0: "lane_sequences obs' ! 0 = example_sequence\<lparr>probability := Some 0\<rparr>"
    and s1: "lane_sequences obs' ! 1 =
               three_point_sequence\<lparr>probability := Some (3 / 4), time_to_lane_center := Some 2\<rparr>"
    by (simp_all add: l example_env_fields example_models)
  have seqs: "lane_sequences obs' =
                [example_sequence\<lparr>probability := Some 0\<rparr>,
                 three_point_sequence\<lparr>probability := Some (3 / 4), time_to_lane_center := Some 2\<rparr>]"
    using len s0 s1 by (auto simp: list_eq_iff_nth_eq less_Suc_eq numeral_2_eq_2)
  from main have "model_runs w' = model_runs empty_world @
           concat (map (\<lambda>seq. if length (feature_values_of example_env two_candidate_obstacle seq)
                                   \<noteq> feature_vector_size example_env
                              then []
                              else [(model_kind_of seq,
                                     lane_matrix example_env
                                       (feature_values_of example_env two_candidate_obstacle seq),
                                     obstacle_matrix example_env
                                       (feature_values_of example_env two_candidate_obstacle seq))])
                     [example_sequence, three_point_sequence])"
    by (simp only: two_candidate_fields(5))
  then have runs: "map fst (model_runs w') = [GoModel]"
    by (simp add: l example_env_fields example_models empty_world_def)
  show ?thesis
    using online two_candidate_fields ret runs
    by (auto simp: seqs example_sequence_fields)
qed

lemma offline_run:
  "Evaluate offline_env empty_world two_candidate_obstacle
     = Inr (offline_result, \<lparr>model_runs = [], feature_output = [latest_feature offline_result]\<rparr>)"
proof -
  obtain obs' w' where
    ret: "Evaluate offline_env empty_world two_candidate_obstacle = Inr (obs', w')"
    using two_candidate_returns [of offline_env] by auto
  note seqs = Evaluate_sequences [OF two_candidate_fields(1,3,4) ret]
  have l: "length (feature_values_of offline_env two_candidate_obstacle example_sequence) = 49"
    "length (feature_values_of offline_env two_candidate_obstacle three_point_sequence) = 61"
    using two_candidate_lengths(1,2) [of offline_env] by simp_all
  have len: "length (lane_sequences obs') = 2"
    using seqs by (simp add: two_candidate_fields)
  obtain r0 where "Evaluate_body offline_env two_candidate_obstacle example_sequence
                       = Inr (lane_sequences obs' ! 0, r0)"
    using seqs by (auto simp: two_candidate_fields)
  from Evaluate_body_result [OF this]
  have s0: "lane_sequences obs' ! 0 = example_sequence\<lparr>probability := Some 0\<rparr>" and r0: "r0 = []"
    by (simp_all add: l offline_env_fields)
  obtain r1 where "Evaluate_body offline_env two_candidate_obstacle three_point_sequence
                       = Inr (lane_sequences obs' ! 1, r1)"
    using seqs by (auto simp: two_candidate_fields)
  from Evaluate_body_result [OF this]
  have s1: "lane_sequences obs' ! 1 = three_point_sequence\<lparr>mlp_features :=
              feature_values_of offline_env two_candidate_obstacle three_point_sequence\<rparr>"
    and r1: "r1 = []"
    by (simp_all add: l offline_env_fields example_sequence_fields)
  have list: "lane_sequences obs' =
                [example_sequence\<lparr>probability := Some 0\<rparr>,
                 three_point_sequence\<lparr>mlp_features :=
                   feature_values_of offline_env two_candidate_obstacle three_point_sequence\<rparr>]"
    using len s0 s1 by (auto simp: list_eq_iff_nth_eq less_Suc_eq numeral_2_eq_2)
  have obs': "obs' = offline_result"
    using seqs by (simp add: list offline_result_def)
  have b0: "Evaluate_body offline_env two_candidate_obstacle example_sequence
              = Inr (lane_sequences obs' ! 0, [])"
    and b1: "Evaluate_body offline_env two_candidate_obstacle three_point_sequence
              = Inr (lane_sequences obs' ! 1, [])"
    using \<open>Evaluate_body offline_env two_candidate_obstacle example_sequence
                       = Inr (lane_sequences obs' ! 0, r0)\<close>
      \<open>Evaluate_body offline_env two_candidate_obstacle three_point_sequence
                       = Inr (lane_sequences obs' ! 1, r1)\<close> r0 r1 by simp_all
  have "model_runs w' = []" "feature_output w' = [latest_feature obs']"
    using seqs by (simp_all add: two_candidate_fields b0 b1 empty_world_def offline_env_fields)
  then have "w' = \<lparr>model_runs = [], feature_output = [latest_feature offline_result]\<rparr>"
    by (cases w') (simp add: obs')
  then show ?thesis
    using ret obs' by simp
qed

text \<open>
  In the offline mode, the second candidate of the obstacle with two candidates has a
  feature vector of the declared length, and \<^verbatim>\<open>Evaluate\<close> runs no model and leaves its
  probability and time as they were.
\<close>

theorem offline_no_dispatch_counterexample:
  "prediction_offline_mode offline_env
   \<and> lane_sequences two_candidate_obstacle = [example_sequence, three_point_sequence]
   \<and> length (feature_values_of offline_env two_candidate_obstacle three_point_sequence)
       = feature_vector_size offline_env
   \<and> Evaluate offline_env empty_world two_candidate_obstacle
       = Inr (offline_result, \<lparr>model_runs = [], feature_output = [latest_feature offline_result]\<rparr>)
   \<and> probability (lane_sequences offline_result ! 1) = probability three_point_sequence
   \<and> time_to_lane_center (lane_sequences offline_result ! 1) = None"
  using two_candidate_lengths(2) [of offline_env]
  by (simp add: offline_run offline_env_fields two_candidate_fields offline_result_def
      lane_sequences_with example_sequence_fields)

theorem Evaluate_offline_capture_witness:
  "prediction_offline_mode offline_env
   \<and> IsInitialized (latest_feature two_candidate_obstacle)
   \<and> has_lane (latest_feature two_candidate_obstacle)
   \<and> has_lane_graph (lane (latest_feature two_candidate_obstacle))
   \<and> lane_sequences two_candidate_obstacle = [example_sequence, three_point_sequence]
   \<and> length (feature_values_of offline_env two_candidate_obstacle three_point_sequence)
       = feature_vector_size offline_env
   \<and> (\<exists>obs' w'. Evaluate offline_env empty_world two_candidate_obstacle = Inr (obs', w')
         \<and> model_runs w' = []
         \<and> feature_output w' = [latest_feature obs']
         \<and> lane_sequences obs' ! 1 = three_point_sequence\<lparr>mlp_features :=
              feature_values_of offline_env two_candidate_obstacle three_point_sequence\<rparr>)"
proof -
  have ne: "lane_sequences two_candidate_obstacle \<noteq> []"
    by (simp add: two_candidate_fields)
  have full: "length (feature_values_of offline_env two_candidate_obstacle three_point_sequence)
       = feature_vector_size offline_env"
    using two_candidate_lengths(2) [of offline_env] by (simp add: offline_env_fields)
  note both = Evaluate_offline_capture [OF offline_env_fields(4) two_candidate_fields(1,3,4) ne,
      of empty_world]
  with two_candidate_ids [of offline_env] obtain obs' w' where
    ret: "Evaluate offline_env empty_world two_candidate_obstacle = Inr (obs', w')"
    by blast
  note main = both [THEN conjunct2, rule_format, OF ret]
  have "model_runs w' = []" "feature_output w' = [latest_feature obs']"
    using main by (simp_all add: empty_world_def)
  moreover have "lane_sequences two_candidate_obstacle ! 1 = three_point_sequence"
    by (simp add: two_candidate_fields)
  then have "lane_sequences obs' ! 1 = three_point_sequence\<lparr>mlp_features :=
              feature_values_of offline_env two_candidate_obstacle three_point_sequence\<rparr>"
    using main full by (simp add: two_candidate_fields example_sequence_fields)
  ultimately show ?thesis
    using offline_env_fields(4) two_candidate_fields full ret by blast
qed

end
